theory Spec2Isabelle
  imports Main "HOL-Library.Char_ord" "HOL-Library.List_Lexorder"
begin

section \<open>Stored data\<close>

text \<open>
  The four tables of the relational store, one record per row. Column names are
  those of the SQL statements in \<^verbatim>\<open>app.py\<close>, prefixed by a letter for the table.
  Identifiers are natural numbers, dates are day numbers, timestamps are ticks of
  the backend clock. Text columns are byte strings compared lexicographically; the
  columns that the forms always fill hold a string, the optional ones may be absent.
\<close>

type_synonym ident = nat
type_synonym date = int
type_synonym timestamp = nat

record company =
  c_company_id :: ident
  c_company_name :: string
  c_sector :: string
  c_website :: string
  c_notes :: string
  c_source :: string
  c_created_at :: timestamp

record job =
  j_job_id :: ident
  j_job_title :: string
  j_company_id :: ident
  j_location :: string
  j_status :: string
  j_job_url :: string
  j_notes :: string
  j_date_found :: "date option"
  j_created_at :: timestamp

record recruiter =
  r_recruiter_id :: ident
  r_name :: string
  r_agency_company_id :: "ident option"
  r_contact_info :: string
  r_notes :: string
  r_first_contact_date :: "date option"
  r_created_at :: timestamp

record task =
  t_task_id :: ident
  t_task_description :: string
  t_due_date :: "date option"
  t_status :: string
  t_priority :: "string option"
  t_notes :: string
  t_job_id :: "ident option"
  t_recruiter_id :: "ident option"
  t_company_id :: "ident option"
  t_created_at :: timestamp

record db =
  companies :: "company list"
  jobs :: "job list"
  recruiters :: "recruiter list"
  tasks :: "task list"

section \<open>The backend behind the connection\<close>

text \<open>
  The state reached through the psycopg2 connection: the committed tables, the
  tables as the open transaction sees them, the identifier sequences, the clock and
  the decisions of the environment. \<open>faults\<close> lists, head first, whether each
  coming backend call (opening a cursor and executing a statement, or a commit)
  raises; the empty list means that no further call raises.
\<close>

text \<open>
  Modelled from the spec: the database schema, which is not part of the sources.
  Section 6 of the specification gives the columns and the primary keys; the INSERT
  statements of \<^verbatim>\<open>app.py\<close> supply neither the identifier nor \<open>created_at\<close>, so both
  are column defaults: the identifier is drawn from a sequence of its table, which a
  rollback does not reset, and \<open>created_at\<close> is read from the clock.
\<close>

record backend =
  committed :: db
  working :: db
  company_seq :: ident
  job_seq :: ident
  recruiter_seq :: ident
  task_seq :: ident
  clock :: timestamp
  faults :: "bool list"

datatype db_error = DbError

datatype connection = Connection

definition next_fault :: "backend \<Rightarrow> bool \<times> backend" where
  "next_fault b = (case faults b of [] \<Rightarrow> (False, b) | f # fs \<Rightarrow> (f, b\<lparr>faults := fs\<rparr>))"

definition execute :: "(backend \<Rightarrow> backend) \<Rightarrow> backend \<Rightarrow> (db_error + unit) \<times> backend" where
  "execute stmt b =
     (case next_fault b of
        (True, b') \<Rightarrow> (Inl DbError, b')
      | (False, b') \<Rightarrow> (Inr (), stmt b'))"

definition query :: "(db \<Rightarrow> 'a) \<Rightarrow> backend \<Rightarrow> (db_error + 'a) \<times> backend" where
  "query q b =
     (case next_fault b of
        (True, b') \<Rightarrow> (Inl DbError, b')
      | (False, b') \<Rightarrow> (Inr (q (working b')), b'))"

definition commit :: "backend \<Rightarrow> (db_error + unit) \<times> backend" where
  "commit b =
     (case next_fault b of
        (True, b') \<Rightarrow> (Inl DbError, b')
      | (False, b') \<Rightarrow> (Inr (), b'\<lparr>committed := working b'\<rparr>))"

text \<open>\<open>rollback\<close> is a backend call like the others and may raise, as it does on a
  connection that is lost. The server discards the open transaction of a lost
  connection, so what the open transaction wrote is gone in both cases.\<close>

definition rollback :: "backend \<Rightarrow> (db_error + unit) \<times> backend" where
  "rollback b =
     (case next_fault b of
        (True, b') \<Rightarrow> (Inl DbError, b'\<lparr>working := committed b'\<rparr>)
      | (False, b') \<Rightarrow> (Inr (), b'\<lparr>working := committed b'\<rparr>))"

text \<open>What Streamlit shows: \<^verbatim>\<open>st.success\<close>, \<^verbatim>\<open>st.error\<close>, \<^verbatim>\<open>st.warning\<close>, \<^verbatim>\<open>st.info\<close>.
  The text of a caught exception and interpolated values (identifiers, names, titles)
  are left out of the message.\<close>

datatype msg = Success string | Error string | Warning string | Info string

section \<open>SQL building blocks\<close>

text \<open>\<^verbatim>\<open>ORDER BY\<close>: a stable insertion sort under a list of column orders, the first
  column deciding, the next one breaking its ties.\<close>

definition ascending :: "('r \<Rightarrow> 'k::linorder) \<Rightarrow> 'r \<Rightarrow> 'r \<Rightarrow> bool" where
  "ascending key a b = (key a \<le> key b)"

definition descending :: "('r \<Rightarrow> 'k::linorder) \<Rightarrow> 'r \<Rightarrow> 'r \<Rightarrow> bool" where
  "descending key a b = (key b \<le> key a)"

definition ascending_nulls_last :: "('r \<Rightarrow> 'k::linorder option) \<Rightarrow> 'r \<Rightarrow> 'r \<Rightarrow> bool" where
  "ascending_nulls_last key a b =
     (case key b of None \<Rightarrow> True
      | Some y \<Rightarrow> (case key a of None \<Rightarrow> False | Some x \<Rightarrow> x \<le> y))"

definition descending_nulls_last :: "('r \<Rightarrow> 'k::linorder option) \<Rightarrow> 'r \<Rightarrow> 'r \<Rightarrow> bool" where
  "descending_nulls_last key a b =
     (case key b of None \<Rightarrow> True
      | Some y \<Rightarrow> (case key a of None \<Rightarrow> False | Some x \<Rightarrow> y \<le> x))"

fun order_by :: "('r \<Rightarrow> 'r \<Rightarrow> bool) list \<Rightarrow> 'r \<Rightarrow> 'r \<Rightarrow> bool" where
  "order_by [] a b = True"
| "order_by (le # les) a b =
     (if le a b then (if le b a then order_by les a b else True) else False)"

fun insort_by :: "('r \<Rightarrow> 'r \<Rightarrow> bool) \<Rightarrow> 'r \<Rightarrow> 'r list \<Rightarrow> 'r list" where
  "insort_by le x [] = [x]"
| "insort_by le x (y # ys) = (if le x y then x # y # ys else y # insort_by le x ys)"

definition sort_by :: "('r \<Rightarrow> 'r \<Rightarrow> bool) \<Rightarrow> 'r list \<Rightarrow> 'r list" where
  "sort_by le xs = foldr (insort_by le) xs []"

text \<open>\<^verbatim>\<open>LEFT JOIN\<close>: every left row once per matching right row, or once with no
  partner.\<close>

definition left_join :: "('a \<Rightarrow> 'b \<Rightarrow> bool) \<Rightarrow> 'a list \<Rightarrow> 'b list \<Rightarrow> ('a \<times> 'b option) list" where
  "left_join on xs ys =
     concat (map (\<lambda>x. case filter (on x) ys of
                         [] \<Rightarrow> [(x, None)]
                       | m # ms \<Rightarrow> map (\<lambda>y. (x, Some y)) (m # ms)) xs)"

section \<open>Listing queries\<close>

type_synonym job_row = "job \<times> string option"
type_synonym recruiter_row = "recruiter \<times> string option"
type_synonym task_row = "task \<times> string option \<times> string option \<times> string option"

definition select_all_companies :: "db \<Rightarrow> company list" where
  "select_all_companies d = sort_by (order_by [ascending c_company_name]) (companies d)"

definition select_all_jobs :: "db \<Rightarrow> job_row list" where
  "select_all_jobs d =
     map (\<lambda>(j, c). (j, map_option c_company_name c))
       (sort_by (order_by [descending (\<lambda>(j, c). j_created_at j)])
          (left_join (\<lambda>j c. j_company_id j = c_company_id c) (jobs d) (companies d)))"

definition select_all_recruiters :: "db \<Rightarrow> recruiter_row list" where
  "select_all_recruiters d =
     map (\<lambda>(r, c). (r, map_option c_company_name c))
       (sort_by (order_by [ascending (\<lambda>(r, c). r_name r)])
          (left_join (\<lambda>r c. r_agency_company_id r = Some (c_company_id c))
             (recruiters d) (companies d)))"

text \<open>The three joins shared by the task queries: tasks with their job, recruiter
  and company, each optional.\<close>

definition tasks_joined :: "db \<Rightarrow> (((task \<times> job option) \<times> recruiter option) \<times> company option) list" where
  "tasks_joined d =
     left_join (\<lambda>((t, j), r) cy. t_company_id t = Some (c_company_id cy))
       (left_join (\<lambda>(t, j) r. t_recruiter_id t = Some (r_recruiter_id r))
          (left_join (\<lambda>t j. t_job_id t = Some (j_job_id j)) (tasks d) (jobs d))
          (recruiters d))
       (companies d)"

definition task_of :: "((task \<times> job option) \<times> recruiter option) \<times> company option \<Rightarrow> task" where
  "task_of x = fst (fst (fst x))"

definition project_task :: "((task \<times> job option) \<times> recruiter option) \<times> company option \<Rightarrow> task_row" where
  "project_task x =
     (case x of (((t, j), r), cy) \<Rightarrow>
        (t, map_option j_job_title j, map_option r_name r, map_option c_company_name cy))"

text \<open>
  Modelled from the spec: the types of the \<open>status\<close> and \<open>priority\<close> columns of the
  \<open>tasks\<close> table, which the schema declares and the sources do not contain. The order
  that \<^verbatim>\<open>ORDER BY\<close> gives the values of a column belongs to its type: the order of
  declaration for an enumerated type, the collation order for text. The task listings
  therefore take it as a parameter: \<open>status_key\<close> and \<open>prio_key\<close> send a stored label to
  its place in the order of its column. Section 3 of the specification declares both
  columns as enumerations; \<open>status_rank\<close> and \<open>priority_rank\<close> are their orders.
\<close>

definition enum_rank :: "string list \<Rightarrow> string \<Rightarrow> nat" where
  "enum_rank labels v = length (takeWhile (\<lambda>l. l \<noteq> v) labels)"

definition status_rank :: "string \<Rightarrow> nat" where
  "status_rank =
     enum_rank [''Open'', ''In Progress'', ''Awaiting Feedback'', ''Completed'', ''Cancelled'']"

definition priority_rank :: "string \<Rightarrow> nat" where
  "priority_rank = enum_rank [''Low'', ''Medium'', ''High'']"

definition select_all_tasks :: "(string \<Rightarrow> 's::linorder) \<Rightarrow> (string \<Rightarrow> 'p::linorder) \<Rightarrow> db \<Rightarrow> task_row list" where
  "select_all_tasks status_key prio_key d =
     map project_task
       (sort_by (order_by [ascending_nulls_last (\<lambda>x. t_due_date (task_of x)),
                           ascending (\<lambda>x. status_key (t_status (task_of x))),
                           descending_nulls_last (\<lambda>x. map_option prio_key (t_priority (task_of x))),
                           descending (\<lambda>x. t_created_at (task_of x))])
          (tasks_joined d))"

definition select_upcoming_tasks :: "(string \<Rightarrow> 'p::linorder) \<Rightarrow> nat \<Rightarrow> db \<Rightarrow> task_row list" where
  "select_upcoming_tasks prio_key count d =
     map project_task
       (take count
          (sort_by (order_by [ascending_nulls_last (\<lambda>x. t_due_date (task_of x)),
                              ascending_nulls_last (\<lambda>x. map_option prio_key (t_priority (task_of x))),
                              ascending (\<lambda>x. t_created_at (task_of x))])
             (filter (\<lambda>x. t_status (task_of x) \<notin> {''Completed'', ''Cancelled''})
                (tasks_joined d))))"

definition get_all_companies :: "connection option \<Rightarrow> backend \<Rightarrow> company list \<times> msg list \<times> backend" where
  "get_all_companies db_conn b =
     (case db_conn of
        None \<Rightarrow> ([], [], b)
      | Some _ \<Rightarrow>
          (case query select_all_companies b of
             (Inr rows, b1) \<Rightarrow> (rows, [], b1)
           | (Inl e, b1) \<Rightarrow> ([], [Error ''DB Error (companies)''], b1)))"

definition get_all_jobs :: "connection option \<Rightarrow> backend \<Rightarrow> job_row list \<times> msg list \<times> backend" where
  "get_all_jobs db_conn b =
     (case db_conn of
        None \<Rightarrow> ([], [], b)
      | Some _ \<Rightarrow>
          (case query select_all_jobs b of
             (Inr rows, b1) \<Rightarrow> (rows, [], b1)
           | (Inl e, b1) \<Rightarrow> ([], [Error ''DB Error (get_all_jobs)''], b1)))"

definition get_all_recruiters :: "connection option \<Rightarrow> backend \<Rightarrow> recruiter_row list \<times> msg list \<times> backend" where
  "get_all_recruiters db_conn b =
     (case db_conn of
        None \<Rightarrow> ([], [], b)
      | Some _ \<Rightarrow>
          (case query select_all_recruiters b of
             (Inr rows, b1) \<Rightarrow> (rows, [], b1)
           | (Inl e, b1) \<Rightarrow> ([], [Error ''DB Error (recruiters)''], b1)))"

definition get_all_tasks :: "(string \<Rightarrow> 's::linorder) \<Rightarrow> (string \<Rightarrow> 'p::linorder) \<Rightarrow> connection option \<Rightarrow> backend \<Rightarrow> task_row list \<times> msg list \<times> backend" where
  "get_all_tasks status_key prio_key db_conn b =
     (case db_conn of
        None \<Rightarrow> ([], [], b)
      | Some _ \<Rightarrow>
          (case query (select_all_tasks status_key prio_key) b of
             (Inr rows, b1) \<Rightarrow> (rows, [], b1)
           | (Inl e, b1) \<Rightarrow> ([], [Error ''DB Error (get_all_tasks)''], b1)))"

definition get_upcoming_tasks :: "(string \<Rightarrow> 'p::linorder) \<Rightarrow> connection option \<Rightarrow> nat \<Rightarrow> backend \<Rightarrow> task_row list \<times> msg list \<times> backend" where
  "get_upcoming_tasks prio_key db_conn count b =
     (case db_conn of
        None \<Rightarrow> ([], [], b)
      | Some _ \<Rightarrow>
          (case query (select_upcoming_tasks prio_key count) b of
             (Inr rows, b1) \<Rightarrow> (rows, [], b1)
           | (Inl e, b1) \<Rightarrow> ([], [Error ''DB Error (upcoming_tasks)''], b1)))"

section \<open>Write statements\<close>

text \<open>The effect of each INSERT, UPDATE and DELETE statement of \<^verbatim>\<open>app.py\<close> on the
  tables of the open transaction, when the backend accepts it.\<close>

definition sql_insert_company :: "string \<Rightarrow> string \<Rightarrow> string \<Rightarrow> string \<Rightarrow> string \<Rightarrow> backend \<Rightarrow> backend" where
  "sql_insert_company name sector_val web notes_val src b =
     b\<lparr>working := (working b)\<lparr>companies := companies (working b) @
          [\<lparr>c_company_id = company_seq b, c_company_name = name, c_sector = sector_val,
            c_website = web, c_notes = notes_val, c_source = src, c_created_at = clock b\<rparr>]\<rparr>,
       company_seq := Suc (company_seq b), clock := Suc (clock b)\<rparr>"

definition sql_update_company :: "ident \<Rightarrow> string \<Rightarrow> string \<Rightarrow> string \<Rightarrow> string \<Rightarrow> string \<Rightarrow> backend \<Rightarrow> backend" where
  "sql_update_company cid name sector_val web notes_val src b =
     b\<lparr>working := (working b)\<lparr>companies :=
          map (\<lambda>c. if c_company_id c = cid
                    then c\<lparr>c_company_name := name, c_sector := sector_val, c_website := web,
                           c_notes := notes_val, c_source := src\<rparr>
                    else c) (companies (working b))\<rparr>\<rparr>"

definition sql_delete_company :: "ident \<Rightarrow> backend \<Rightarrow> backend" where
  "sql_delete_company cid b =
     b\<lparr>working := (working b)\<lparr>companies :=
          filter (\<lambda>c. c_company_id c \<noteq> cid) (companies (working b))\<rparr>\<rparr>"

definition sql_insert_job :: "string \<Rightarrow> ident \<Rightarrow> string \<Rightarrow> string \<Rightarrow> string \<Rightarrow> string \<Rightarrow> date option \<Rightarrow> backend \<Rightarrow> backend" where
  "sql_insert_job title comp_id loc stat url notes_val date_f b =
     b\<lparr>working := (working b)\<lparr>jobs := jobs (working b) @
          [\<lparr>j_job_id = job_seq b, j_job_title = title, j_company_id = comp_id,
            j_location = loc, j_status = stat, j_job_url = url, j_notes = notes_val,
            j_date_found = date_f, j_created_at = clock b\<rparr>]\<rparr>,
       job_seq := Suc (job_seq b), clock := Suc (clock b)\<rparr>"

definition sql_update_job :: "ident \<Rightarrow> string \<Rightarrow> ident \<Rightarrow> string \<Rightarrow> string \<Rightarrow> string \<Rightarrow> string \<Rightarrow> date option \<Rightarrow> backend \<Rightarrow> backend" where
  "sql_update_job j_id title comp_id loc stat url notes_val date_f b =
     b\<lparr>working := (working b)\<lparr>jobs :=
          map (\<lambda>j. if j_job_id j = j_id
                    then j\<lparr>j_job_title := title, j_company_id := comp_id, j_location := loc,
                           j_status := stat, j_job_url := url, j_notes := notes_val,
                           j_date_found := date_f\<rparr>
                    else j) (jobs (working b))\<rparr>\<rparr>"

definition sql_delete_job :: "ident \<Rightarrow> backend \<Rightarrow> backend" where
  "sql_delete_job job_id b =
     b\<lparr>working := (working b)\<lparr>jobs := filter (\<lambda>j. j_job_id j \<noteq> job_id) (jobs (working b))\<rparr>\<rparr>"

definition sql_insert_recruiter :: "string \<Rightarrow> ident option \<Rightarrow> string \<Rightarrow> string \<Rightarrow> date option \<Rightarrow> backend \<Rightarrow> backend" where
  "sql_insert_recruiter name agency_id contact notes_val date_f b =
     b\<lparr>working := (working b)\<lparr>recruiters := recruiters (working b) @
          [\<lparr>r_recruiter_id = recruiter_seq b, r_name = name, r_agency_company_id = agency_id,
            r_contact_info = contact, r_notes = notes_val, r_first_contact_date = date_f,
            r_created_at = clock b\<rparr>]\<rparr>,
       recruiter_seq := Suc (recruiter_seq b), clock := Suc (clock b)\<rparr>"

definition sql_update_recruiter :: "ident \<Rightarrow> string \<Rightarrow> ident option \<Rightarrow> string \<Rightarrow> string \<Rightarrow> date option \<Rightarrow> backend \<Rightarrow> backend" where
  "sql_update_recruiter rid name agency_id contact notes_val date_f b =
     b\<lparr>working := (working b)\<lparr>recruiters :=
          map (\<lambda>r. if r_recruiter_id r = rid
                    then r\<lparr>r_name := name, r_agency_company_id := agency_id,
                           r_contact_info := contact, r_notes := notes_val,
                           r_first_contact_date := date_f\<rparr>
                    else r) (recruiters (working b))\<rparr>\<rparr>"

definition sql_delete_recruiter :: "ident \<Rightarrow> backend \<Rightarrow> backend" where
  "sql_delete_recruiter rid b =
     b\<lparr>working := (working b)\<lparr>recruiters :=
          filter (\<lambda>r. r_recruiter_id r \<noteq> rid) (recruiters (working b))\<rparr>\<rparr>"

definition sql_insert_task :: "string \<Rightarrow> date option \<Rightarrow> string \<Rightarrow> string option \<Rightarrow> string \<Rightarrow> ident option \<Rightarrow> ident option \<Rightarrow> ident option \<Rightarrow> backend \<Rightarrow> backend" where
  "sql_insert_task desc due stat prio notes_val j_id rec_id comp_id b =
     b\<lparr>working := (working b)\<lparr>tasks := tasks (working b) @
          [\<lparr>t_task_id = task_seq b, t_task_description = desc, t_due_date = due,
            t_status = stat, t_priority = prio, t_notes = notes_val, t_job_id = j_id,
            t_recruiter_id = rec_id, t_company_id = comp_id, t_created_at = clock b\<rparr>]\<rparr>,
       task_seq := Suc (task_seq b), clock := Suc (clock b)\<rparr>"

definition sql_update_task :: "ident \<Rightarrow> string \<Rightarrow> date option \<Rightarrow> string \<Rightarrow> string option \<Rightarrow> string \<Rightarrow> ident option \<Rightarrow> ident option \<Rightarrow> ident option \<Rightarrow> backend \<Rightarrow> backend" where
  "sql_update_task task_id desc due stat prio notes_val j_id rec_id comp_id b =
     b\<lparr>working := (working b)\<lparr>tasks :=
          map (\<lambda>t. if t_task_id t = task_id
                    then t\<lparr>t_task_description := desc, t_due_date := due, t_status := stat,
                           t_priority := prio, t_notes := notes_val, t_job_id := j_id,
                           t_recruiter_id := rec_id, t_company_id := comp_id\<rparr>
                    else t) (tasks (working b))\<rparr>\<rparr>"

definition sql_delete_task :: "ident \<Rightarrow> backend \<Rightarrow> backend" where
  "sql_delete_task task_id b =
     b\<lparr>working := (working b)\<lparr>tasks := filter (\<lambda>t. t_task_id t \<noteq> task_id) (tasks (working b))\<rparr>\<rparr>"

section \<open>Write functions\<close>

text \<open>Each function gives its Python result, the messages it shows and the backend
  it leaves. The result is \<open>Inr r\<close> when the function returns \<open>r\<close> and \<open>Inl e\<close> when an
  exception leaves it: \<^verbatim>\<open>db_conn.rollback()\<close> is the first statement of every
  \<^verbatim>\<open>except\<close> branch and nothing catches what it raises. \<open>db_conn\<close> is \<open>None\<close> or the
  connection object.\<close>

definition add_new_job :: "connection option \<Rightarrow> string \<Rightarrow> ident option \<Rightarrow> string \<Rightarrow> string \<Rightarrow> string \<Rightarrow> string \<Rightarrow> date option \<Rightarrow> backend \<Rightarrow> (db_error + bool) \<times> msg list \<times> backend" where
  "add_new_job db_conn title comp_id loc stat url notes_val date_f b =
     (case db_conn of
        None \<Rightarrow> (Inr False, [Error ''DB not connected.''], b)
      | Some _ \<Rightarrow>
          if title = [] then (Inr False, [Error ''Job Title required.''], b)
          else
          (case comp_id of
             None \<Rightarrow> (Inr False, [Error ''Company required.''], b)
           | Some cid \<Rightarrow>
                 (case execute (sql_insert_job title cid loc stat url notes_val date_f) b of
                    (Inl e, b1) \<Rightarrow>
                      (case rollback b1 of
                         (Inl e2, b2) \<Rightarrow> (Inl e2, [], b2)
                       | (Inr _, b2) \<Rightarrow> (Inr False, [Error ''DB Error (add job)''], b2))
                  | (Inr _, b1) \<Rightarrow>
                      (case commit b1 of
                         (Inl e, b2) \<Rightarrow>
                           (case rollback b2 of
                              (Inl e2, b3) \<Rightarrow> (Inl e2, [], b3)
                            | (Inr _, b3) \<Rightarrow> (Inr False, [Error ''DB Error (add job)''], b3))
                       | (Inr _, b2) \<Rightarrow> (Inr True, [], b2)))))"

definition update_job_details :: "connection option \<Rightarrow> ident \<Rightarrow> string \<Rightarrow> ident option \<Rightarrow> string \<Rightarrow> string \<Rightarrow> string \<Rightarrow> string \<Rightarrow> date option \<Rightarrow> backend \<Rightarrow> (db_error + bool) \<times> msg list \<times> backend" where
  "update_job_details db_conn j_id title comp_id loc stat url notes_val date_f b =
     (case db_conn of
        None \<Rightarrow> (Inr False, [Error ''DB not connected.''], b)
      | Some _ \<Rightarrow>
          if j_id = 0 \<or> title = [] \<or> stat = [] then (Inr False, [Error ''Job ID, Title, Status required for update.''], b)
          else
          (case comp_id of
             None \<Rightarrow> (Inr False, [Error ''Company required for update.''], b)
           | Some cid \<Rightarrow>
                 (case execute (sql_update_job j_id title cid loc stat url notes_val date_f) b of
                    (Inl e, b1) \<Rightarrow>
                      (case rollback b1 of
                         (Inl e2, b2) \<Rightarrow> (Inl e2, [], b2)
                       | (Inr _, b2) \<Rightarrow> (Inr False, [Error ''DB Error (update job)''], b2))
                  | (Inr _, b1) \<Rightarrow>
                      (case commit b1 of
                         (Inl e, b2) \<Rightarrow>
                           (case rollback b2 of
                              (Inl e2, b3) \<Rightarrow> (Inl e2, [], b3)
                            | (Inr _, b3) \<Rightarrow> (Inr False, [Error ''DB Error (update job)''], b3))
                       | (Inr _, b2) \<Rightarrow> (Inr True, [], b2)))))"

definition delete_job_record :: "connection option \<Rightarrow> ident \<Rightarrow> backend \<Rightarrow> (db_error + bool) \<times> msg list \<times> backend" where
  "delete_job_record db_conn job_id b =
     (case db_conn of
        None \<Rightarrow> (Inr False, [Error ''DB not connected.''], b)
      | Some _ \<Rightarrow>
          if job_id = 0 then (Inr False, [Error ''Job ID required for deletion.''], b)
          else
            (case execute (sql_delete_job job_id) b of
               (Inl e, b1) \<Rightarrow>
                 (case rollback b1 of
                    (Inl e2, b2) \<Rightarrow> (Inl e2, [], b2)
                  | (Inr _, b2) \<Rightarrow> (Inr False, [Error ''DB Error (delete job)''], b2))
             | (Inr _, b1) \<Rightarrow>
                 (case commit b1 of
                    (Inl e, b2) \<Rightarrow>
                      (case rollback b2 of
                         (Inl e2, b3) \<Rightarrow> (Inl e2, [], b3)
                       | (Inr _, b3) \<Rightarrow> (Inr False, [Error ''DB Error (delete job)''], b3))
                  | (Inr _, b2) \<Rightarrow> (Inr True, [], b2))))"

definition add_new_recruiter :: "connection option \<Rightarrow> string \<Rightarrow> ident option \<Rightarrow> string \<Rightarrow> string \<Rightarrow> date option \<Rightarrow> backend \<Rightarrow> (db_error + bool) \<times> msg list \<times> backend" where
  "add_new_recruiter db_conn name agency_id contact notes_val date_f b =
     (case db_conn of
        None \<Rightarrow> (Inr False, [Error ''DB not connected''], b)
      | Some _ \<Rightarrow>
          if name = [] then (Inr False, [Error ''Recruiter name required''], b)
          else
            (case execute (sql_insert_recruiter name agency_id contact notes_val date_f) b of
               (Inl e, b1) \<Rightarrow>
                 (case rollback b1 of
                    (Inl e2, b2) \<Rightarrow> (Inl e2, [], b2)
                  | (Inr _, b2) \<Rightarrow> (Inr False, [Error ''DB Error (add recruiter)''], b2))
             | (Inr _, b1) \<Rightarrow>
                 (case commit b1 of
                    (Inl e, b2) \<Rightarrow>
                      (case rollback b2 of
                         (Inl e2, b3) \<Rightarrow> (Inl e2, [], b3)
                       | (Inr _, b3) \<Rightarrow> (Inr False, [Error ''DB Error (add recruiter)''], b3))
                  | (Inr _, b2) \<Rightarrow> (Inr True, [], b2))))"

definition add_new_company :: "connection option \<Rightarrow> string \<Rightarrow> string \<Rightarrow> string \<Rightarrow> string \<Rightarrow> string \<Rightarrow> backend \<Rightarrow> (db_error + bool) \<times> msg list \<times> backend" where
  "add_new_company db_conn name sector_val web notes_val src b =
     (case db_conn of
        None \<Rightarrow> (Inr False, [Error ''DB not connected''], b)
      | Some _ \<Rightarrow>
          if name = [] then (Inr False, [Error ''Company name required''], b)
          else
            (case execute (sql_insert_company name sector_val web notes_val src) b of
               (Inl e, b1) \<Rightarrow>
                 (case rollback b1 of
                    (Inl e2, b2) \<Rightarrow> (Inl e2, [], b2)
                  | (Inr _, b2) \<Rightarrow> (Inr False, [Error ''DB Error (add company)''], b2))
             | (Inr _, b1) \<Rightarrow>
                 (case commit b1 of
                    (Inl e, b2) \<Rightarrow>
                      (case rollback b2 of
                         (Inl e2, b3) \<Rightarrow> (Inl e2, [], b3)
                       | (Inr _, b3) \<Rightarrow> (Inr False, [Error ''DB Error (add company)''], b3))
                  | (Inr _, b2) \<Rightarrow> (Inr True, [], b2))))"

definition add_new_task :: "connection option \<Rightarrow> string \<Rightarrow> date option \<Rightarrow> string \<Rightarrow> string option \<Rightarrow> string \<Rightarrow> ident option \<Rightarrow> ident option \<Rightarrow> ident option \<Rightarrow> backend \<Rightarrow> (db_error + bool) \<times> msg list \<times> backend" where
  "add_new_task db_conn desc due stat prio notes_val j_id rec_id comp_id b =
     (case db_conn of
        None \<Rightarrow> (Inr False, [Error ''DB not connected''], b)
      | Some _ \<Rightarrow>
          if desc = [] \<or> stat = [] then (Inr False, [Error ''Task Description and Status are required''], b)
          else
            (case execute (sql_insert_task desc due stat prio notes_val j_id rec_id comp_id) b of
               (Inl e, b1) \<Rightarrow>
                 (case rollback b1 of
                    (Inl e2, b2) \<Rightarrow> (Inl e2, [], b2)
                  | (Inr _, b2) \<Rightarrow> (Inr False, [Error ''DB Error (add task)''], b2))
             | (Inr _, b1) \<Rightarrow>
                 (case commit b1 of
                    (Inl e, b2) \<Rightarrow>
                      (case rollback b2 of
                         (Inl e2, b3) \<Rightarrow> (Inl e2, [], b3)
                       | (Inr _, b3) \<Rightarrow> (Inr False, [Error ''DB Error (add task)''], b3))
                  | (Inr _, b2) \<Rightarrow> (Inr True, [], b2))))"

definition update_task_details :: "connection option \<Rightarrow> ident \<Rightarrow> string \<Rightarrow> date option \<Rightarrow> string \<Rightarrow> string option \<Rightarrow> string \<Rightarrow> ident option \<Rightarrow> ident option \<Rightarrow> ident option \<Rightarrow> backend \<Rightarrow> (db_error + bool) \<times> msg list \<times> backend" where
  "update_task_details db_conn task_id desc due stat prio notes_val j_id rec_id comp_id b =
     (case db_conn of
        None \<Rightarrow> (Inr False, [Error ''DB not connected.''], b)
      | Some _ \<Rightarrow>
          if task_id = 0 \<or> desc = [] \<or> stat = [] then (Inr False, [Error ''Task ID, Description, Status required for update.''], b)
          else
            (case execute (sql_update_task task_id desc due stat prio notes_val j_id rec_id comp_id) b of
               (Inl e, b1) \<Rightarrow>
                 (case rollback b1 of
                    (Inl e2, b2) \<Rightarrow> (Inl e2, [], b2)
                  | (Inr _, b2) \<Rightarrow> (Inr False, [Error ''DB Error (update task)''], b2))
             | (Inr _, b1) \<Rightarrow>
                 (case commit b1 of
                    (Inl e, b2) \<Rightarrow>
                      (case rollback b2 of
                         (Inl e2, b3) \<Rightarrow> (Inl e2, [], b3)
                       | (Inr _, b3) \<Rightarrow> (Inr False, [Error ''DB Error (update task)''], b3))
                  | (Inr _, b2) \<Rightarrow> (Inr True, [], b2))))"

definition delete_task_record :: "connection option \<Rightarrow> ident \<Rightarrow> backend \<Rightarrow> (db_error + bool) \<times> msg list \<times> backend" where
  "delete_task_record db_conn task_id b =
     (case db_conn of
        None \<Rightarrow> (Inr False, [Error ''DB not connected.''], b)
      | Some _ \<Rightarrow>
          if task_id = 0 then (Inr False, [Error ''Task ID required for deletion.''], b)
          else
            (case execute (sql_delete_task task_id) b of
               (Inl e, b1) \<Rightarrow>
                 (case rollback b1 of
                    (Inl e2, b2) \<Rightarrow> (Inl e2, [], b2)
                  | (Inr _, b2) \<Rightarrow> (Inr False, [Error ''DB Error (delete task)''], b2))
             | (Inr _, b1) \<Rightarrow>
                 (case commit b1 of
                    (Inl e, b2) \<Rightarrow>
                      (case rollback b2 of
                         (Inl e2, b3) \<Rightarrow> (Inl e2, [], b3)
                       | (Inr _, b3) \<Rightarrow> (Inr False, [Error ''DB Error (delete task)''], b3))
                  | (Inr _, b2) \<Rightarrow> (Inr True, [], b2))))"

section \<open>Session state and inline writes\<close>

text \<open>The keys of \<^verbatim>\<open>st.session_state\<close> initialised at lines 292 to 299.\<close>

record session =
  selected_job_id_for_edit :: "ident option"
  confirm_delete_job_id :: "ident option"
  selected_recruiter_id_for_edit :: "ident option"
  confirm_delete_recruiter_id :: "ident option"
  selected_company_id_for_edit :: "ident option"
  confirm_delete_company_id :: "ident option"
  selected_task_id_for_edit :: "ident option"
  confirm_delete_task_id :: "ident option"

text \<open>What a block of the page script leaves behind: the messages shown, the session
  state, the backend, whether it ended the pass with \<^verbatim>\<open>st.rerun()\<close> (which
  \<^verbatim>\<open>except Exception\<close> does not catch), and whether an exception that no handler
  caught ended it.\<close>

record outcome =
  shown :: "msg list"
  session_after :: session
  backend_after :: backend
  rerun :: bool
  raised :: bool

text \<open>Recruiters and companies are updated and deleted by \<^verbatim>\<open>try\<close> blocks written in
  the page script itself (lines 558-568, 578-585, 652-662, 672-679); they are not
  functions and hand no value to a caller.\<close>

definition update_recruiter_inline :: "ident \<Rightarrow> string \<Rightarrow> ident option \<Rightarrow> string \<Rightarrow> string \<Rightarrow> date option \<Rightarrow> session \<Rightarrow> backend \<Rightarrow> outcome" where
  "update_recruiter_inline rid edit_rec_name edit_agency_id edit_contact edit_notes edit_date_f s b =
     (case execute (sql_update_recruiter rid edit_rec_name edit_agency_id edit_contact edit_notes edit_date_f) b of
        (Inl e, b1) \<Rightarrow>
          (case rollback b1 of
             (Inl e2, b2) \<Rightarrow>
               \<lparr>shown = [], session_after = s, backend_after = b2, rerun = False,
                raised = True\<rparr>
           | (Inr _, b2) \<Rightarrow>
               \<lparr>shown = [Error ''Error updating recruiter''], session_after = s, backend_after = b2,
                rerun = False, raised = False\<rparr>)
      | (Inr _, b1) \<Rightarrow>
          (case commit b1 of
             (Inl e, b2) \<Rightarrow>
               (case rollback b2 of
                  (Inl e2, b3) \<Rightarrow>
                    \<lparr>shown = [], session_after = s, backend_after = b3, rerun = False,
                     raised = True\<rparr>
                | (Inr _, b3) \<Rightarrow>
                    \<lparr>shown = [Error ''Error updating recruiter''], session_after = s, backend_after = b3,
                     rerun = False, raised = False\<rparr>)
           | (Inr _, b2) \<Rightarrow>
               \<lparr>shown = [Success ''Recruiter updated!''],
                session_after = s\<lparr>selected_recruiter_id_for_edit := None\<rparr>,
                backend_after = b2, rerun = True, raised = False\<rparr>))"

definition delete_recruiter_inline :: "ident \<Rightarrow> session \<Rightarrow> backend \<Rightarrow> outcome" where
  "delete_recruiter_inline rid s b =
     (case execute (sql_delete_recruiter rid) b of
        (Inl e, b1) \<Rightarrow>
          (case rollback b1 of
             (Inl e2, b2) \<Rightarrow>
               \<lparr>shown = [], session_after = s, backend_after = b2, rerun = False,
                raised = True\<rparr>
           | (Inr _, b2) \<Rightarrow>
               \<lparr>shown = [Error ''Error deleting recruiter''], session_after = s, backend_after = b2,
                rerun = False, raised = False\<rparr>)
      | (Inr _, b1) \<Rightarrow>
          (case commit b1 of
             (Inl e, b2) \<Rightarrow>
               (case rollback b2 of
                  (Inl e2, b3) \<Rightarrow>
                    \<lparr>shown = [], session_after = s, backend_after = b3, rerun = False,
                     raised = True\<rparr>
                | (Inr _, b3) \<Rightarrow>
                    \<lparr>shown = [Error ''Error deleting recruiter''], session_after = s, backend_after = b3,
                     rerun = False, raised = False\<rparr>)
           | (Inr _, b2) \<Rightarrow>
               \<lparr>shown = [Success ''Recruiter deleted!''],
                session_after = s\<lparr>selected_recruiter_id_for_edit := None, confirm_delete_recruiter_id := None\<rparr>,
                backend_after = b2, rerun = True, raised = False\<rparr>))"

definition update_company_inline :: "ident \<Rightarrow> string \<Rightarrow> string \<Rightarrow> string \<Rightarrow> string \<Rightarrow> string \<Rightarrow> session \<Rightarrow> backend \<Rightarrow> outcome" where
  "update_company_inline cid edit_comp_name edit_sector edit_web edit_notes edit_src s b =
     (case execute (sql_update_company cid edit_comp_name edit_sector edit_web edit_notes edit_src) b of
        (Inl e, b1) \<Rightarrow>
          (case rollback b1 of
             (Inl e2, b2) \<Rightarrow>
               \<lparr>shown = [], session_after = s, backend_after = b2, rerun = False,
                raised = True\<rparr>
           | (Inr _, b2) \<Rightarrow>
               \<lparr>shown = [Error ''Error updating company''], session_after = s, backend_after = b2,
                rerun = False, raised = False\<rparr>)
      | (Inr _, b1) \<Rightarrow>
          (case commit b1 of
             (Inl e, b2) \<Rightarrow>
               (case rollback b2 of
                  (Inl e2, b3) \<Rightarrow>
                    \<lparr>shown = [], session_after = s, backend_after = b3, rerun = False,
                     raised = True\<rparr>
                | (Inr _, b3) \<Rightarrow>
                    \<lparr>shown = [Error ''Error updating company''], session_after = s, backend_after = b3,
                     rerun = False, raised = False\<rparr>)
           | (Inr _, b2) \<Rightarrow>
               \<lparr>shown = [Success ''Company updated!''],
                session_after = s\<lparr>selected_company_id_for_edit := None\<rparr>,
                backend_after = b2, rerun = True, raised = False\<rparr>))"

definition delete_company_inline :: "ident \<Rightarrow> session \<Rightarrow> backend \<Rightarrow> outcome" where
  "delete_company_inline cid s b =
     (case execute (sql_delete_company cid) b of
        (Inl e, b1) \<Rightarrow>
          (case rollback b1 of
             (Inl e2, b2) \<Rightarrow>
               \<lparr>shown = [], session_after = s, backend_after = b2, rerun = False,
                raised = True\<rparr>
           | (Inr _, b2) \<Rightarrow>
               \<lparr>shown = [Error ''Error deleting company''], session_after = s, backend_after = b2,
                rerun = False, raised = False\<rparr>)
      | (Inr _, b1) \<Rightarrow>
          (case commit b1 of
             (Inl e, b2) \<Rightarrow>
               (case rollback b2 of
                  (Inl e2, b3) \<Rightarrow>
                    \<lparr>shown = [], session_after = s, backend_after = b3, rerun = False,
                     raised = True\<rparr>
                | (Inr _, b3) \<Rightarrow>
                    \<lparr>shown = [Error ''Error deleting company''], session_after = s, backend_after = b3,
                     rerun = False, raised = False\<rparr>)
           | (Inr _, b2) \<Rightarrow>
               \<lparr>shown = [Success ''Company deleted!''],
                session_after = s\<lparr>selected_company_id_for_edit := None, confirm_delete_company_id := None\<rparr>,
                backend_after = b2, rerun = True, raised = False\<rparr>))"

section \<open>Aggregation: job counts by status\<close>

text \<open>\<^verbatim>\<open>SELECT status, COUNT(*) FROM jobs WHERE status = ANY(%s) GROUP BY status\<close>:
  one pair per status that occurs among the selected rows.\<close>

definition count_by_status :: "string list \<Rightarrow> db \<Rightarrow> (string \<times> nat) list" where
  "count_by_status s d =
     (let sts = filter (\<lambda>x. x \<in> set s) (map j_status (jobs d))
      in map (\<lambda>k. (k, count_list sts k)) (remdups sts))"

definition get_job_status_counts :: "connection option \<Rightarrow> backend \<Rightarrow> (string \<rightharpoonup> nat) \<times> msg list \<times> backend" where
  "get_job_status_counts db_conn b =
     (case db_conn of
        None \<Rightarrow> (Map.empty, [], b)
      | Some _ \<Rightarrow>
          (let s = [''Not Applied'', ''Applied'', ''Interviewing'', ''Offer''];
               c = fold (\<lambda>st_val m. m(st_val \<mapsto> 0)) s Map.empty
           in case query (count_by_status s) b of
                (Inr rows, b1) \<Rightarrow>
                  (fold (\<lambda>r_tuple m. if m (fst r_tuple) \<noteq> None
                                      then m(fst r_tuple \<mapsto> snd r_tuple) else m) rows c,
                   [], b1)
              | (Inl e, b1) \<Rightarrow> (c, [Error ''DB Error (job_status_counts)''], b1)))"

text \<open>The status vocabulary of a job, as the forms offer it (line 308).\<close>

definition job_status_options :: "string list" where
  "job_status_options = [''Not Applied'', ''Applied'', ''Interviewing'', ''Rejected'', ''Offer'']"

section \<open>Reference resolver\<close>

text \<open>A Python dictionary whose values may be \<^verbatim>\<open>None\<close>: a map to optional identifiers.
  \<open>dict_get\<close> is \<^verbatim>\<open>dict.get\<close>, which gives \<^verbatim>\<open>None\<close> for a missing key.\<close>

type_synonym options_map = "string \<rightharpoonup> ident option"

definition dict_get :: "options_map \<Rightarrow> string \<Rightarrow> ident option" where
  "dict_get m k = (case m k of None \<Rightarrow> None | Some v \<Rightarrow> v)"

text \<open>\<open>get_options\<close> receives the table and its two columns as the projection
  \<open>table\<close> (\<^verbatim>\<open>SELECT id_col, name_col FROM table_name\<close>); \<^verbatim>\<open>order_by_col\<close> is never
  passed, so the rows are ordered by the name column.\<close>

definition select_options :: "(db \<Rightarrow> (ident \<times> string) list) \<Rightarrow> db \<Rightarrow> (ident \<times> string) list" where
  "select_options table d = sort_by (order_by [ascending snd]) (table d)"

definition get_options :: "connection option \<Rightarrow> (db \<Rightarrow> (ident \<times> string) list) \<Rightarrow> string \<Rightarrow> backend \<Rightarrow> options_map \<times> backend" where
  "get_options db_conn_local table default_option_text b =
     (case db_conn_local of
        None \<Rightarrow> ([default_option_text \<mapsto> None], b)
      | Some _ \<Rightarrow>
          (case query (select_options table) b of
             (Inr data, b1) \<Rightarrow>
               (fold (\<lambda>row options_map. options_map(snd row \<mapsto> Some (fst row))) data
                  [default_option_text \<mapsto> None], b1)
           | (Inl e, b1) \<Rightarrow> ([default_option_text \<mapsto> None], b1)))"

definition companies_id_name :: "db \<Rightarrow> (ident \<times> string) list" where
  "companies_id_name d = map (\<lambda>c. (c_company_id c, c_company_name c)) (companies d)"

definition jobs_id_name :: "db \<Rightarrow> (ident \<times> string) list" where
  "jobs_id_name d = map (\<lambda>j. (j_job_id j, j_job_title j)) (jobs d)"

definition recruiters_id_name :: "db \<Rightarrow> (ident \<times> string) list" where
  "recruiters_id_name d = map (\<lambda>r. (r_recruiter_id r, r_name r)) (recruiters d)"

definition load_selectbox_options :: "connection option \<Rightarrow> backend \<Rightarrow> (options_map \<times> options_map \<times> options_map) \<times> backend" where
  "load_selectbox_options conn b =
     (case get_options conn companies_id_name ''--- Select Company ---'' b of
        (company_opts, b1) \<Rightarrow>
          (case get_options conn jobs_id_name ''--- Select Job ---'' b1 of
             (job_opts, b2) \<Rightarrow>
               (case get_options conn recruiters_id_name ''--- Select Recruiter ---'' b2 of
                  (recruiter_opts, b3) \<Rightarrow> ((company_opts, job_opts, recruiter_opts), b3))))"

section \<open>Adding a job\<close>

text \<open>The fields of the form \<^verbatim>\<open>add_job_form_job_page_v2\<close>.\<close>

record add_job_form =
  new_job_title :: string
  sel_comp_name_add_job :: string
  new_comp_name_add_job :: string
  new_loc_add_job :: string
  new_stat_add_job :: string
  new_url_add_job :: string
  new_notes_add_job :: string
  new_date_f_add_job :: "date option"

text \<open>\<^verbatim>\<open>SELECT company_id FROM companies WHERE company_name = %s
  ORDER BY company_id DESC LIMIT 1\<close>, read with \<^verbatim>\<open>fetchone\<close>.\<close>

definition select_new_company_id :: "string \<Rightarrow> db \<Rightarrow> ident option" where
  "select_new_company_id name d =
     (case take 1 (sort_by (order_by [descending c_company_id])
                     (filter (\<lambda>c. c_company_name c = name) (companies d))) of
        [] \<Rightarrow> None
      | row # _ \<Rightarrow> Some (c_company_id row))"

text \<open>Python truth of an optional identifier: \<^verbatim>\<open>None\<close> and \<open>0\<close> are false.\<close>

definition truthy :: "ident option \<Rightarrow> bool" where
  "truthy x = (case x of None \<Rightarrow> False | Some i \<Rightarrow> i \<noteq> 0)"

text \<open>The company part of the submit handler (lines 390 to 414): the identifier chosen
  for the job and \<^verbatim>\<open>is_valid_j\<close>, or the exception that left \<open>add_new_company\<close>, then
  the messages and the backend.\<close>

definition resolve_company :: "options_map \<Rightarrow> add_job_form \<Rightarrow> backend \<Rightarrow> (db_error + ident option \<times> bool) \<times> msg list \<times> backend" where
  "resolve_company company_options_map f b =
     (if new_comp_name_add_job f \<noteq> [] then
        (case add_new_company (Some Connection) (new_comp_name_add_job f) [] [] [] [] b of
           (Inl e, m, b1) \<Rightarrow> (Inl e, m, b1)
         | (Inr True, m, b1) \<Rightarrow>
             (case query (select_new_company_id (new_comp_name_add_job f)) b1 of
                (Inr (Some cid), b2) \<Rightarrow>
                  (Inr (Some cid, True), m @ [Success ''Company added!''], b2)
              | (Inr None, b2) \<Rightarrow>
                  (Inr (None, False),
                   m @ [Success ''Company added!'', Error ''Could not retrieve new company ID.''], b2)
              | (Inl e, b2) \<Rightarrow>
                  (Inr (None, False),
                   m @ [Success ''Company added!'', Error ''Error fetching new company ID''], b2))
         | (Inr False, m, b1) \<Rightarrow>
             (Inr (None, False), m @ [Error ''Failed to add new company.''], b1))
      else if sel_comp_name_add_job f \<noteq> [] \<and> sel_comp_name_add_job f \<noteq> ''--- Select Company ---''
      then (Inr (dict_get company_options_map (sel_comp_name_add_job f), True), [], b)
      else (Inr (None, False), [Error ''Please select or type a company.''], b))"

text \<open>The whole submit handler of the form (lines 389 to 418).\<close>

definition submit_add_job :: "options_map \<Rightarrow> add_job_form \<Rightarrow> session \<Rightarrow> backend \<Rightarrow> outcome" where
  "submit_add_job company_options_map f s b =
     (case resolve_company company_options_map f b of
        (Inl e, m1, b1) \<Rightarrow>
          \<lparr>shown = m1, session_after = s, backend_after = b1, rerun = False, raised = True\<rparr>
      | (Inr (sel_comp_id_add_job, is_valid_c), m1, b1) \<Rightarrow>
          (let is_valid_j = (is_valid_c \<and> new_job_title f \<noteq> []);
               m2 = (if new_job_title f = [] then m1 @ [Error ''Title required''] else m1)
           in if is_valid_j \<and> truthy sel_comp_id_add_job then
                (case add_new_job (Some Connection) (new_job_title f) sel_comp_id_add_job
                        (new_loc_add_job f) (new_stat_add_job f) (new_url_add_job f)
                        (new_notes_add_job f) (new_date_f_add_job f) b1 of
                   (Inl e, m3, b2) \<Rightarrow>
                     \<lparr>shown = m2 @ m3, session_after = s, backend_after = b2, rerun = False,
                      raised = True\<rparr>
                 | (Inr True, m3, b2) \<Rightarrow>
                     \<lparr>shown = m2 @ m3 @ [Success ''Job added!''], session_after = s,
                      backend_after = b2, rerun = True, raised = False\<rparr>
                 | (Inr False, m3, b2) \<Rightarrow>
                     \<lparr>shown = m2 @ m3, session_after = s, backend_after = b2, rerun = False,
                      raised = False\<rparr>)
              else
                \<lparr>shown = m2, session_after = s, backend_after = b1, rerun = False,
                 raised = False\<rparr>))"

section \<open>The edit/delete tabs\<close>

text \<open>The button pressed in a pass of the page script, if any. A pass is started by
  one widget event, so at most one button reports a click.\<close>

datatype button = NoButton | RequestDelete | ConfirmDelete | CancelDelete

text \<open>In each tab \<open>sel\<close> is the entry chosen in the select box, given as the identifier
  that the tab's map (\<^verbatim>\<open>job_map_for_sel\<close> and its siblings) holds for the label, or
  \<open>None\<close> for the placeholder entry; the box only offers the rows just listed. The
  edit form of each tab is a separate submit handler and is not part of the delete
  flow.\<close>

definition chosen :: "ident option \<Rightarrow> ident list \<Rightarrow> ident option" where
  "chosen sel listed =
     (case sel of None \<Rightarrow> None | Some i \<Rightarrow> if i \<in> set listed then Some i else None)"

subsection \<open>Jobs\<close>

text \<open>\<^verbatim>\<open>SELECT j.*, c.company_name FROM jobs j LEFT JOIN companies c ...
  WHERE j.job_id = %s\<close>, read with \<^verbatim>\<open>fetchone\<close>.\<close>

definition select_job_details :: "ident \<Rightarrow> db \<Rightarrow> job_row option" where
  "select_job_details job_id d =
     (case filter (\<lambda>(j, c). j_job_id j = job_id)
             (left_join (\<lambda>j c. j_company_id j = c_company_id c) (jobs d) (companies d)) of
        [] \<Rightarrow> None
      | (j, c) # _ \<Rightarrow> Some (j, map_option c_company_name c))"

definition get_job_details :: "connection option \<Rightarrow> ident \<Rightarrow> backend \<Rightarrow> job_row option \<times> msg list \<times> backend" where
  "get_job_details db_conn job_id b =
     (case db_conn of
        None \<Rightarrow> (None, [], b)
      | Some _ \<Rightarrow>
          (case query (select_job_details job_id) b of
             (Inr row, b1) \<Rightarrow> (row, [], b1)
           | (Inl e, b1) \<Rightarrow> (None, [Error ''DB Error (job_details)''], b1)))"

text \<open>The delete action below the edit form (lines 469 to 481), for the job
  \<open>job_dets\<close> that the tab has loaded.\<close>

definition job_delete_action :: "job_row \<Rightarrow> button \<Rightarrow> session \<Rightarrow> backend \<Rightarrow> outcome" where
  "job_delete_action job_dets clicked s b =
     (if clicked = RequestDelete then
        \<lparr>shown = [], session_after = s\<lparr>confirm_delete_job_id := Some (j_job_id (fst job_dets))\<rparr>,
         backend_after = b, rerun = True, raised = False\<rparr>
      else if confirm_delete_job_id s = Some (j_job_id (fst job_dets)) then
        (if clicked = ConfirmDelete then
           (case delete_job_record (Some Connection) (j_job_id (fst job_dets)) b of
              (Inl e, m, b1) \<Rightarrow>
                \<lparr>shown = [Error ''FINAL WARNING: Permanently delete?''] @ m, session_after = s,
                 backend_after = b1, rerun = False, raised = True\<rparr>
            | (Inr True, m, b1) \<Rightarrow>
                \<lparr>shown = [Error ''FINAL WARNING: Permanently delete?''] @ m @ [Success ''Job deleted!''],
                 session_after = s\<lparr>selected_job_id_for_edit := None, confirm_delete_job_id := None\<rparr>,
                 backend_after = b1, rerun = True, raised = False\<rparr>
            | (Inr False, m, b1) \<Rightarrow>
                \<lparr>shown = [Error ''FINAL WARNING: Permanently delete?''] @ m, session_after = s,
                 backend_after = b1, rerun = False, raised = False\<rparr>)
         else if clicked = CancelDelete then
           \<lparr>shown = [Error ''FINAL WARNING: Permanently delete?''],
            session_after = s\<lparr>confirm_delete_job_id := None\<rparr>, backend_after = b,
            rerun = True, raised = False\<rparr>
         else
           \<lparr>shown = [Error ''FINAL WARNING: Permanently delete?''], session_after = s,
            backend_after = b, rerun = False, raised = False\<rparr>)
      else \<lparr>shown = [], session_after = s, backend_after = b, rerun = False, raised = False\<rparr>)"

text \<open>One pass through the tab (lines 420 to 437 and 467 to 483).\<close>

definition tab_edit_delete_job :: "ident option \<Rightarrow> button \<Rightarrow> session \<Rightarrow> backend \<Rightarrow> outcome" where
  "tab_edit_delete_job sel clicked s b =
     (case get_all_jobs (Some Connection) b of
        (all_jobs_data_for_sel, m0, b0) \<Rightarrow>
          if all_jobs_data_for_sel = [] then
            \<lparr>shown = m0 @ [Info ''No jobs to edit/delete.''], session_after = s,
             backend_after = b0, rerun = False, raised = False\<rparr>
          else
            (case chosen sel (map (\<lambda>row. j_job_id (fst row)) all_jobs_data_for_sel) of
               None \<Rightarrow>
                 \<lparr>shown = m0, session_after = s\<lparr>selected_job_id_for_edit := None\<rparr>,
                  backend_after = b0, rerun = False, raised = False\<rparr>
             | Some i \<Rightarrow>
                 if i = 0 then
                   \<lparr>shown = m0, session_after = s\<lparr>selected_job_id_for_edit := Some i\<rparr>,
                    backend_after = b0, rerun = False, raised = False\<rparr>
                 else
                   (case get_job_details (Some Connection) i b0 of
                      (Some job_dets, m1, b1) \<Rightarrow>
                        (case job_delete_action job_dets clicked
                                (s\<lparr>selected_job_id_for_edit := Some i\<rparr>) b1 of
                           r \<Rightarrow> r\<lparr>shown := m0 @ m1 @ shown r\<rparr>)
                    | (None, m1, b1) \<Rightarrow>
                        \<lparr>shown = m0 @ m1 @
                           [Warning ''Could not load selected job. It might have been deleted.''],
                         session_after = s\<lparr>selected_job_id_for_edit := None\<rparr>,
                         backend_after = b1, rerun = False, raised = False\<rparr>)))"

subsection \<open>Recruiters\<close>

text \<open>The delete action of the recruiter tab (lines 570 to 588); the deletion itself is
  the inline block \<open>delete_recruiter_inline\<close>.\<close>

definition recruiter_delete_action :: "recruiter_row \<Rightarrow> button \<Rightarrow> session \<Rightarrow> backend \<Rightarrow> outcome" where
  "recruiter_delete_action rec_dets clicked s b =
     (if clicked = RequestDelete then
        \<lparr>shown = [],
         session_after = s\<lparr>confirm_delete_recruiter_id := Some (r_recruiter_id (fst rec_dets))\<rparr>,
         backend_after = b, rerun = True, raised = False\<rparr>
      else if confirm_delete_recruiter_id s = Some (r_recruiter_id (fst rec_dets)) then
        (if clicked = ConfirmDelete then
           (case delete_recruiter_inline (r_recruiter_id (fst rec_dets)) s b of
              r \<Rightarrow> r\<lparr>shown := [Error ''FINAL WARNING: Delete recruiter?''] @ shown r\<rparr>)
         else if clicked = CancelDelete then
           \<lparr>shown = [Error ''FINAL WARNING: Delete recruiter?''],
            session_after = s\<lparr>confirm_delete_recruiter_id := None\<rparr>, backend_after = b,
            rerun = True, raised = False\<rparr>
         else
           \<lparr>shown = [Error ''FINAL WARNING: Delete recruiter?''], session_after = s,
            backend_after = b, rerun = False, raised = False\<rparr>)
      else \<lparr>shown = [], session_after = s, backend_after = b, rerun = False, raised = False\<rparr>)"

text \<open>One pass through the tab (lines 520 to 536 and 569 to 590). The row to edit is
  looked up in the rows just listed.\<close>

definition tab_edit_delete_rec :: "ident option \<Rightarrow> button \<Rightarrow> session \<Rightarrow> backend \<Rightarrow> outcome" where
  "tab_edit_delete_rec sel clicked s b =
     (case get_all_recruiters (Some Connection) b of
        (all_recruiters_data_for_sel, m0, b0) \<Rightarrow>
          if all_recruiters_data_for_sel = [] then
            \<lparr>shown = m0 @ [Info ''No recruiters to edit/delete.''], session_after = s,
             backend_after = b0, rerun = False, raised = False\<rparr>
          else
            (case chosen sel (map (\<lambda>row. r_recruiter_id (fst row)) all_recruiters_data_for_sel) of
               None \<Rightarrow>
                 \<lparr>shown = m0, session_after = s\<lparr>selected_recruiter_id_for_edit := None\<rparr>,
                  backend_after = b0, rerun = False, raised = False\<rparr>
             | Some i \<Rightarrow>
                 if i = 0 then
                   \<lparr>shown = m0, session_after = s\<lparr>selected_recruiter_id_for_edit := Some i\<rparr>,
                    backend_after = b0, rerun = False, raised = False\<rparr>
                 else
                   (case find (\<lambda>r. r_recruiter_id (fst r) = i) all_recruiters_data_for_sel of
                      Some rec_dets \<Rightarrow>
                        (case recruiter_delete_action rec_dets clicked
                                (s\<lparr>selected_recruiter_id_for_edit := Some i\<rparr>) b0 of
                           r \<Rightarrow> r\<lparr>shown := m0 @ shown r\<rparr>)
                    | None \<Rightarrow>
                        \<lparr>shown = m0 @ [Warning ''Could not load selected recruiter.''],
                         session_after = s\<lparr>selected_recruiter_id_for_edit := None\<rparr>,
                         backend_after = b0, rerun = False, raised = False\<rparr>)))"

subsection \<open>Companies\<close>

text \<open>The delete action of the company tab (lines 664 to 682); the deletion itself is
  the inline block \<open>delete_company_inline\<close>.\<close>

definition company_delete_action :: "company \<Rightarrow> button \<Rightarrow> session \<Rightarrow> backend \<Rightarrow> outcome" where
  "company_delete_action comp_dets clicked s b =
     (if clicked = RequestDelete then
        \<lparr>shown = [],
         session_after = s\<lparr>confirm_delete_company_id := Some (c_company_id comp_dets)\<rparr>,
         backend_after = b, rerun = True, raised = False\<rparr>
      else if confirm_delete_company_id s = Some (c_company_id comp_dets) then
        (if clicked = ConfirmDelete then
           (case delete_company_inline (c_company_id comp_dets) s b of
              r \<Rightarrow> r\<lparr>shown := [Error ''FINAL WARNING: Delete company?''] @ shown r\<rparr>)
         else if clicked = CancelDelete then
           \<lparr>shown = [Error ''FINAL WARNING: Delete company?''],
            session_after = s\<lparr>confirm_delete_company_id := None\<rparr>, backend_after = b,
            rerun = True, raised = False\<rparr>
         else
           \<lparr>shown = [Error ''FINAL WARNING: Delete company?''], session_after = s,
            backend_after = b, rerun = False, raised = False\<rparr>)
      else \<lparr>shown = [], session_after = s, backend_after = b, rerun = False, raised = False\<rparr>)"

text \<open>One pass through the tab (lines 623 to 639 and 663 to 684).\<close>

definition tab_edit_delete_comp :: "ident option \<Rightarrow> button \<Rightarrow> session \<Rightarrow> backend \<Rightarrow> outcome" where
  "tab_edit_delete_comp sel clicked s b =
     (case get_all_companies (Some Connection) b of
        (all_companies_data_for_sel, m0, b0) \<Rightarrow>
          if all_companies_data_for_sel = [] then
            \<lparr>shown = m0 @ [Info ''No companies to edit/delete.''], session_after = s,
             backend_after = b0, rerun = False, raised = False\<rparr>
          else
            (case chosen sel (map c_company_id all_companies_data_for_sel) of
               None \<Rightarrow>
                 \<lparr>shown = m0, session_after = s\<lparr>selected_company_id_for_edit := None\<rparr>,
                  backend_after = b0, rerun = False, raised = False\<rparr>
             | Some i \<Rightarrow>
                 if i = 0 then
                   \<lparr>shown = m0, session_after = s\<lparr>selected_company_id_for_edit := Some i\<rparr>,
                    backend_after = b0, rerun = False, raised = False\<rparr>
                 else
                   (case find (\<lambda>c. c_company_id c = i) all_companies_data_for_sel of
                      Some comp_dets \<Rightarrow>
                        (case company_delete_action comp_dets clicked
                                (s\<lparr>selected_company_id_for_edit := Some i\<rparr>) b0 of
                           r \<Rightarrow> r\<lparr>shown := m0 @ shown r\<rparr>)
                    | None \<Rightarrow>
                        \<lparr>shown = m0 @ [Warning ''Could not load selected company.''],
                         session_after = s\<lparr>selected_company_id_for_edit := None\<rparr>,
                         backend_after = b0, rerun = False, raised = False\<rparr>)))"

subsection \<open>Tasks\<close>

text \<open>\<^verbatim>\<open>SELECT t.*, j.job_title, r.name, cy.company_name FROM tasks t LEFT JOIN ...
  WHERE t.task_id = %s\<close>, read with \<^verbatim>\<open>fetchone\<close>.\<close>

definition select_task_details :: "ident \<Rightarrow> db \<Rightarrow> task_row option" where
  "select_task_details task_id d =
     (case filter (\<lambda>x. t_task_id (task_of x) = task_id) (tasks_joined d) of
        [] \<Rightarrow> None
      | x # _ \<Rightarrow> Some (project_task x))"

definition get_task_details :: "connection option \<Rightarrow> ident \<Rightarrow> backend \<Rightarrow> task_row option \<times> msg list \<times> backend" where
  "get_task_details db_conn task_id b =
     (case db_conn of
        None \<Rightarrow> (None, [], b)
      | Some _ \<Rightarrow>
          (case query (select_task_details task_id) b of
             (Inr row, b1) \<Rightarrow> (row, [], b1)
           | (Inl e, b1) \<Rightarrow> (None, [Error ''DB Error (task_details)''], b1)))"

text \<open>The delete action of the task tab (lines 802 to 813).\<close>

definition task_delete_action :: "task_row \<Rightarrow> button \<Rightarrow> session \<Rightarrow> backend \<Rightarrow> outcome" where
  "task_delete_action task_dets clicked s b =
     (if clicked = RequestDelete then
        \<lparr>shown = [], session_after = s\<lparr>confirm_delete_task_id := Some (t_task_id (fst task_dets))\<rparr>,
         backend_after = b, rerun = True, raised = False\<rparr>
      else if confirm_delete_task_id s = Some (t_task_id (fst task_dets)) then
        (if clicked = ConfirmDelete then
           (case delete_task_record (Some Connection) (t_task_id (fst task_dets)) b of
              (Inl e, m, b1) \<Rightarrow>
                \<lparr>shown = [Error ''FINAL WARNING: Delete task?''] @ m, session_after = s,
                 backend_after = b1, rerun = False, raised = True\<rparr>
            | (Inr True, m, b1) \<Rightarrow>
                \<lparr>shown = [Error ''FINAL WARNING: Delete task?''] @ m @ [Success ''Task deleted!''],
                 session_after = s\<lparr>selected_task_id_for_edit := None, confirm_delete_task_id := None\<rparr>,
                 backend_after = b1, rerun = True, raised = False\<rparr>
            | (Inr False, m, b1) \<Rightarrow>
                \<lparr>shown = [Error ''FINAL WARNING: Delete task?''] @ m, session_after = s,
                 backend_after = b1, rerun = False, raised = False\<rparr>)
         else if clicked = CancelDelete then
           \<lparr>shown = [Error ''FINAL WARNING: Delete task?''],
            session_after = s\<lparr>confirm_delete_task_id := None\<rparr>, backend_after = b,
            rerun = True, raised = False\<rparr>
         else
           \<lparr>shown = [Error ''FINAL WARNING: Delete task?''], session_after = s,
            backend_after = b, rerun = False, raised = False\<rparr>)
      else \<lparr>shown = [], session_after = s, backend_after = b, rerun = False, raised = False\<rparr>)"

text \<open>One pass through the tab (lines 739 to 757 and 800 to 815).\<close>

definition tab_edit_delete_task :: "(string \<Rightarrow> 's::linorder) \<Rightarrow> (string \<Rightarrow> 'p::linorder) \<Rightarrow> ident option \<Rightarrow> button \<Rightarrow> session \<Rightarrow> backend \<Rightarrow> outcome" where
  "tab_edit_delete_task status_key prio_key sel clicked s b =
     (case get_all_tasks status_key prio_key (Some Connection) b of
        (all_tasks_for_sel_task, m0, b0) \<Rightarrow>
          if all_tasks_for_sel_task = [] then
            \<lparr>shown = m0 @ [Info ''No tasks to edit/delete.''], session_after = s,
             backend_after = b0, rerun = False, raised = False\<rparr>
          else
            (case chosen sel (map (\<lambda>row. t_task_id (fst row)) all_tasks_for_sel_task) of
               None \<Rightarrow>
                 \<lparr>shown = m0, session_after = s\<lparr>selected_task_id_for_edit := None\<rparr>,
                  backend_after = b0, rerun = False, raised = False\<rparr>
             | Some i \<Rightarrow>
                 if i = 0 then
                   \<lparr>shown = m0, session_after = s\<lparr>selected_task_id_for_edit := Some i\<rparr>,
                    backend_after = b0, rerun = False, raised = False\<rparr>
                 else
                   (case get_task_details (Some Connection) i b0 of
                      (Some task_dets, m1, b1) \<Rightarrow>
                        (case task_delete_action task_dets clicked
                                (s\<lparr>selected_task_id_for_edit := Some i\<rparr>) b1 of
                           r \<Rightarrow> r\<lparr>shown := m0 @ m1 @ shown r\<rparr>)
                    | (None, m1, b1) \<Rightarrow>
                        \<lparr>shown = m0 @ m1 @ [Warning ''Could not load selected task.''],
                         session_after = s\<lparr>selected_task_id_for_edit := None\<rparr>,
                         backend_after = b1, rerun = False, raised = False\<rparr>)))"

section \<open>Vocabulary for the properties\<close>

text \<open>The twelve write operations, to state a property of all of them at once: the
  eight functions and the four inline blocks.\<close>

datatype write_op =
    AddCompany string string string string string
  | UpdateCompany ident string string string string string
  | DeleteCompany ident
  | AddJob string "ident option" string string string string "date option"
  | UpdateJob ident string "ident option" string string string string "date option"
  | DeleteJob ident
  | AddRecruiter string "ident option" string string "date option"
  | UpdateRecruiter ident string "ident option" string string "date option"
  | DeleteRecruiter ident
  | AddTask string "date option" string "string option" string "ident option" "ident option" "ident option"
  | UpdateTask ident string "date option" string "string option" string "ident option" "ident option" "ident option"
  | DeleteTask ident

text \<open>\<open>returned\<close> is the value handed to the caller: \<open>Some r\<close> for a function that
  returned \<open>r\<close>, \<open>None\<close> for an inline block, which has no caller, and for an
  operation that an exception left. \<open>w_raised\<close> tells that an exception left the
  operation.\<close>

record write_result =
  returned :: "bool option"
  w_raised :: bool
  w_shown :: "msg list"
  w_session :: session
  w_backend :: backend

definition of_function :: "session \<Rightarrow> (db_error + bool) \<times> msg list \<times> backend \<Rightarrow> write_result" where
  "of_function s r =
     (case r of
        (Inl e, m, b) \<Rightarrow>
          \<lparr>returned = None, w_raised = True, w_shown = m, w_session = s, w_backend = b\<rparr>
      | (Inr ret, m, b) \<Rightarrow>
          \<lparr>returned = Some ret, w_raised = False, w_shown = m, w_session = s, w_backend = b\<rparr>)"

definition of_inline :: "outcome \<Rightarrow> write_result" where
  "of_inline r =
     \<lparr>returned = None, w_raised = raised r, w_shown = shown r, w_session = session_after r,
      w_backend = backend_after r\<rparr>"

fun run_write :: "write_op \<Rightarrow> session \<Rightarrow> backend \<Rightarrow> write_result" where
  "run_write (AddCompany name sector_val web notes_val src) s b =
     of_function s (add_new_company (Some Connection) name sector_val web notes_val src b)"
| "run_write (UpdateCompany cid name sector_val web notes_val src) s b =
     of_inline (update_company_inline cid name sector_val web notes_val src s b)"
| "run_write (DeleteCompany cid) s b = of_inline (delete_company_inline cid s b)"
| "run_write (AddJob title comp_id loc stat url notes_val date_f) s b =
     of_function s (add_new_job (Some Connection) title comp_id loc stat url notes_val date_f b)"
| "run_write (UpdateJob j_id title comp_id loc stat url notes_val date_f) s b =
     of_function s (update_job_details (Some Connection) j_id title comp_id loc stat url notes_val date_f b)"
| "run_write (DeleteJob job_id) s b = of_function s (delete_job_record (Some Connection) job_id b)"
| "run_write (AddRecruiter name agency_id contact notes_val date_f) s b =
     of_function s (add_new_recruiter (Some Connection) name agency_id contact notes_val date_f b)"
| "run_write (UpdateRecruiter rid name agency_id contact notes_val date_f) s b =
     of_inline (update_recruiter_inline rid name agency_id contact notes_val date_f s b)"
| "run_write (DeleteRecruiter rid) s b = of_inline (delete_recruiter_inline rid s b)"
| "run_write (AddTask descr due stat prio notes_val j_id rec_id comp_id) s b =
     of_function s (add_new_task (Some Connection) descr due stat prio notes_val j_id rec_id comp_id b)"
| "run_write (UpdateTask task_id descr due stat prio notes_val j_id rec_id comp_id) s b =
     of_function s (update_task_details (Some Connection) task_id descr due stat prio notes_val j_id rec_id comp_id b)"
| "run_write (DeleteTask task_id) s b = of_function s (delete_task_record (Some Connection) task_id b)"

definition is_inline :: "write_op \<Rightarrow> bool" where
  "is_inline op =
     (case op of
        UpdateCompany _ _ _ _ _ _ \<Rightarrow> True
      | DeleteCompany _ \<Rightarrow> True
      | UpdateRecruiter _ _ _ _ _ _ \<Rightarrow> True
      | DeleteRecruiter _ \<Rightarrow> True
      | _ \<Rightarrow> False)"

fun is_success :: "msg \<Rightarrow> bool" where
  "is_success (Success _) = True"
| "is_success _ = False"

fun is_error :: "msg \<Rightarrow> bool" where
  "is_error (Error _) = True"
| "is_error _ = False"


definition succeeded :: "write_result \<Rightarrow> bool" where
  "succeeded r = (returned r = Some True \<or> returned r = None \<and> list_ex is_success (w_shown r))"

text \<open>The statement of a write issued on \<open>b\<close>, or its commit, raises.\<close>

definition write_raises :: "backend \<Rightarrow> bool" where
  "write_raises b =
     (case faults b of
        [] \<Rightarrow> False
      | True # _ \<Rightarrow> True
      | False # fs \<Rightarrow> (case fs of [] \<Rightarrow> False | f # _ \<Rightarrow> f))"

text \<open>The rollback of a write issued on \<open>b\<close> raises: the backend call that follows
  the raising statement or commit raises too.\<close>

definition rollback_raises :: "backend \<Rightarrow> bool" where
  "rollback_raises b =
     (case faults b of
        [] \<Rightarrow> False
      | True # fs \<Rightarrow> (case fs of [] \<Rightarrow> False | f # _ \<Rightarrow> f)
      | False # fs \<Rightarrow>
          (case fs of
             [] \<Rightarrow> False
           | True # gs \<Rightarrow> (case gs of [] \<Rightarrow> False | g # _ \<Rightarrow> g)
           | False # _ \<Rightarrow> False))"

text \<open>Orders on optional values with absent values last: strictly earlier in an
  ascending, respectively descending, listing.\<close>

definition before_nulls_last :: "'k::linorder option \<Rightarrow> 'k option \<Rightarrow> bool" where
  "before_nulls_last x y =
     (case x of None \<Rightarrow> False | Some u \<Rightarrow> (case y of None \<Rightarrow> True | Some v \<Rightarrow> u < v))"

definition after_nulls_last :: "'k::linorder option \<Rightarrow> 'k option \<Rightarrow> bool" where
  "after_nulls_last x y =
     (case x of None \<Rightarrow> False | Some u \<Rightarrow> (case y of None \<Rightarrow> True | Some v \<Rightarrow> v < u))"

text \<open>The order of the upcoming-tasks listing in the words of the specification: due
  date ascending with absent dates last, then priority ascending with absent
  priorities last, then creation time ascending. Priorities are compared by their
  place in the order of the column.\<close>

definition upcoming_order :: "(string \<Rightarrow> 'p::linorder) \<Rightarrow> task \<Rightarrow> task \<Rightarrow> bool" where
  "upcoming_order prio_key a b =
     (before_nulls_last (t_due_date a) (t_due_date b) \<or>
      t_due_date a = t_due_date b \<and>
        (before_nulls_last (map_option prio_key (t_priority a)) (map_option prio_key (t_priority b)) \<or>
         map_option prio_key (t_priority a) = map_option prio_key (t_priority b) \<and>
           t_created_at a \<le> t_created_at b))"

text \<open>The order of the task listing: due date ascending with absent dates last, then
  status ascending, then priority descending with absent priorities last, then
  creation time descending. Statuses and priorities are compared by their place in
  the order of their column.\<close>

definition all_tasks_order :: "(string \<Rightarrow> 's::linorder) \<Rightarrow> (string \<Rightarrow> 'p::linorder) \<Rightarrow> task \<Rightarrow> task \<Rightarrow> bool" where
  "all_tasks_order status_key prio_key a b =
     (before_nulls_last (t_due_date a) (t_due_date b) \<or>
      t_due_date a = t_due_date b \<and>
        (status_key (t_status a) < status_key (t_status b) \<or>
         status_key (t_status a) = status_key (t_status b) \<and>
           (after_nulls_last (map_option prio_key (t_priority a)) (map_option prio_key (t_priority b)) \<or>
            map_option prio_key (t_priority a) = map_option prio_key (t_priority b) \<and>
              t_created_at b \<le> t_created_at a)))"

definition total_preorder :: "('r \<Rightarrow> 'r \<Rightarrow> bool) \<Rightarrow> bool" where
  "total_preorder le = ((\<forall>a b. le a b \<or> le b a) \<and> (\<forall>a b c. le a b \<longrightarrow> le b c \<longrightarrow> le a c))"

text \<open>The next backend call does not raise.\<close>

definition query_answered :: "backend \<Rightarrow> bool" where
  "query_answered b = (case faults b of [] \<Rightarrow> True | f # _ \<Rightarrow> \<not> f)"

text \<open>No transaction is left open: the session sees what is committed.\<close>

definition quiescent :: "backend \<Rightarrow> bool" where
  "quiescent b = (working b = committed b)"

section \<open>A small store for the examples\<close>

definition demo_company1 :: company where
  "demo_company1 = \<lparr>c_company_id = 1, c_company_name = ''Zeta'', c_sector = '''', c_website = '''',
     c_notes = '''', c_source = '''', c_created_at = 1\<rparr>"
definition demo_company2 :: company where
  "demo_company2 = \<lparr>c_company_id = 2, c_company_name = ''Acme'', c_sector = '''', c_website = '''',
     c_notes = '''', c_source = '''', c_created_at = 2\<rparr>"
definition demo_job1 :: job where
  "demo_job1 = \<lparr>j_job_id = 1, j_job_title = ''Engineer'', j_company_id = 1, j_location = '''',
     j_status = ''Applied'', j_job_url = '''', j_notes = '''', j_date_found = None, j_created_at = 3\<rparr>"
definition demo_job2 :: job where
  "demo_job2 = \<lparr>j_job_id = 2, j_job_title = ''Analyst'', j_company_id = 2, j_location = '''',
     j_status = ''Offer'', j_job_url = '''', j_notes = '''', j_date_found = Some 7, j_created_at = 4\<rparr>"
definition demo_recruiter1 :: recruiter where
  "demo_recruiter1 = \<lparr>r_recruiter_id = 1, r_name = ''Sam'', r_agency_company_id = Some 2,
     r_contact_info = '''', r_notes = '''', r_first_contact_date = None, r_created_at = 5\<rparr>"
definition demo_recruiter2 :: recruiter where
  "demo_recruiter2 = \<lparr>r_recruiter_id = 2, r_name = ''Kim'', r_agency_company_id = None,
     r_contact_info = '''', r_notes = '''', r_first_contact_date = None, r_created_at = 6\<rparr>"
definition demo_task1 :: task where
  "demo_task1 = \<lparr>t_task_id = 1, t_task_description = ''Send CV'', t_due_date = Some 10,
     t_status = ''Open'', t_priority = Some ''High'', t_notes = '''', t_job_id = Some 1,
     t_recruiter_id = None, t_company_id = None, t_created_at = 7\<rparr>"
definition demo_task2 :: task where
  "demo_task2 = \<lparr>t_task_id = 2, t_task_description = ''Call back'', t_due_date = None,
     t_status = ''In Progress'', t_priority = None, t_notes = '''', t_job_id = None,
     t_recruiter_id = Some 1, t_company_id = None, t_created_at = 8\<rparr>"
definition demo_task3 :: task where
  "demo_task3 = \<lparr>t_task_id = 3, t_task_description = ''Thank-you note'', t_due_date = Some 5,
     t_status = ''Completed'', t_priority = Some ''Low'', t_notes = '''', t_job_id = None,
     t_recruiter_id = None, t_company_id = Some 2, t_created_at = 9\<rparr>"
definition demo_task4 :: task where
  "demo_task4 = \<lparr>t_task_id = 4, t_task_description = ''Prepare'', t_due_date = Some 10,
     t_status = ''Open'', t_priority = Some ''Low'', t_notes = '''', t_job_id = None,
     t_recruiter_id = None, t_company_id = None, t_created_at = 10\<rparr>"
definition demo_db :: db where
  "demo_db = \<lparr>companies = [demo_company1, demo_company2], jobs = [demo_job1, demo_job2],
     recruiters = [demo_recruiter1, demo_recruiter2],
     tasks = [demo_task1, demo_task2, demo_task3, demo_task4]\<rparr>"
definition demo_backend :: backend where
  "demo_backend = \<lparr>committed = demo_db, working = demo_db, company_seq = 3, job_seq = 3,
     recruiter_seq = 3, task_seq = 5, clock = 11, faults = []\<rparr>"

definition demo_session :: session where
  "demo_session = \<lparr>selected_job_id_for_edit = None, confirm_delete_job_id = None,
     selected_recruiter_id_for_edit = None, confirm_delete_recruiter_id = None,
     selected_company_id_for_edit = None, confirm_delete_company_id = None,
     selected_task_id_for_edit = None, confirm_delete_task_id = None\<rparr>"

text \<open>Five jobs with the statuses Applied, Applied, Interviewing, Offer, Not Applied.\<close>

definition status_job :: "ident \<Rightarrow> string \<Rightarrow> job" where
  "status_job i st = \<lparr>j_job_id = i, j_job_title = ''Engineer'', j_company_id = 1, j_location = '''',
     j_status = st, j_job_url = '''', j_notes = '''', j_date_found = None, j_created_at = i\<rparr>"

definition status_demo_backend :: backend where
  "status_demo_backend = demo_backend\<lparr>
     working := demo_db\<lparr>jobs := [status_job 1 ''Applied'', status_job 2 ''Applied'',
       status_job 3 ''Interviewing'', status_job 4 ''Offer'', status_job 5 ''Not Applied'']\<rparr>,
     committed := demo_db\<lparr>jobs := [status_job 1 ''Applied'', status_job 2 ''Applied'',
       status_job 3 ''Interviewing'', status_job 4 ''Offer'', status_job 5 ''Not Applied'']\<rparr>\<rparr>"

text \<open>A store with a company named like the placeholder, and one with two companies
  of the same name.\<close>

definition named_company :: "ident \<Rightarrow> string \<Rightarrow> company" where
  "named_company i n = \<lparr>c_company_id = i, c_company_name = n, c_sector = '''', c_website = '''',
     c_notes = '''', c_source = '''', c_created_at = i\<rparr>"

definition placeholder_backend :: backend where
  "placeholder_backend = demo_backend\<lparr>
     working := demo_db\<lparr>companies := [named_company 1 ''--- Select Company ---'']\<rparr>,
     committed := demo_db\<lparr>companies := [named_company 1 ''--- Select Company ---'']\<rparr>\<rparr>"

definition duplicate_backend :: backend where
  "duplicate_backend = demo_backend\<lparr>
     working := demo_db\<lparr>companies := [named_company 1 ''Acme'', named_company 2 ''Beta'', named_company 3 ''Acme'']\<rparr>,
     committed := demo_db\<lparr>companies := [named_company 1 ''Acme'', named_company 2 ''Beta'', named_company 3 ''Acme'']\<rparr>\<rparr>"

text \<open>Every stored company identifier was drawn from the sequence.\<close>

definition ids_below_seq :: "backend \<Rightarrow> bool" where
  "ids_below_seq b = list_all (\<lambda>c. c_company_id c < company_seq b) (companies (working b))"

text \<open>The company row that the add-job flow inserts on \<open>b\<close> for a typed name.\<close>

definition typed_company :: "backend \<Rightarrow> string \<Rightarrow> company" where
  "typed_company b name =
     \<lparr>c_company_id = company_seq b, c_company_name = name, c_sector = [], c_website = [],
      c_notes = [], c_source = [], c_created_at = clock b\<rparr>"

text \<open>The form of the examples: a typed company name and a job title.\<close>

definition demo_form :: add_job_form where
  "demo_form = \<lparr>new_job_title = ''Developer'', sel_comp_name_add_job = ''--- Select Company ---'',
     new_comp_name_add_job = ''Initech'', new_loc_add_job = ''Remote'',
     new_stat_add_job = ''Not Applied'', new_url_add_job = [], new_notes_add_job = [],
     new_date_f_add_job = Some 20\<rparr>"

text \<open>The demo store behind a backend that accepts the company insert and its commit
  and raises on the call after them.\<close>

definition requery_failing_backend :: backend where
  "requery_failing_backend = demo_backend\<lparr>faults := [False, False, True]\<rparr>"

text \<open>The demo store behind a backend whose next call raises, behind one whose
  second call (the commit of a write) raises, and behind one that is lost: every call
  raises.\<close>

definition failing_backend :: backend where
  "failing_backend = demo_backend\<lparr>faults := [True]\<rparr>"

definition commit_failing_backend :: backend where
  "commit_failing_backend = demo_backend\<lparr>faults := [False, True]\<rparr>"

definition lost_backend :: backend where
  "lost_backend = demo_backend\<lparr>faults := [True, True]\<rparr>"



section \<open>Properties\<close>

subsection \<open>Sorting under a total preorder\<close>

lemma total_preorderI:
  "(\<And>a b. le a b \<or> le b a) \<Longrightarrow> (\<And>a b c. le a b \<Longrightarrow> le b c \<Longrightarrow> le a c) \<Longrightarrow> total_preorder le"
  unfolding total_preorder_def by blast

lemma total_preorder_total: "total_preorder le \<Longrightarrow> \<not> le a b \<Longrightarrow> le b a"
  unfolding total_preorder_def by blast

lemma total_preorder_trans: "total_preorder le \<Longrightarrow> le a b \<Longrightarrow> le b c \<Longrightarrow> le a c"
  unfolding total_preorder_def by blast

lemma set_insort_by: "set (insort_by le x xs) = insert x (set xs)"
  by (induction xs) auto

lemma set_sort_by: "set (sort_by le xs) = set xs"
  unfolding sort_by_def by (induction xs) (auto simp: set_insort_by)

lemma length_insort_by: "length (insort_by le x xs) = Suc (length xs)"
  by (induction xs) auto

lemma length_sort_by: "length (sort_by le xs) = length xs"
  unfolding sort_by_def by (induction xs) (auto simp: length_insort_by)

lemma sorted_wrt_insort_by:
  assumes "total_preorder le" "sorted_wrt le xs"
  shows "sorted_wrt le (insort_by le x xs)"
  using assms(2)
proof (induction xs)
  case Nil
  then show ?case by simp
next
  case (Cons y ys)
  show ?case
  proof (cases "le x y")
    case True
    have "le x z" if "z \<in> set ys" for z
      using Cons.prems that True total_preorder_trans[OF assms(1)] by auto
    with True Cons.prems show ?thesis by auto
  next
    case False
    then have "le y x" by (rule total_preorder_total[OF assms(1)])
    with False Cons show ?thesis by (auto simp: set_insort_by)
  qed
qed

lemma sorted_wrt_sort_by: "total_preorder le \<Longrightarrow> sorted_wrt le (sort_by le xs)"
  unfolding sort_by_def by (induction xs) (simp_all add: sorted_wrt_insort_by)

lemma total_preorder_ascending: "total_preorder (ascending key)"
  by (rule total_preorderI) (auto simp: ascending_def)

lemma total_preorder_descending: "total_preorder (descending key)"
  by (rule total_preorderI) (auto simp: descending_def)

lemma total_preorder_ascending_nulls_last: "total_preorder (ascending_nulls_last key)"
  by (rule total_preorderI) (auto simp: ascending_nulls_last_def split: option.splits)

lemma total_preorder_descending_nulls_last: "total_preorder (descending_nulls_last key)"
  by (rule total_preorderI) (auto simp: descending_nulls_last_def split: option.splits)

lemma total_preorder_order_by:
  "(\<And>le. le \<in> set les \<Longrightarrow> total_preorder le) \<Longrightarrow> total_preorder (order_by les)"
proof (induction les)
  case Nil
  show ?case by (rule total_preorderI) auto
next
  case (Cons le les)
  have h: "total_preorder le" and t: "total_preorder (order_by les)"
    using Cons by auto
  show ?case
  proof (rule total_preorderI)
    fix a b show "order_by (le # les) a b \<or> order_by (le # les) b a"
      using total_preorder_total[OF h] total_preorder_total[OF t] by auto
  next
    fix a b c assume "order_by (le # les) a b" "order_by (le # les) b c"
    then show "order_by (le # les) a c"
      using total_preorder_trans[OF h, of a b c] total_preorder_trans[OF h, of c a b]
        total_preorder_trans[OF h, of b c a] total_preorder_trans[OF t, of a b c]
      by (simp split: if_splits)
  qed
qed

lemma sorted_wrt_take: "sorted_wrt P xs \<Longrightarrow> sorted_wrt P (take n xs)"
  by (metis append_take_drop_id sorted_wrt_append)

subsection \<open>Joins keep the left rows\<close>

lemma set_left_join_fst: "fst ` set (left_join on xs ys) = set xs"
  unfolding left_join_def by (induction xs) (auto split: list.splits simp: image_Un image_image)

lemma task_of_tasks_joined: "task_of ` set (tasks_joined d) = set (tasks d)"
proof -
  have "task_of ` set (tasks_joined d) = fst ` fst ` fst ` set (tasks_joined d)"
    by (simp add: image_image task_of_def)
  also have "\<dots> = set (tasks d)"
    unfolding tasks_joined_def by (simp only: set_left_join_fst)
  finally show ?thesis .
qed

lemma fst_project_task: "fst (project_task x) = task_of x"
  by (simp add: project_task_def task_of_def split: prod.splits)

subsection \<open>The listing queries are ordered\<close>

lemma order_by_upcoming:
  "order_by [ascending_nulls_last (\<lambda>x. t_due_date (task_of x)),
             ascending_nulls_last (\<lambda>x. map_option prio_key (t_priority (task_of x))),
             ascending (\<lambda>x. t_created_at (task_of x))] x y
   = upcoming_order prio_key (task_of x) (task_of y)"
  by (cases "t_priority (task_of x)"; cases "t_priority (task_of y)")
     (auto simp: upcoming_order_def before_nulls_last_def ascending_nulls_last_def ascending_def
      split: option.splits)

lemma order_by_all_tasks:
  "order_by [ascending_nulls_last (\<lambda>x. t_due_date (task_of x)),
             ascending (\<lambda>x. status_key (t_status (task_of x))),
             descending_nulls_last (\<lambda>x. map_option prio_key (t_priority (task_of x))),
             descending (\<lambda>x. t_created_at (task_of x))] x y
   = all_tasks_order status_key prio_key (task_of x) (task_of y)"
  by (cases "t_priority (task_of x)"; cases "t_priority (task_of y)")
     (auto simp: all_tasks_order_def before_nulls_last_def after_nulls_last_def
      ascending_nulls_last_def descending_nulls_last_def ascending_def descending_def
      split: option.splits)

lemma upcoming_total_preorder:
  "total_preorder (order_by [ascending_nulls_last (\<lambda>x. t_due_date (task_of x)),
             ascending_nulls_last (\<lambda>x. map_option prio_key (t_priority (task_of x))),
             ascending (\<lambda>x. t_created_at (task_of x))])"
  by (rule total_preorder_order_by)
     (auto simp: total_preorder_ascending total_preorder_ascending_nulls_last)

lemma select_upcoming_sorted:
  "sorted_wrt (\<lambda>a b. upcoming_order prio_key (fst a) (fst b)) (select_upcoming_tasks prio_key n d)"
proof -
  let ?les = "[ascending_nulls_last (\<lambda>x. t_due_date (task_of x)),
               ascending_nulls_last (\<lambda>x. map_option prio_key (t_priority (task_of x))),
               ascending (\<lambda>x. t_created_at (task_of x))]"
  have "sorted_wrt (order_by ?les) (take n (sort_by (order_by ?les) xs))" for xs
    by (intro sorted_wrt_take sorted_wrt_sort_by upcoming_total_preorder)
  then show ?thesis
    unfolding select_upcoming_tasks_def
    by (simp add: sorted_wrt_map fst_project_task order_by_upcoming [abs_def] del: order_by.simps)
qed

lemma select_upcoming_length: "length (select_upcoming_tasks prio_key n d) \<le> n"
  unfolding select_upcoming_tasks_def by simp

lemma select_upcoming_open:
  assumes "r \<in> set (select_upcoming_tasks prio_key n d)"
  shows "t_status (fst r) \<noteq> ''Completed'' \<and> t_status (fst r) \<noteq> ''Cancelled'' \<and> fst r \<in> set (tasks d)"
proof -
  from assms obtain x where x: "r = project_task x"
    and "x \<in> set (take n (sort_by (order_by [ascending_nulls_last (\<lambda>x. t_due_date (task_of x)),
                              ascending_nulls_last (\<lambda>x. map_option prio_key (t_priority (task_of x))),
                              ascending (\<lambda>x. t_created_at (task_of x))])
             (filter (\<lambda>x. t_status (task_of x) \<notin> {''Completed'', ''Cancelled''})
                (tasks_joined d))))"
    unfolding select_upcoming_tasks_def by auto
  then have "x \<in> set (filter (\<lambda>x. t_status (task_of x) \<notin> {''Completed'', ''Cancelled''}) (tasks_joined d))"
    using in_set_takeD set_sort_by by fast
  then have "t_status (task_of x) \<notin> {''Completed'', ''Cancelled''}" and "x \<in> set (tasks_joined d)"
    by auto
  moreover from \<open>x \<in> set (tasks_joined d)\<close> have "task_of x \<in> set (tasks d)"
    using task_of_tasks_joined by blast
  ultimately show ?thesis by (simp add: x fst_project_task)
qed

text \<open>The listing is made of the first rows: an open task that is stored and not
  listed was cut off by the limit, and comes no earlier than any listed row.\<close>

lemma select_upcoming_first:
  assumes t: "t \<in> set (tasks d)" "t_status t \<noteq> ''Completed''" "t_status t \<noteq> ''Cancelled''"
  shows "t \<in> fst ` set (select_upcoming_tasks prio_key n d)
    \<or> (length (select_upcoming_tasks prio_key n d) = n
        \<and> (\<forall>r \<in> set (select_upcoming_tasks prio_key n d). upcoming_order prio_key (fst r) t))"
proof -
  let ?le = "order_by [ascending_nulls_last (\<lambda>x. t_due_date (task_of x)),
               ascending_nulls_last (\<lambda>x. map_option prio_key (t_priority (task_of x))),
               ascending (\<lambda>x. t_created_at (task_of x))]"
  let ?open = "filter (\<lambda>x. t_status (task_of x) \<notin> {''Completed'', ''Cancelled''}) (tasks_joined d)"
  let ?s = "sort_by ?le ?open"
  have rows: "select_upcoming_tasks prio_key n d = map project_task (take n ?s)"
    by (simp add: select_upcoming_tasks_def)
  from t(1) obtain x where x: "x \<in> set (tasks_joined d)" "task_of x = t"
    using task_of_tasks_joined [of d] by (metis imageE)
  with t(2,3) have xs: "x \<in> set ?s" by (simp add: set_sort_by)
  show ?thesis
  proof (cases "x \<in> set (take n ?s)")
    case True
    then have "fst (project_task x) \<in> fst ` set (select_upcoming_tasks prio_key n d)"
      unfolding rows by force
    then show ?thesis by (simp add: fst_project_task x(2))
  next
    case False
    with xs have xd: "x \<in> set (drop n ?s)"
      by (metis Un_iff append_take_drop_id set_append)
    then have "n < length ?s" by (cases "n < length ?s") auto
    then have len: "length (select_upcoming_tasks prio_key n d) = n"
      unfolding rows by simp
    have "sorted_wrt ?le (take n ?s @ drop n ?s)"
      using sorted_wrt_sort_by [OF upcoming_total_preorder, of prio_key ?open] by simp
    then have "?le a x" if "a \<in> set (take n ?s)" for a
      using that xd unfolding sorted_wrt_append by blast
    then have "upcoming_order prio_key (task_of a) (task_of x)" if "a \<in> set (take n ?s)" for a
      using that unfolding order_by_upcoming by blast
    then have "upcoming_order prio_key (task_of a) t" if "a \<in> set (take n ?s)" for a
      using that unfolding x(2) by blast
    then have "\<forall>r \<in> set (select_upcoming_tasks prio_key n d). upcoming_order prio_key (fst r) t"
      unfolding rows by (auto simp: fst_project_task)
    with len show ?thesis by blast
  qed
qed

lemma select_all_tasks_sorted:
  "sorted_wrt (\<lambda>a b. all_tasks_order status_key prio_key (fst a) (fst b))
     (select_all_tasks status_key prio_key d)"
proof -
  let ?les = "[ascending_nulls_last (\<lambda>x. t_due_date (task_of x)),
               ascending (\<lambda>x. status_key (t_status (task_of x))),
               descending_nulls_last (\<lambda>x. map_option prio_key (t_priority (task_of x))),
               descending (\<lambda>x. t_created_at (task_of x))]"
  have "total_preorder (order_by ?les)"
    by (rule total_preorder_order_by)
       (auto simp: total_preorder_ascending total_preorder_ascending_nulls_last
          total_preorder_descending total_preorder_descending_nulls_last)
  then have "sorted_wrt (order_by ?les) (sort_by (order_by ?les) xs)" for xs
    by (rule sorted_wrt_sort_by)
  then show ?thesis
    unfolding select_all_tasks_def
    by (simp add: sorted_wrt_map fst_project_task order_by_all_tasks [abs_def] del: order_by.simps)
qed

lemma order_by_single: "order_by [le] a b = le a b"
  by simp

lemma select_all_companies_sorted:
  "sorted_wrt (\<lambda>a b. c_company_name a \<le> c_company_name b) (select_all_companies d)"
proof -
  have "total_preorder (ascending c_company_name)" by (rule total_preorder_ascending)
  then have "sorted_wrt (ascending c_company_name) (sort_by (ascending c_company_name) (companies d))"
    by (rule sorted_wrt_sort_by)
  then show ?thesis
    unfolding select_all_companies_def by (simp add: order_by_single [abs_def] ascending_def [abs_def])
qed

lemma select_all_jobs_sorted:
  "sorted_wrt (\<lambda>a b. j_created_at (fst b) \<le> j_created_at (fst a)) (select_all_jobs d)"
proof -
  let ?le = "descending (\<lambda>(j, c::company option). j_created_at j)"
  have "total_preorder ?le" by (rule total_preorder_descending)
  then have "sorted_wrt ?le (sort_by ?le xs)" for xs
    by (rule sorted_wrt_sort_by)
  then show ?thesis
    unfolding select_all_jobs_def
    by (simp add: order_by_single [abs_def] sorted_wrt_map descending_def [abs_def] case_prod_unfold)
qed

lemma select_all_recruiters_sorted:
  "sorted_wrt (\<lambda>a b. r_name (fst a) \<le> r_name (fst b)) (select_all_recruiters d)"
proof -
  let ?le = "ascending (\<lambda>(r, c::company option). r_name r)"
  have "total_preorder ?le" by (rule total_preorder_ascending)
  then have "sorted_wrt ?le (sort_by ?le xs)" for xs
    by (rule sorted_wrt_sort_by)
  then show ?thesis
    unfolding select_all_recruiters_def
    by (simp add: order_by_single [abs_def] sorted_wrt_map ascending_def [abs_def] case_prod_unfold)
qed

subsection \<open>The listings hold the stored rows\<close>

lemma listed_companies: "set (select_all_companies d) = set (companies d)"
  by (simp add: select_all_companies_def set_sort_by)

lemma listed_jobs: "fst ` set (select_all_jobs d) = set (jobs d)"
proof -
  have "fst ` set (select_all_jobs d)
        = fst ` set (left_join (\<lambda>j c. j_company_id j = c_company_id c) (jobs d) (companies d))"
    unfolding select_all_jobs_def by (force simp: set_sort_by)
  then show ?thesis by (simp only: set_left_join_fst)
qed

lemma listed_recruiters: "fst ` set (select_all_recruiters d) = set (recruiters d)"
proof -
  have "fst ` set (select_all_recruiters d)
        = fst ` set (left_join (\<lambda>r c. r_agency_company_id r = Some (c_company_id c))
             (recruiters d) (companies d))"
    unfolding select_all_recruiters_def by (force simp: set_sort_by)
  then show ?thesis by (simp only: set_left_join_fst)
qed

lemma listed_tasks: "fst ` set (select_all_tasks status_key prio_key d) = set (tasks d)"
proof -
  have "fst ` set (select_all_tasks status_key prio_key d) = task_of ` set (tasks_joined d)"
    unfolding select_all_tasks_def by (simp add: set_sort_by image_image fst_project_task)
  then show ?thesis by (simp add: task_of_tasks_joined)
qed

subsection \<open>What the listing functions return\<close>

lemma get_upcoming_tasks_cases:
  "fst (get_upcoming_tasks prio_key db_conn n b) = []
   \<or> fst (get_upcoming_tasks prio_key db_conn n b) = select_upcoming_tasks prio_key n (working b)"
  by (auto simp: get_upcoming_tasks_def query_def next_fault_def split: option.splits list.splits bool.splits)

lemma get_all_tasks_cases:
  "fst (get_all_tasks status_key prio_key db_conn b) = []
   \<or> fst (get_all_tasks status_key prio_key db_conn b) = select_all_tasks status_key prio_key (working b)"
  by (auto simp: get_all_tasks_def query_def next_fault_def split: option.splits list.splits bool.splits)

lemma get_all_jobs_cases:
  "fst (get_all_jobs db_conn b) = [] \<or> fst (get_all_jobs db_conn b) = select_all_jobs (working b)"
  by (auto simp: get_all_jobs_def query_def next_fault_def split: option.splits list.splits bool.splits)

lemma get_all_companies_cases:
  "fst (get_all_companies db_conn b) = []
   \<or> fst (get_all_companies db_conn b) = select_all_companies (working b)"
  by (auto simp: get_all_companies_def query_def next_fault_def split: option.splits list.splits bool.splits)

lemma get_all_recruiters_cases:
  "fst (get_all_recruiters db_conn b) = []
   \<or> fst (get_all_recruiters db_conn b) = select_all_recruiters (working b)"
  by (auto simp: get_all_recruiters_def query_def next_fault_def split: option.splits list.splits bool.splits)

lemma query_answered_query:
  "query_answered b \<Longrightarrow> fst (query q b) = Inr (q (working b))"
  by (auto simp: query_answered_def query_def next_fault_def split: list.splits)

lemma get_upcoming_tasks_answered:
  "query_answered b \<Longrightarrow>
   fst (get_upcoming_tasks prio_key (Some Connection) n b) = select_upcoming_tasks prio_key n (working b)"
  using query_answered_query [of b "select_upcoming_tasks prio_key n"]
  by (cases "query (select_upcoming_tasks prio_key n) b") (simp add: get_upcoming_tasks_def)

lemma get_all_tasks_answered:
  "query_answered b \<Longrightarrow>
   fst (get_all_tasks status_key prio_key (Some Connection) b) = select_all_tasks status_key prio_key (working b)"
  using query_answered_query [of b "select_all_tasks status_key prio_key"]
  by (cases "query (select_all_tasks status_key prio_key) b") (simp add: get_all_tasks_def)

lemma get_all_jobs_answered:
  "query_answered b \<Longrightarrow> fst (get_all_jobs (Some Connection) b) = select_all_jobs (working b)"
  using query_answered_query [of b select_all_jobs]
  by (cases "query select_all_jobs b") (simp add: get_all_jobs_def)

lemma get_all_companies_answered:
  "query_answered b \<Longrightarrow> fst (get_all_companies (Some Connection) b) = select_all_companies (working b)"
  using query_answered_query [of b select_all_companies]
  by (cases "query select_all_companies b") (simp add: get_all_companies_def)

lemma get_all_recruiters_answered:
  "query_answered b \<Longrightarrow> fst (get_all_recruiters (Some Connection) b) = select_all_recruiters (working b)"
  using query_answered_query [of b select_all_recruiters]
  by (cases "query select_all_recruiters b") (simp add: get_all_recruiters_def)

text \<open>
  Claim C6. The upcoming-tasks query lists stored tasks only and none whose status is
  Completed or Cancelled, whatever its due date; it lists at most \<open>n\<close> rows, by due date
  ascending with absent due dates last, then priority ascending (in the order of the
  priority column) with absent priorities last, then creation time ascending. When
  the backend answers the query the listing is made of the first rows in that order:
  every stored task that is neither Completed nor Cancelled is listed, unless \<open>n\<close> rows
  are listed and each of them comes no later than that task.
\<close>

theorem C6_upcoming_tasks:
  "(\<forall>r \<in> set (fst (get_upcoming_tasks prio_key db_conn n b)).
      t_status (fst r) \<noteq> ''Completed'' \<and> t_status (fst r) \<noteq> ''Cancelled''
      \<and> fst r \<in> set (tasks (working b)))
   \<and> length (fst (get_upcoming_tasks prio_key db_conn n b)) \<le> n
   \<and> sorted_wrt (\<lambda>x y. upcoming_order prio_key (fst x) (fst y))
        (fst (get_upcoming_tasks prio_key db_conn n b))
   \<and> (query_answered b \<longrightarrow>
        (\<forall>t \<in> set (tasks (working b)).
           t_status t \<noteq> ''Completed'' \<longrightarrow> t_status t \<noteq> ''Cancelled'' \<longrightarrow>
           t \<in> fst ` set (fst (get_upcoming_tasks prio_key (Some Connection) n b))
           \<or> (length (fst (get_upcoming_tasks prio_key (Some Connection) n b)) = n
               \<and> (\<forall>r \<in> set (fst (get_upcoming_tasks prio_key (Some Connection) n b)).
                     upcoming_order prio_key (fst r) t))))"
proof -
  have sound: "(\<forall>r \<in> set (fst (get_upcoming_tasks prio_key db_conn n b)).
      t_status (fst r) \<noteq> ''Completed'' \<and> t_status (fst r) \<noteq> ''Cancelled''
      \<and> fst r \<in> set (tasks (working b)))
   \<and> length (fst (get_upcoming_tasks prio_key db_conn n b)) \<le> n
   \<and> sorted_wrt (\<lambda>x y. upcoming_order prio_key (fst x) (fst y))
        (fst (get_upcoming_tasks prio_key db_conn n b))"
    using get_upcoming_tasks_cases [of prio_key db_conn n b]
  proof
    assume "fst (get_upcoming_tasks prio_key db_conn n b) = []"
    then show ?thesis by simp
  next
    assume e: "fst (get_upcoming_tasks prio_key db_conn n b)
               = select_upcoming_tasks prio_key n (working b)"
    show ?thesis
      unfolding e
      using select_upcoming_open [of _ prio_key n "working b"]
        select_upcoming_length [of prio_key n "working b"]
        select_upcoming_sorted [of prio_key n "working b"]
      by blast
  qed
  have complete: "t \<in> fst ` set (fst (get_upcoming_tasks prio_key (Some Connection) n b))
           \<or> (length (fst (get_upcoming_tasks prio_key (Some Connection) n b)) = n
               \<and> (\<forall>r \<in> set (fst (get_upcoming_tasks prio_key (Some Connection) n b)).
                     upcoming_order prio_key (fst r) t))"
    if "query_answered b" "t \<in> set (tasks (working b))"
      "t_status t \<noteq> ''Completed''" "t_status t \<noteq> ''Cancelled''" for t
    unfolding get_upcoming_tasks_answered [OF that(1)]
    by (rule select_upcoming_first [OF that(2,3,4)])
  from sound complete show ?thesis by blast
qed

theorem C6_upcoming_tasks_witness:
  "query_answered demo_backend
   \<and> tasks (working demo_backend) = [demo_task1, demo_task2, demo_task3, demo_task4]
   \<and> fst (get_upcoming_tasks priority_rank (Some Connection) 2 demo_backend)
       = [(demo_task4, None, None, None), (demo_task1, Some ''Engineer'', None, None)]
   \<and> t_priority demo_task4 = Some ''Low'' \<and> t_priority demo_task1 = Some ''High''
   \<and> upcoming_order priority_rank demo_task4 demo_task1
   \<and> t_status demo_task3 = ''Completed''
   \<and> t_status demo_task2 = ''In Progress''
   \<and> upcoming_order priority_rank demo_task4 demo_task2
   \<and> upcoming_order priority_rank demo_task1 demo_task2
   \<and> fst (get_upcoming_tasks (\<lambda>label. label) (Some Connection) 2 demo_backend)
       = [(demo_task1, Some ''Engineer'', None, None), (demo_task4, None, None, None)]"
proof -
  have a: "query_answered demo_backend" by (simp add: query_answered_def demo_backend_def)
  have t: "tasks (working demo_backend) = [demo_task1, demo_task2, demo_task3, demo_task4]"
    by (simp add: demo_backend_def demo_db_def)
  have e: "fst (get_upcoming_tasks priority_rank (Some Connection) 2 demo_backend)
     = [(demo_task4, None, None, None), (demo_task1, Some ''Engineer'', None, None)]"
    by code_simp
  have e': "fst (get_upcoming_tasks (\<lambda>label. label) (Some Connection) 2 demo_backend)
       = [(demo_task1, Some ''Engineer'', None, None), (demo_task4, None, None, None)]"
    by code_simp
  have s: "t_status demo_task2 = ''In Progress''" "t_status demo_task3 = ''Completed''"
    "t_priority demo_task4 = Some ''Low''" "t_priority demo_task1 = Some ''High''"
    by (simp_all add: demo_task1_def demo_task2_def demo_task3_def demo_task4_def)
  have d: "demo_task2 \<noteq> demo_task4" "demo_task2 \<noteq> demo_task1"
    by (simp_all add: demo_task1_def demo_task2_def demo_task4_def)
  from C6_upcoming_tasks [of priority_rank "Some Connection" 2 demo_backend] a t e e' s d
  show ?thesis by simp
qed

text \<open>
  Claim C8. Every listing comes in its order: companies by name ascending, jobs by
  creation time descending, recruiters by name ascending, tasks by due date ascending
  with absent due dates last, then status (ascending, in the order of the status
  column), then priority descending (in the order of the priority column) with absent
  priorities last, then creation time (descending, as the query has it). When the
  backend answers the query, a listing holds exactly the stored rows of its table.
\<close>

theorem C8_list_all_order:
  "sorted_wrt (\<lambda>x y. c_company_name x \<le> c_company_name y) (fst (get_all_companies db_conn b))
   \<and> sorted_wrt (\<lambda>x y. j_created_at (fst y) \<le> j_created_at (fst x)) (fst (get_all_jobs db_conn b))
   \<and> sorted_wrt (\<lambda>x y. r_name (fst x) \<le> r_name (fst y)) (fst (get_all_recruiters db_conn b))
   \<and> sorted_wrt (\<lambda>x y. all_tasks_order status_key prio_key (fst x) (fst y))
        (fst (get_all_tasks status_key prio_key db_conn b))
   \<and> (query_answered b \<longrightarrow>
        set (fst (get_all_companies (Some Connection) b)) = set (companies (working b))
        \<and> length (fst (get_all_companies (Some Connection) b)) = length (companies (working b))
        \<and> fst ` set (fst (get_all_jobs (Some Connection) b)) = set (jobs (working b))
        \<and> fst ` set (fst (get_all_recruiters (Some Connection) b)) = set (recruiters (working b))
        \<and> fst ` set (fst (get_all_tasks status_key prio_key (Some Connection) b))
            = set (tasks (working b)))"
proof (intro conjI impI)
  show "sorted_wrt (\<lambda>x y. c_company_name x \<le> c_company_name y) (fst (get_all_companies db_conn b))"
    using get_all_companies_cases [of db_conn b] select_all_companies_sorted [of "working b"]
    by auto
  show "sorted_wrt (\<lambda>x y. j_created_at (fst y) \<le> j_created_at (fst x)) (fst (get_all_jobs db_conn b))"
    using get_all_jobs_cases [of db_conn b] select_all_jobs_sorted [of "working b"]
    by auto
  show "sorted_wrt (\<lambda>x y. r_name (fst x) \<le> r_name (fst y)) (fst (get_all_recruiters db_conn b))"
    using get_all_recruiters_cases [of db_conn b] select_all_recruiters_sorted [of "working b"]
    by auto
  show "sorted_wrt (\<lambda>x y. all_tasks_order status_key prio_key (fst x) (fst y))
        (fst (get_all_tasks status_key prio_key db_conn b))"
    using get_all_tasks_cases [of status_key prio_key db_conn b]
      select_all_tasks_sorted [of status_key prio_key "working b"]
    by auto
next
  assume a: "query_answered b"
  show "set (fst (get_all_companies (Some Connection) b)) = set (companies (working b))"
    by (simp add: get_all_companies_answered [OF a] listed_companies)
  show "length (fst (get_all_companies (Some Connection) b)) = length (companies (working b))"
    by (simp add: get_all_companies_answered [OF a] select_all_companies_def length_sort_by)
  show "fst ` set (fst (get_all_jobs (Some Connection) b)) = set (jobs (working b))"
    by (simp add: get_all_jobs_answered [OF a] listed_jobs)
  show "fst ` set (fst (get_all_recruiters (Some Connection) b)) = set (recruiters (working b))"
    by (simp add: get_all_recruiters_answered [OF a] listed_recruiters)
  show "fst ` set (fst (get_all_tasks status_key prio_key (Some Connection) b))
            = set (tasks (working b))"
    by (simp add: get_all_tasks_answered [OF a] listed_tasks)
qed

theorem C8_list_all_order_witness:
  "query_answered demo_backend
   \<and> fst (get_all_companies (Some Connection) demo_backend) = [demo_company2, demo_company1]
   \<and> c_company_name demo_company2 \<le> c_company_name demo_company1
   \<and> companies (working demo_backend) = [demo_company1, demo_company2]
   \<and> fst (get_all_jobs (Some Connection) demo_backend)
       = [(demo_job2, Some ''Acme''), (demo_job1, Some ''Zeta'')]
   \<and> j_created_at demo_job1 \<le> j_created_at demo_job2
   \<and> fst (get_all_recruiters (Some Connection) demo_backend)
       = [(demo_recruiter2, None), (demo_recruiter1, Some ''Acme'')]
   \<and> r_name demo_recruiter2 \<le> r_name demo_recruiter1
   \<and> fst (get_all_tasks status_rank priority_rank (Some Connection) demo_backend)
       = [(demo_task3, None, None, Some ''Acme''), (demo_task1, Some ''Engineer'', None, None),
          (demo_task4, None, None, None), (demo_task2, None, Some ''Sam'', None)]
   \<and> all_tasks_order status_rank priority_rank demo_task3 demo_task1
   \<and> all_tasks_order status_rank priority_rank demo_task1 demo_task4
   \<and> all_tasks_order status_rank priority_rank demo_task4 demo_task2"
proof -
  have a: "query_answered demo_backend" by (simp add: query_answered_def demo_backend_def)
  have c: "fst (get_all_companies (Some Connection) demo_backend) = [demo_company2, demo_company1]"
    by code_simp
  have c0: "companies (working demo_backend) = [demo_company1, demo_company2]"
    by (simp add: demo_backend_def demo_db_def)
  have j: "fst (get_all_jobs (Some Connection) demo_backend)
       = [(demo_job2, Some ''Acme''), (demo_job1, Some ''Zeta'')]"
    by code_simp
  have r: "fst (get_all_recruiters (Some Connection) demo_backend)
       = [(demo_recruiter2, None), (demo_recruiter1, Some ''Acme'')]"
    by code_simp
  have t: "fst (get_all_tasks status_rank priority_rank (Some Connection) demo_backend)
       = [(demo_task3, None, None, Some ''Acme''), (demo_task1, Some ''Engineer'', None, None),
          (demo_task4, None, None, None), (demo_task2, None, Some ''Sam'', None)]"
    by code_simp
  from C8_list_all_order [of "Some Connection" demo_backend status_rank priority_rank] a c0
  show ?thesis
    unfolding c j r t by simp
qed

subsection \<open>Job counts by status\<close>

lemma fold_counts:
  assumes "distinct ks" "\<And>k. k \<in> set ks \<Longrightarrow> c k \<noteq> None"
  shows "fold (\<lambda>r_tuple m. if m (fst r_tuple) \<noteq> None then m(fst r_tuple \<mapsto> snd r_tuple) else m)
           (map (\<lambda>k. (k, f k)) ks) c st
         = (if st \<in> set ks then Some (f st) else c st)"
  using assms
proof (induction ks arbitrary: c)
  case Nil
  then show ?case by simp
next
  case (Cons k ks)
  have ck: "c k \<noteq> None" using Cons.prems(2) by simp
  have "fold (\<lambda>r_tuple m. if m (fst r_tuple) \<noteq> None then m(fst r_tuple \<mapsto> snd r_tuple) else m)
           (map (\<lambda>k. (k, f k)) ks) (c(k \<mapsto> f k)) st
         = (if st \<in> set ks then Some (f st) else (c(k \<mapsto> f k)) st)"
    using Cons.prems by (intro Cons.IH) auto
  with ck Cons.prems(1) show ?case by auto
qed

lemma count_list_filter: "P k \<Longrightarrow> count_list (filter P xs) k = count_list xs k"
  by (induction xs) auto

lemma count_list_0: "k \<notin> set xs \<Longrightarrow> count_list xs k = 0"
  by (induction xs) auto

lemma initial_counts:
  "fold (\<lambda>st_val m. m(st_val \<mapsto> 0::nat)) [''Not Applied'', ''Applied'', ''Interviewing'', ''Offer''] Map.empty st
   = (if st \<in> {''Not Applied'', ''Applied'', ''Interviewing'', ''Offer''} then Some 0 else None)"
  by simp

text \<open>
  Claim C2, amended. When the backend answers the query, the job-status-count query
  returns a map over the four statuses Not Applied, Applied, Interviewing and Offer,
  each with the number of jobs in that status, 0 when there is none; every other
  status, Rejected included, is absent from the map.
\<close>

theorem C2_status_counts:
  assumes "query_answered b"
  shows "fst (get_job_status_counts (Some Connection) b) st
         = (if st \<in> {''Not Applied'', ''Applied'', ''Interviewing'', ''Offer''}
            then Some (count_list (map j_status (jobs (working b))) st) else None)"
proof -
  let ?s = "[''Not Applied'', ''Applied'', ''Interviewing'', ''Offer'']"
  let ?c = "fold (\<lambda>st_val m. m(st_val \<mapsto> 0::nat)) ?s Map.empty"
  let ?sts = "filter (\<lambda>x. x \<in> set ?s) (map j_status (jobs (working b)))"
  let ?upd = "\<lambda>r_tuple m. if m (fst r_tuple) \<noteq> None then m(fst r_tuple \<mapsto> snd r_tuple) else m"
  obtain b1 where q: "query (count_by_status ?s) b = (Inr (count_by_status ?s (working b)), b1)"
    using query_answered_query [OF assms, of "count_by_status ?s"]
    by (cases "query (count_by_status ?s) b") auto
  have res: "fst (get_job_status_counts (Some Connection) b)
     = fold ?upd (map (\<lambda>k. (k, count_list ?sts k)) (remdups ?sts)) ?c"
    unfolding get_job_status_counts_def Let_def option.case q
    by (simp add: count_by_status_def Let_def)
  have dom: "?c k \<noteq> None" if "k \<in> set (remdups ?sts)" for k
    using that unfolding initial_counts by auto
  have "fold ?upd (map (\<lambda>k. (k, count_list ?sts k)) (remdups ?sts)) ?c st
     = (if st \<in> set (remdups ?sts) then Some (count_list ?sts st) else ?c st)"
    by (rule fold_counts) (use dom in auto)
  also have "\<dots> = (if st \<in> {''Not Applied'', ''Applied'', ''Interviewing'', ''Offer''}
            then Some (count_list (map j_status (jobs (working b))) st) else None)"
  proof (cases "st \<in> set ?s")
    case True
    then have cf: "count_list ?sts st = count_list (map j_status (jobs (working b))) st"
      by (intro count_list_filter)
    show ?thesis
    proof (cases "st \<in> set (remdups ?sts)")
      case True
      with \<open>st \<in> set ?s\<close> cf show ?thesis by simp
    next
      case False
      then have "count_list ?sts st = 0" by (intro count_list_0) simp
      with False \<open>st \<in> set ?s\<close> cf show ?thesis unfolding initial_counts by simp
    qed
  next
    case False
    then have "st \<notin> set (remdups ?sts)" by auto
    with False show ?thesis unfolding initial_counts by simp
  qed
  finally show ?thesis unfolding res .
qed

theorem C2_status_counts_witness:
  "query_answered status_demo_backend
   \<and> map j_status (jobs (working status_demo_backend))
       = [''Applied'', ''Applied'', ''Interviewing'', ''Offer'', ''Not Applied'']
   \<and> fst (get_job_status_counts (Some Connection) status_demo_backend) ''Not Applied'' = Some 1
   \<and> fst (get_job_status_counts (Some Connection) status_demo_backend) ''Applied'' = Some 2
   \<and> fst (get_job_status_counts (Some Connection) status_demo_backend) ''Interviewing'' = Some 1
   \<and> fst (get_job_status_counts (Some Connection) status_demo_backend) ''Offer'' = Some 1
   \<and> fst (get_job_status_counts (Some Connection) status_demo_backend) ''Rejected'' = None"
proof -
  have a: "query_answered status_demo_backend"
    by (simp add: query_answered_def status_demo_backend_def demo_backend_def)
  have j: "map j_status (jobs (working status_demo_backend))
       = [''Applied'', ''Applied'', ''Interviewing'', ''Offer'', ''Not Applied'']"
    by (simp add: status_demo_backend_def status_job_def)
  show ?thesis
    using a C2_status_counts [OF a] unfolding j by simp
qed

text \<open>
  Claim C2 as stated fails on its own example: for jobs with the statuses Applied,
  Applied, Interviewing, Offer, Not Applied the map has no entry for Rejected, a
  status of the five-status vocabulary, instead of the entry 0.
\<close>

theorem C2_counterexample:
  "''Rejected'' \<in> set job_status_options
   \<and> map j_status (jobs (working status_demo_backend))
       = [''Applied'', ''Applied'', ''Interviewing'', ''Offer'', ''Not Applied'']
   \<and> fst (get_job_status_counts (Some Connection) status_demo_backend) ''Rejected'' \<noteq> Some 0"
  by (simp add: job_status_options_def status_demo_backend_def status_job_def
      demo_backend_def get_job_status_counts_def query_def next_fault_def count_by_status_def)

subsection \<open>Reference resolver\<close>

lemma working_next_fault [simp]: "working (snd (next_fault b)) = working b"
  by (simp add: next_fault_def split: list.splits)

lemma committed_next_fault [simp]: "committed (snd (next_fault b)) = committed b"
  by (simp add: next_fault_def split: list.splits)

lemma working_query [simp]: "working (snd (query q b)) = working b"
  by (simp add: query_def next_fault_def split: list.splits bool.splits)

lemma committed_query [simp]: "committed (snd (query q b)) = committed b"
  by (simp add: query_def next_fault_def split: list.splits bool.splits)

lemma query_cases:
  "fst (query q b) = Inl DbError \<or> fst (query q b) = Inr (q (working b))"
  by (simp add: query_def next_fault_def split: list.splits bool.splits)

lemma fold_options:
  "fold (\<lambda>row options_map. options_map(snd row \<mapsto> Some (fst row))) data m0 k
   = (case filter (\<lambda>r. snd r = k) data of
        [] \<Rightarrow> m0 k
      | r # rs \<Rightarrow> Some (Some (fst (last (r # rs)))))"
proof (induction data rule: rev_induct)
  case Nil
  then show ?case by simp
next
  case (snoc x xs)
  then show ?case by (auto split: list.splits)
qed

lemma query_keeps:
  "query q b = (r, b') \<Longrightarrow> working b' = working b \<and> committed b' = committed b"
  by (auto simp: query_def next_fault_def split: list.splits bool.splits)

lemma working_get_options [simp]: "working (snd (get_options c table d b)) = working b"
  by (auto simp: get_options_def split: option.splits prod.splits sum.splits dest: query_keeps)

lemma get_options_cases:
  "fst (get_options c table d b) = [d \<mapsto> None]
   \<or> fst (get_options c table d b)
       = fold (\<lambda>row options_map. options_map(snd row \<mapsto> Some (fst row)))
           (select_options table (working b)) [d \<mapsto> None]"
  using query_cases [of "select_options table" b]
  by (auto simp: get_options_def split: option.splits prod.splits sum.splits)

lemma get_options_answered:
  "query_answered b \<Longrightarrow>
   fst (get_options (Some Connection) table d b)
     = fold (\<lambda>row options_map. options_map(snd row \<mapsto> Some (fst row)))
         (select_options table (working b)) [d \<mapsto> None]"
  by (auto simp: get_options_def query_def next_fault_def query_answered_def split: list.splits)

lemma set_select_options: "set (select_options table d) = set (table d)"
  by (simp add: select_options_def set_sort_by)

lemma get_options_placeholder:
  assumes "d \<notin> snd ` set (table (working b))"
  shows "fst (get_options c table d b) d = Some None
         \<and> (\<forall>k. fst (get_options c table d b) k = Some None \<longrightarrow> k = d)"
proof -
  let ?data = "select_options table (working b)"
  have no: "filter (\<lambda>r. snd r = d) ?data = []"
    using assms by (auto simp: filter_empty_conv set_select_options)
  have 1: "fold (\<lambda>row options_map. options_map(snd row \<mapsto> Some (fst row))) ?data [d \<mapsto> None] d = Some None"
    by (simp add: fold_options no)
  have 2: "k = d"
    if "fold (\<lambda>row options_map. options_map(snd row \<mapsto> Some (fst row))) ?data [d \<mapsto> None] k = Some None"
    for k
    using that by (auto simp: fold_options split: list.splits if_splits)
  from get_options_cases [of c table d b] show ?thesis
  proof
    assume "fst (get_options c table d b) = [d \<mapsto> None]"
    then show ?thesis by (auto split: if_splits)
  next
    assume "fst (get_options c table d b)
       = fold (\<lambda>row options_map. options_map(snd row \<mapsto> Some (fst row))) ?data [d \<mapsto> None]"
    with 1 2 show ?thesis by auto
  qed
qed

lemma load_selectbox_options_maps:
  "fst (load_selectbox_options conn b)
   = (fst (get_options conn companies_id_name ''--- Select Company ---'' b),
      fst (get_options conn jobs_id_name ''--- Select Job ---''
             (snd (get_options conn companies_id_name ''--- Select Company ---'' b))),
      fst (get_options conn recruiters_id_name ''--- Select Recruiter ---''
             (snd (get_options conn jobs_id_name ''--- Select Job ---''
                (snd (get_options conn companies_id_name ''--- Select Company ---'' b))))))"
  by (simp add: load_selectbox_options_def split: prod.splits)

text \<open>
  Claim C9, amended. For every snapshot in which no company is named
  \<^verbatim>\<open>--- Select Company ---\<close>, no job is titled \<^verbatim>\<open>--- Select Job ---\<close> and no recruiter is
  named \<^verbatim>\<open>--- Select Recruiter ---\<close>, each of the three mappings holds its placeholder
  entry, mapped to absent, and no other entry is mapped to absent. This holds whether
  or not the queries fail.
\<close>

theorem C9_placeholder:
  assumes "''--- Select Company ---'' \<notin> set (map c_company_name (companies (working b)))"
    and "''--- Select Job ---'' \<notin> set (map j_job_title (jobs (working b)))"
    and "''--- Select Recruiter ---'' \<notin> set (map r_name (recruiters (working b)))"
  shows "(case fst (load_selectbox_options conn b) of
           (company_opts, job_opts, recruiter_opts) \<Rightarrow>
             company_opts ''--- Select Company ---'' = Some None
             \<and> (\<forall>k. company_opts k = Some None \<longrightarrow> k = ''--- Select Company ---'')
             \<and> job_opts ''--- Select Job ---'' = Some None
             \<and> (\<forall>k. job_opts k = Some None \<longrightarrow> k = ''--- Select Job ---'')
             \<and> recruiter_opts ''--- Select Recruiter ---'' = Some None
             \<and> (\<forall>k. recruiter_opts k = Some None \<longrightarrow> k = ''--- Select Recruiter ---''))"
proof -
  let ?b1 = "snd (get_options conn companies_id_name ''--- Select Company ---'' b)"
  let ?b2 = "snd (get_options conn jobs_id_name ''--- Select Job ---'' ?b1)"
  have c: "''--- Select Company ---'' \<notin> snd ` set (companies_id_name (working b))"
    using assms(1) by (auto simp: companies_id_name_def)
  have j: "''--- Select Job ---'' \<notin> snd ` set (jobs_id_name (working ?b1))"
    using assms(2) by (auto simp: jobs_id_name_def)
  have r: "''--- Select Recruiter ---'' \<notin> snd ` set (recruiters_id_name (working ?b2))"
    using assms(3) by (auto simp: recruiters_id_name_def)
  show ?thesis
    unfolding load_selectbox_options_maps prod.case
    using get_options_placeholder [of "''--- Select Company ---''" companies_id_name b conn, OF c]
      get_options_placeholder [of "''--- Select Job ---''" jobs_id_name ?b1 conn, OF j]
      get_options_placeholder [of "''--- Select Recruiter ---''" recruiters_id_name ?b2 conn, OF r]
    by blast
qed

theorem C9_placeholder_witness:
  "''--- Select Company ---'' \<notin> set (map c_company_name (companies (working demo_backend)))
   \<and> ''--- Select Job ---'' \<notin> set (map j_job_title (jobs (working demo_backend)))
   \<and> ''--- Select Recruiter ---'' \<notin> set (map r_name (recruiters (working demo_backend)))
   \<and> fst (fst (load_selectbox_options (Some Connection) demo_backend)) ''--- Select Company ---'' = Some None
   \<and> fst (snd (fst (load_selectbox_options (Some Connection) demo_backend))) ''--- Select Job ---'' = Some None
   \<and> snd (snd (fst (load_selectbox_options (Some Connection) demo_backend))) ''--- Select Recruiter ---'' = Some None"
proof -
  have c: "''--- Select Company ---'' \<notin> set (map c_company_name (companies (working demo_backend)))"
    by (simp add: demo_backend_def demo_db_def demo_company1_def demo_company2_def)
  have j: "''--- Select Job ---'' \<notin> set (map j_job_title (jobs (working demo_backend)))"
    by (simp add: demo_backend_def demo_db_def demo_job1_def demo_job2_def)
  have r: "''--- Select Recruiter ---'' \<notin> set (map r_name (recruiters (working demo_backend)))"
    by (simp add: demo_backend_def demo_db_def demo_recruiter1_def demo_recruiter2_def)
  from C9_placeholder [OF c j r, of "Some Connection"] c j r show ?thesis
    by (simp add: case_prod_unfold)
qed

text \<open>
  Claim C9 as stated fails for a snapshot with a company named like the placeholder:
  the row overwrites the reserved entry, which then maps to the company's identifier.
\<close>

theorem C9_counterexample:
  "fst (fst (load_selectbox_options (Some Connection) placeholder_backend)) ''--- Select Company ---''
     = Some (Some 1)
   \<and> fst (fst (load_selectbox_options (Some Connection) placeholder_backend)) ''--- Select Company ---''
     \<noteq> Some None"
proof -
  have "fst (get_options (Some Connection) companies_id_name ''--- Select Company ---'' placeholder_backend)
          ''--- Select Company ---'' = Some (Some 1)"
    by (simp add: get_options_def query_def next_fault_def placeholder_backend_def demo_backend_def
        select_options_def companies_id_name_def named_company_def sort_by_def)
  then show ?thesis
    unfolding load_selectbox_options_maps by simp
qed

lemma distinct_map_insort_by:
  "distinct (map f (insort_by le x xs)) = (f x \<notin> f ` set xs \<and> distinct (map f xs))"
  by (induction xs) (auto simp: set_insort_by)

lemma distinct_map_sort_by: "distinct (map f (sort_by le xs)) = distinct (map f xs)"
proof (induction xs)
  case Nil
  then show ?case by (simp add: sort_by_def)
next
  case (Cons x xs)
  have "sort_by le (x # xs) = insort_by le x (sort_by le xs)" by (simp add: sort_by_def)
  with Cons show ?case by (simp add: distinct_map_insort_by set_sort_by)
qed

lemma last_filter_in:
  "filter P xs \<noteq> [] \<Longrightarrow> last (filter P xs) \<in> set xs \<and> P (last (filter P xs))"
proof -
  assume "filter P xs \<noteq> []"
  then have "last (filter P xs) \<in> set (filter P xs)" by (rule last_in_set)
  then show ?thesis by simp
qed

text \<open>
  Claim C10. When the query is answered, the mapping built by \<open>get_options\<close> has
  exactly the placeholder and the names of the table as keys, one entry per distinct
  name; a name resolves to the identifier of the last row of that name in the order of
  the query result; and, identifiers being distinct, the identifier of any other row
  of that name is the value of no key.
\<close>

theorem C10_name_resolution:
  assumes "query_answered b"
  shows "dom (fst (get_options (Some Connection) table d b)) = insert d (snd ` set (table (working b)))
   \<and> (\<forall>row \<in> set (select_options table (working b)).
        fst (get_options (Some Connection) table d b) (snd row)
          = Some (Some (fst (last (filter (\<lambda>r. snd r = snd row) (select_options table (working b)))))))
   \<and> (distinct (map fst (table (working b))) \<longrightarrow>
        (\<forall>row \<in> set (select_options table (working b)).
           row \<noteq> last (filter (\<lambda>r. snd r = snd row) (select_options table (working b))) \<longrightarrow>
           (\<forall>k. fst (get_options (Some Connection) table d b) k \<noteq> Some (Some (fst row)))))"
proof -
  let ?data = "select_options table (working b)"
  let ?m = "fst (get_options (Some Connection) table d b)"
  have m: "?m k = (case filter (\<lambda>r. snd r = k) ?data of
                      [] \<Rightarrow> [d \<mapsto> None] k
                    | r # rs \<Rightarrow> Some (Some (fst (last (r # rs)))))" for k
    unfolding get_options_answered [OF assms] by (rule fold_options)
  have 1: "dom ?m = insert d (snd ` set (table (working b)))"
  proof (rule set_eqI)
    fix k
    have "filter (\<lambda>r. snd r = k) ?data = [] \<longleftrightarrow> k \<notin> snd ` set (table (working b))"
      by (auto simp: filter_empty_conv set_select_options)
    then show "k \<in> dom ?m \<longleftrightarrow> k \<in> insert d (snd ` set (table (working b)))"
      unfolding dom_def m by (auto split: list.splits if_splits)
  qed
  have 2: "?m (snd row) = Some (Some (fst (last (filter (\<lambda>r. snd r = snd row) ?data))))"
    if "row \<in> set ?data" for row
  proof -
    from that have "filter (\<lambda>r. snd r = snd row) ?data \<noteq> []"
      by (auto simp: filter_empty_conv)
    then show ?thesis unfolding m by (simp split: list.splits)
  qed
  have 3: "?m k \<noteq> Some (Some (fst row))"
    if dist: "distinct (map fst (table (working b)))" and row: "row \<in> set ?data"
      and notlast: "row \<noteq> last (filter (\<lambda>r. snd r = snd row) ?data)" for row k
  proof
    assume eq: "?m k = Some (Some (fst row))"
    have ne: "filter (\<lambda>r. snd r = k) ?data \<noteq> []"
      using eq unfolding m by (auto split: list.splits if_splits)
    then have fl: "fst (last (filter (\<lambda>r. snd r = k) ?data)) = fst row"
      using eq unfolding m by (auto split: list.splits)
    from last_filter_in [OF ne]
    have lin: "last (filter (\<lambda>r. snd r = k) ?data) \<in> set ?data"
      and lk: "snd (last (filter (\<lambda>r. snd r = k) ?data)) = k" by auto
    have "distinct (map fst ?data)"
      using dist by (simp add: select_options_def distinct_map_sort_by)
    then have "inj_on fst (set ?data)" by (simp add: distinct_map)
    with lin row fl have "last (filter (\<lambda>r. snd r = k) ?data) = row"
      by (auto dest: inj_onD)
    with lk notlast show False by auto
  qed
  from 1 2 3 show ?thesis by blast
qed

theorem C10_name_resolution_witness:
  "query_answered duplicate_backend
   \<and> select_options companies_id_name (working duplicate_backend)
       = [(1, ''Acme''), (3, ''Acme''), (2, ''Beta'')]
   \<and> dom (fst (get_options (Some Connection) companies_id_name ''--- Select Company ---'' duplicate_backend))
       = {''--- Select Company ---'', ''Acme'', ''Beta''}
   \<and> fst (get_options (Some Connection) companies_id_name ''--- Select Company ---'' duplicate_backend) ''Acme''
       = Some (Some 3)
   \<and> fst (get_options (Some Connection) companies_id_name ''--- Select Company ---'' duplicate_backend) ''Acme''
       \<noteq> Some (Some 1)"
proof -
  have a: "query_answered duplicate_backend"
    by (simp add: query_answered_def duplicate_backend_def demo_backend_def)
  have d: "select_options companies_id_name (working duplicate_backend)
       = [(1, ''Acme''), (3, ''Acme''), (2, ''Beta'')]"
    by code_simp
  have t: "companies_id_name (working duplicate_backend) = [(1, ''Acme''), (2, ''Beta''), (3, ''Acme'')]"
    by (simp add: companies_id_name_def duplicate_backend_def named_company_def)
  from C10_name_resolution [OF a, of companies_id_name "''--- Select Company ---''"] a d show ?thesis
    unfolding d t by auto
qed

subsection \<open>Write operations roll back\<close>

lemmas write_defs =
  add_new_company_def add_new_job_def update_job_details_def delete_job_record_def
  add_new_recruiter_def add_new_task_def update_task_details_def delete_task_record_def
  update_company_inline_def delete_company_inline_def update_recruiter_inline_def
  delete_recruiter_inline_def

lemmas sql_defs =
  sql_insert_company_def sql_update_company_def sql_delete_company_def
  sql_insert_job_def sql_update_job_def sql_delete_job_def
  sql_insert_recruiter_def sql_update_recruiter_def sql_delete_recruiter_def
  sql_insert_task_def sql_update_task_def sql_delete_task_def

text \<open>The ways in which the statement or the commit of a write can raise, with what
  the rollback that follows does.\<close>

lemma write_raises_cases:
  assumes "write_raises b"
  obtains "faults b = [True]"
    | gs where "faults b = True # False # gs"
    | gs where "faults b = True # True # gs"
    | "faults b = [False, True]"
    | gs where "faults b = False # True # False # gs"
    | gs where "faults b = False # True # True # gs"
proof (cases "faults b")
  case Nil
  with assms show ?thesis by (simp add: write_raises_def)
next
  case (Cons f fs)
  show ?thesis
  proof (cases f)
    case True
    show ?thesis
    proof (cases fs)
      case Nil
      with Cons True that(1) show ?thesis by simp
    next
      case (Cons g gs)
      with \<open>faults b = f # fs\<close> True that(2,3) show ?thesis by (cases g) simp_all
    qed
  next
    case False
    with Cons assms obtain gs where gs: "fs = True # gs"
      by (cases fs) (auto simp: write_raises_def)
    show ?thesis
    proof (cases gs)
      case Nil
      with Cons False gs that(4) show ?thesis by simp
    next
      case (Cons h hs)
      with \<open>faults b = f # fs\<close> False gs that(5,6) show ?thesis by (cases h) simp_all
    qed
  qed
qed

lemmas run_defs =
  write_defs sql_defs of_function_def of_inline_def is_inline_def succeeded_def
  execute_def commit_def next_fault_def rollback_def rollback_raises_def quiescent_def

lemma run_write_raises:
  assumes "write_raises b" "quiescent b"
  shows "committed (w_backend (run_write op s b)) = committed b
    \<and> working (w_backend (run_write op s b)) = committed b
    \<and> \<not> succeeded (run_write op s b)
    \<and> (if w_raised (run_write op s b)
        then rollback_raises b \<and> returned (run_write op s b) = None
             \<and> w_shown (run_write op s b) = [] \<and> w_session (run_write op s b) = s
        else if is_inline op
        then returned (run_write op s b) = None \<and> w_session (run_write op s b) = s
             \<and> list_ex is_error (w_shown (run_write op s b))
        else returned (run_write op s b) = Some False)
    \<and> (is_inline op \<and> rollback_raises b \<longrightarrow> w_raised (run_write op s b))"
  using assms(1)
proof (cases rule: write_raises_cases)
  case 1
  with assms(2) show ?thesis by (cases op) (simp_all add: run_defs split: option.splits)
next
  case 2
  with assms(2) show ?thesis by (cases op) (simp_all add: run_defs split: option.splits)
next
  case 3
  with assms(2) show ?thesis by (cases op) (simp_all add: run_defs split: option.splits)
next
  case 4
  with assms(2) show ?thesis by (cases op) (simp_all add: run_defs split: option.splits)
next
  case 5
  with assms(2) show ?thesis by (cases op) (simp_all add: run_defs split: option.splits)
next
  case 6
  with assms(2) show ?thesis by (cases op) (simp_all add: run_defs split: option.splits)
qed

lemma committed_rollback: "committed (snd (rollback b)) = committed b"
  by (simp add: rollback_def next_fault_def split: list.splits bool.splits)

lemma run_write_commits_only_on_success:
  "succeeded (run_write op s b) \<or> committed (w_backend (run_write op s b)) = committed b"
proof (cases "faults b")
  case Nil
  then show ?thesis by (cases op) (simp_all add: run_defs split: option.splits)
next
  case (Cons f fs)
  show ?thesis
  proof (cases f)
    case True
    show ?thesis
    proof (cases fs)
      case Nil
      with Cons True show ?thesis by (cases op) (simp_all add: run_defs split: option.splits)
    next
      case (Cons g gs)
      with \<open>faults b = f # fs\<close> True show ?thesis
        by (cases op; cases g) (simp_all add: run_defs split: option.splits)
    qed
  next
    case False
    show ?thesis
    proof (cases fs)
      case Nil
      with Cons False show ?thesis by (cases op) (simp_all add: run_defs split: option.splits)
    next
      case (Cons g gs)
      show ?thesis
      proof (cases g)
        case False
        with Cons \<open>faults b = f # fs\<close> \<open>\<not> f\<close> show ?thesis
          by (cases op) (simp_all add: run_defs split: option.splits)
      next
        case True
        show ?thesis
        proof (cases gs)
          case Nil
          with True Cons \<open>faults b = f # fs\<close> \<open>\<not> f\<close> show ?thesis
            by (cases op) (simp_all add: run_defs split: option.splits)
        next
          case (Cons h hs)
          with True \<open>fs = g # gs\<close> \<open>faults b = f # fs\<close> \<open>\<not> f\<close> show ?thesis
            by (cases op; cases h) (simp_all add: run_defs split: option.splits)
        qed
      qed
    qed
  qed
qed

text \<open>
  Claim C1, amended. A write operation changes the committed tables only when it
  succeeds. If its statement or its commit raises, the transaction is rolled back or,
  on a lost connection, discarded: the committed tables are those from before and the
  session sees exactly them, so no partial write is visible. What the caller then gets
  depends on the rollback in the exception handler. If the rollback does not raise,
  each of the eight write functions (\<open>add_new_company\<close>, \<open>add_new_job\<close>,
  \<open>update_job_details\<close>, \<open>delete_job_record\<close>, \<open>add_new_recruiter\<close>, \<open>add_new_task\<close>,
  \<open>update_task_details\<close>, \<open>delete_task_record\<close>) returns False, and the update and the
  delete of a company or a recruiter, written inline in the page script, return
  nothing: they show an error message and leave the session state as it was. An
  exception leaves the operation only when the rollback raises, and then nothing is
  returned and no error message is shown; an inline write whose rollback raises
  always ends so.
\<close>

theorem C1_writes_roll_back:
  "(succeeded (run_write op s b) \<or> committed (w_backend (run_write op s b)) = committed b)
   \<and> (write_raises b \<and> quiescent b \<longrightarrow>
        committed (w_backend (run_write op s b)) = committed b
        \<and> working (w_backend (run_write op s b)) = committed b
        \<and> \<not> succeeded (run_write op s b)
        \<and> (if w_raised (run_write op s b)
            then rollback_raises b \<and> returned (run_write op s b) = None
                 \<and> w_shown (run_write op s b) = [] \<and> w_session (run_write op s b) = s
            else if is_inline op
            then returned (run_write op s b) = None \<and> w_session (run_write op s b) = s
                 \<and> list_ex is_error (w_shown (run_write op s b))
            else returned (run_write op s b) = Some False)
        \<and> (is_inline op \<and> rollback_raises b \<longrightarrow> w_raised (run_write op s b)))"
  using run_write_commits_only_on_success [of op s b] run_write_raises [of b op s]
  by blast

theorem C1_writes_roll_back_witness:
  "write_raises failing_backend \<and> quiescent failing_backend
   \<and> run_write (AddJob ''Engineer'' (Some 1) '''' ''Applied'' '''' '''' None) demo_session failing_backend
       = \<lparr>returned = Some False, w_raised = False, w_shown = [Error ''DB Error (add job)''],
          w_session = demo_session, w_backend = demo_backend\<rparr>
   \<and> write_raises commit_failing_backend \<and> quiescent commit_failing_backend
   \<and> returned (run_write (UpdateTask 2 ''Call back'' None ''Open'' None '''' None None None)
        demo_session commit_failing_backend) = Some False
   \<and> committed (w_backend (run_write (UpdateTask 2 ''Call back'' None ''Open'' None '''' None None None)
        demo_session commit_failing_backend)) = demo_db
   \<and> working (w_backend (run_write (UpdateTask 2 ''Call back'' None ''Open'' None '''' None None None)
        demo_session commit_failing_backend)) = demo_db
   \<and> write_raises lost_backend \<and> quiescent lost_backend \<and> rollback_raises lost_backend
   \<and> w_raised (run_write (DeleteCompany 2) demo_session lost_backend)
   \<and> w_shown (run_write (DeleteCompany 2) demo_session lost_backend) = []
   \<and> committed (w_backend (run_write (DeleteCompany 2) demo_session lost_backend)) = demo_db"
proof -
  have a: "write_raises failing_backend \<and> quiescent failing_backend"
    by (simp add: write_raises_def quiescent_def failing_backend_def demo_backend_def)
  have c: "write_raises commit_failing_backend \<and> quiescent commit_failing_backend"
    "\<not> rollback_raises commit_failing_backend"
    by (simp_all add: write_raises_def rollback_raises_def quiescent_def
        commit_failing_backend_def demo_backend_def)
  have l: "write_raises lost_backend \<and> quiescent lost_backend \<and> rollback_raises lost_backend"
    by (simp add: write_raises_def rollback_raises_def quiescent_def lost_backend_def
        demo_backend_def)
  have e: "run_write (AddJob ''Engineer'' (Some 1) '''' ''Applied'' '''' '''' None) demo_session failing_backend
       = \<lparr>returned = Some False, w_raised = False, w_shown = [Error ''DB Error (add job)''],
          w_session = demo_session, w_backend = demo_backend\<rparr>"
    by (simp add: add_new_job_def of_function_def execute_def next_fault_def rollback_def
        failing_backend_def demo_backend_def)
  have d: "committed commit_failing_backend = demo_db" "committed lost_backend = demo_db"
    by (simp_all add: commit_failing_backend_def lost_backend_def demo_backend_def)
  from C1_writes_roll_back [of "UpdateTask 2 ''Call back'' None ''Open'' None '''' None None None"
      demo_session commit_failing_backend]
    C1_writes_roll_back [of "DeleteCompany 2" demo_session lost_backend] a c l e d
  show ?thesis by (auto simp: is_inline_def split: if_splits)
qed

text \<open>
  Claim C1 as stated fails twice. For an inline write whose statement raises, the
  transaction is rolled back and an error is shown, but no False is returned to any
  caller. For a write function on a lost connection, where the rollback raises as
  well, the exception leaves the function: it returns nothing and shows nothing.
\<close>

theorem C1_counterexample:
  "write_raises failing_backend \<and> quiescent failing_backend
   \<and> run_write (UpdateCompany 2 ''Acme Ltd'' '''' '''' '''' '''') demo_session failing_backend
       = \<lparr>returned = None, w_raised = False, w_shown = [Error ''Error updating company''],
          w_session = demo_session, w_backend = demo_backend\<rparr>
   \<and> returned (run_write (UpdateCompany 2 ''Acme Ltd'' '''' '''' '''' '''') demo_session failing_backend)
       \<noteq> Some False
   \<and> write_raises lost_backend \<and> quiescent lost_backend
   \<and> run_write (AddJob ''Engineer'' (Some 1) '''' ''Applied'' '''' '''' None) demo_session lost_backend
       = \<lparr>returned = None, w_raised = True, w_shown = [], w_session = demo_session,
          w_backend = demo_backend\<rparr>
   \<and> returned (run_write (AddJob ''Engineer'' (Some 1) '''' ''Applied'' '''' '''' None)
        demo_session lost_backend) \<noteq> Some False"
  by (simp add: update_company_inline_def add_new_job_def of_inline_def of_function_def
      execute_def next_fault_def rollback_def failing_backend_def lost_backend_def
      demo_backend_def write_raises_def quiescent_def)

subsection \<open>Adding a job with a typed company name\<close>

lemma add_new_company_True:
  assumes "add_new_company (Some Connection) name [] [] [] [] b = (Inr True, m, b1)"
  shows "name \<noteq> [] \<and> m = [] \<and> \<not> write_raises b
    \<and> working b1 = (working b)\<lparr>companies := companies (working b) @ [typed_company b name]\<rparr>
    \<and> committed b1 = working b1
    \<and> company_seq b1 = Suc (company_seq b) \<and> job_seq b1 = job_seq b
    \<and> clock b1 = Suc (clock b) \<and> faults b1 = drop 2 (faults b)"
  using assms
  by (auto simp: add_new_company_def execute_def commit_def next_fault_def rollback_def
      write_raises_def sql_insert_company_def typed_company_def
      split: if_splits list.splits bool.splits)

lemma add_new_company_raises:
  assumes "write_raises b" "quiescent b" "name \<noteq> []"
  shows "\<exists>r m b1. add_new_company (Some Connection) name sv w nv src b = (r, m, b1)
         \<and> r \<noteq> Inr True \<and> committed b1 = committed b \<and> working b1 = committed b"
  using assms(1)
proof (cases rule: write_raises_cases)
  case 1
  with assms(2,3) show ?thesis
    by (simp add: add_new_company_def execute_def next_fault_def rollback_def quiescent_def)
next
  case 2
  with assms(2,3) show ?thesis
    by (simp add: add_new_company_def execute_def next_fault_def rollback_def quiescent_def)
next
  case 3
  with assms(2,3) show ?thesis
    by (simp add: add_new_company_def execute_def next_fault_def rollback_def quiescent_def)
next
  case 4
  with assms(2,3) show ?thesis
    by (simp add: add_new_company_def execute_def commit_def next_fault_def rollback_def
        sql_insert_company_def quiescent_def)
next
  case 5
  with assms(2,3) show ?thesis
    by (simp add: add_new_company_def execute_def commit_def next_fault_def rollback_def
        sql_insert_company_def quiescent_def)
next
  case 6
  with assms(2,3) show ?thesis
    by (simp add: add_new_company_def execute_def commit_def next_fault_def rollback_def
        sql_insert_company_def quiescent_def)
qed

lemma add_new_job_True:
  assumes "add_new_job (Some Connection) title comp_id loc stat url nv df b = (Inr True, m, b1)"
  shows "\<exists>cid. comp_id = Some cid \<and> title \<noteq> [] \<and> m = []
    \<and> working b1 = (working b)\<lparr>jobs := jobs (working b) @
         [\<lparr>j_job_id = job_seq b, j_job_title = title, j_company_id = cid, j_location = loc,
           j_status = stat, j_job_url = url, j_notes = nv, j_date_found = df,
           j_created_at = clock b\<rparr>]\<rparr>
    \<and> committed b1 = working b1
    \<and> company_seq b1 = company_seq b \<and> job_seq b1 = Suc (job_seq b)"
  using assms
  by (auto simp: add_new_job_def execute_def commit_def next_fault_def rollback_def
      sql_insert_job_def split: if_splits list.splits bool.splits option.splits)

lemma query_result:
  assumes "query q b = (r, b')"
  shows "(r = Inl DbError \<or> r = Inr (q (working b)))
    \<and> working b' = working b \<and> committed b' = committed b
    \<and> company_seq b' = company_seq b \<and> job_seq b' = job_seq b \<and> clock b' = clock b"
  using assms by (auto simp: query_def next_fault_def split: list.splits bool.splits)

lemma query_raises:
  "faults b = True # fs \<Longrightarrow> fst (query q b) = Inl DbError"
  by (simp add: query_def next_fault_def)

lemma select_new_company_id_latest:
  assumes x: "x \<in> set (companies d)" "c_company_name x = name"
    and mx: "\<And>y. y \<in> set (companies d) \<Longrightarrow> c_company_name y = name \<Longrightarrow> c_company_id y \<le> c_company_id x"
  shows "select_new_company_id name d = Some (c_company_id x)"
proof -
  let ?le = "order_by [descending c_company_id]"
  let ?fs = "filter (\<lambda>c. c_company_name c = name) (companies d)"
  let ?s = "sort_by ?le ?fs"
  have tp: "total_preorder ?le"
    by (rule total_preorder_order_by) (auto simp: total_preorder_descending)
  have xin: "x \<in> set ?s" using x by (simp add: set_sort_by)
  then obtain h t where s: "?s = h # t" by (cases ?s) auto
  have "h \<in> set ?s" by (simp add: s)
  then have hin: "h \<in> set (companies d)" "c_company_name h = name"
    by (auto simp: set_sort_by)
  then have le1: "c_company_id h \<le> c_company_id x" by (rule mx)
  have "sorted_wrt ?le (h # t)" using sorted_wrt_sort_by [OF tp, of ?fs] by (simp only: s)
  then have "c_company_id y \<le> c_company_id h" if "y \<in> set t" for y
    using that by (auto simp: descending_def split: if_splits)
  with xin have "c_company_id x \<le> c_company_id h" by (auto simp: s)
  with le1 have "c_company_id h = c_company_id x" by simp
  then show ?thesis
    unfolding select_new_company_id_def by (simp only: s) simp
qed

lemma select_typed_company:
  assumes "ids_below_seq b"
  shows "select_new_company_id name
           ((working b)\<lparr>companies := companies (working b) @ [typed_company b name]\<rparr>)
         = Some (company_seq b)"
proof -
  have "select_new_company_id name
           ((working b)\<lparr>companies := companies (working b) @ [typed_company b name]\<rparr>)
         = Some (c_company_id (typed_company b name))"
  proof (rule select_new_company_id_latest)
    fix y
    assume "y \<in> set (companies ((working b)\<lparr>companies := companies (working b) @ [typed_company b name]\<rparr>))"
    then have "y = typed_company b name \<or> c_company_id y < company_seq b"
      using assms by (auto simp: ids_below_seq_def list_all_iff)
    then show "c_company_id y \<le> c_company_id (typed_company b name)"
      by (auto simp: typed_company_def)
  qed (simp_all add: typed_company_def)
  then show ?thesis by (simp add: typed_company_def)
qed

text \<open>A run of the flow that ends with ``Job added!''.\<close>

lemma submit_add_job_added:
  assumes q: "quiescent b" and inv: "ids_below_seq b"
    and typed: "new_comp_name_add_job f \<noteq> []"
    and added: "rerun (submit_add_job m f s b)"
  shows "\<exists>j. companies (committed (backend_after (submit_add_job m f s b)))
           = companies (committed b) @ [typed_company b (new_comp_name_add_job f)]
      \<and> jobs (committed (backend_after (submit_add_job m f s b))) = jobs (committed b) @ [j]
      \<and> j_company_id j = company_seq b \<and> j_job_title j = new_job_title f
      \<and> j_job_id j = job_seq b
      \<and> recruiters (committed (backend_after (submit_add_job m f s b))) = recruiters (committed b)
      \<and> tasks (committed (backend_after (submit_add_job m f s b))) = tasks (committed b)
      \<and> quiescent (backend_after (submit_add_job m f s b))
      \<and> ids_below_seq (backend_after (submit_add_job m f s b))
      \<and> company_seq (backend_after (submit_add_job m f s b)) = Suc (company_seq b)
      \<and> job_seq (backend_after (submit_add_job m f s b)) = Suc (job_seq b)"
proof -
  let ?name = "new_comp_name_add_job f"
  obtain ok m1 b1 where c: "add_new_company (Some Connection) ?name [] [] [] [] b = (ok, m1, b1)"
    by (metis prod_cases3)
  obtain r b2 where rq: "query (select_new_company_id ?name) b1 = (r, b2)"
    by (metis surj_pair)
  have ok: "ok = Inr True"
  proof (cases ok)
    case (Inl e)
    with added typed c show ?thesis
      by (simp add: submit_add_job_def resolve_company_def Let_def)
  next
    case (Inr v)
    with added typed c show ?thesis
      by (cases v) (auto simp: submit_add_job_def resolve_company_def Let_def)
  qed
  note c1 = add_new_company_True [OF c [unfolded ok]]
  note q2 = query_result [OF rq]
  have sel: "select_new_company_id ?name (working b1) = Some (company_seq b)"
    using c1 select_typed_company [OF inv, of ?name] by simp
  have r: "r = Inr (Some (company_seq b))"
  proof -
    from q2 sel have "r = Inl DbError \<or> r = Inr (Some (company_seq b))" by simp
    moreover have "r \<noteq> Inl DbError"
      using added typed c ok rq
      by (auto simp: submit_add_job_def resolve_company_def Let_def)
    ultimately show ?thesis by simp
  qed
  obtain ok3 m3 b3 where
    j: "add_new_job (Some Connection) (new_job_title f) (Some (company_seq b))
          (new_loc_add_job f) (new_stat_add_job f) (new_url_add_job f)
          (new_notes_add_job f) (new_date_f_add_job f) b2 = (ok3, m3, b3)"
    by (metis prod_cases3)
  have res: "ok3 = Inr True \<and> backend_after (submit_add_job m f s b) = b3"
  proof (cases ok3)
    case (Inl e)
    with added typed c ok rq r j show ?thesis
      by (auto simp: submit_add_job_def resolve_company_def Let_def split: if_splits)
  next
    case (Inr v)
    with added typed c ok rq r j show ?thesis
      by (cases v) (auto simp: submit_add_job_def resolve_company_def Let_def split: if_splits)
  qed
  then have ok3: "ok3 = Inr True" by simp
  note j1 = add_new_job_True [OF j [unfolded ok3]]
  have wb: "working b = committed b" using q by (simp add: quiescent_def)
  have below: "c_company_id c < Suc (company_seq b)" if "c \<in> set (companies (committed b))" for c
    using inv that wb by (auto simp: ids_below_seq_def list_all_iff less_Suc_eq)
  from res c1 q2 j1 wb below show ?thesis
    by (auto simp: quiescent_def ids_below_seq_def typed_company_def list_all_iff)
qed

text \<open>With a backend that raises nothing, a typed name and a title, the flow does end
  with ``Job added!''.\<close>

lemma submit_add_job_succeeds:
  assumes "faults b = []" "ids_below_seq b" "new_comp_name_add_job f \<noteq> []"
    "new_job_title f \<noteq> []" "company_seq b \<noteq> 0"
  shows "rerun (submit_add_job m f s b)"
  using assms select_typed_company [OF assms(2), of "new_comp_name_add_job f"]
  by (simp add: submit_add_job_def resolve_company_def add_new_company_def execute_def
      commit_def next_fault_def query_def sql_insert_company_def sql_insert_job_def
      add_new_job_def truthy_def typed_company_def Let_def)

text \<open>
  Claim C4. When the add-job flow with a typed company name succeeds, exactly one
  company row of that name has been added and the one job row added references its
  identifier. When the same form is submitted a second time and succeeds again, a
  second company row of the same name, with another identifier, has been added, and
  the second job references the second row.
\<close>

theorem C4_typed_company:
  assumes "quiescent b" and "ids_below_seq b" and "new_comp_name_add_job f \<noteq> []"
    and "rerun (submit_add_job m f s b)"
  shows "(\<exists>c j. companies (committed (backend_after (submit_add_job m f s b)))
                 = companies (committed b) @ [c]
             \<and> c_company_name c = new_comp_name_add_job f
             \<and> jobs (committed (backend_after (submit_add_job m f s b))) = jobs (committed b) @ [j]
             \<and> j_company_id j = c_company_id c)
    \<and> (rerun (submit_add_job m' f s' (backend_after (submit_add_job m f s b))) \<longrightarrow>
         (\<exists>c1 c2 j1 j2.
            companies (committed (backend_after
                (submit_add_job m' f s' (backend_after (submit_add_job m f s b)))))
              = companies (committed b) @ [c1, c2]
            \<and> c_company_name c1 = new_comp_name_add_job f
            \<and> c_company_name c2 = new_comp_name_add_job f
            \<and> c_company_id c1 \<noteq> c_company_id c2
            \<and> jobs (committed (backend_after
                (submit_add_job m' f s' (backend_after (submit_add_job m f s b)))))
              = jobs (committed b) @ [j1, j2]
            \<and> j_company_id j1 = c_company_id c1 \<and> j_company_id j2 = c_company_id c2))"
proof -
  let ?b1 = "backend_after (submit_add_job m f s b)"
  let ?b2 = "backend_after (submit_add_job m' f s' ?b1)"
  let ?name = "new_comp_name_add_job f"
  from submit_add_job_added [OF assms] obtain j1 where
    1: "companies (committed ?b1) = companies (committed b) @ [typed_company b ?name]"
      "jobs (committed ?b1) = jobs (committed b) @ [j1]" "j_company_id j1 = company_seq b"
      "quiescent ?b1" "ids_below_seq ?b1" "company_seq ?b1 = Suc (company_seq b)"
    by blast
  have first: "\<exists>c j. companies (committed ?b1) = companies (committed b) @ [c]
             \<and> c_company_name c = ?name
             \<and> jobs (committed ?b1) = jobs (committed b) @ [j]
             \<and> j_company_id j = c_company_id c"
    using 1 by (auto simp: typed_company_def)
  have second: "\<exists>c1 c2 j1 j2.
            companies (committed ?b2) = companies (committed b) @ [c1, c2]
            \<and> c_company_name c1 = ?name \<and> c_company_name c2 = ?name
            \<and> c_company_id c1 \<noteq> c_company_id c2
            \<and> jobs (committed ?b2) = jobs (committed b) @ [j1, j2]
            \<and> j_company_id j1 = c_company_id c1 \<and> j_company_id j2 = c_company_id c2"
    if again: "rerun (submit_add_job m' f s' ?b1)"
  proof -
    from submit_add_job_added [OF 1(4) 1(5) assms(3) again] obtain j2 where
      2: "companies (committed ?b2) = companies (committed ?b1) @ [typed_company ?b1 ?name]"
        "jobs (committed ?b2) = jobs (committed ?b1) @ [j2]" "j_company_id j2 = company_seq ?b1"
      by blast
    show ?thesis
      apply (rule exI [of _ "typed_company b ?name"])
      apply (rule exI [of _ "typed_company ?b1 ?name"])
      apply (rule exI [of _ j1])
      apply (rule exI [of _ j2])
      using 1 2 by (simp add: typed_company_def)
  qed
  from first second show ?thesis by blast
qed

theorem C4_typed_company_witness:
  "quiescent demo_backend \<and> ids_below_seq demo_backend
   \<and> new_comp_name_add_job demo_form = ''Initech''
   \<and> rerun (submit_add_job Map.empty demo_form demo_session demo_backend)
   \<and> map c_company_name (companies (committed (backend_after
        (submit_add_job Map.empty demo_form demo_session demo_backend))))
      = [''Zeta'', ''Acme'', ''Initech'']
   \<and> map j_company_id (jobs (committed (backend_after
        (submit_add_job Map.empty demo_form demo_session demo_backend))))
      = [1, 2, 3]
   \<and> rerun (submit_add_job Map.empty demo_form demo_session
        (backend_after (submit_add_job Map.empty demo_form demo_session demo_backend)))
   \<and> map c_company_name (companies (committed (backend_after
        (submit_add_job Map.empty demo_form demo_session
           (backend_after (submit_add_job Map.empty demo_form demo_session demo_backend))))))
      = [''Zeta'', ''Acme'', ''Initech'', ''Initech'']
   \<and> map j_company_id (jobs (committed (backend_after
        (submit_add_job Map.empty demo_form demo_session
           (backend_after (submit_add_job Map.empty demo_form demo_session demo_backend))))))
      = [1, 2, 3, 4]"
proof -
  have q: "quiescent demo_backend" by (simp add: quiescent_def demo_backend_def)
  have i: "ids_below_seq demo_backend"
    by (simp add: ids_below_seq_def demo_backend_def demo_db_def demo_company1_def
        demo_company2_def)
  have n: "new_comp_name_add_job demo_form \<noteq> []" by (simp add: demo_form_def)
  have r1: "rerun (submit_add_job Map.empty demo_form demo_session demo_backend)"
    by (rule submit_add_job_succeeds [OF _ i n])
       (simp_all add: demo_form_def demo_backend_def)
  have e1: "map c_company_name (companies (committed (backend_after
        (submit_add_job Map.empty demo_form demo_session demo_backend))))
      = [''Zeta'', ''Acme'', ''Initech'']"
    by code_simp
  have e2: "map j_company_id (jobs (committed (backend_after
        (submit_add_job Map.empty demo_form demo_session demo_backend))))
      = [1, 2, 3]"
    by code_simp
  have r2: "rerun (submit_add_job Map.empty demo_form demo_session
        (backend_after (submit_add_job Map.empty demo_form demo_session demo_backend)))"
    by code_simp
  have e3: "map c_company_name (companies (committed (backend_after
        (submit_add_job Map.empty demo_form demo_session
           (backend_after (submit_add_job Map.empty demo_form demo_session demo_backend))))))
      = [''Zeta'', ''Acme'', ''Initech'', ''Initech'']"
    by code_simp
  have e4: "map j_company_id (jobs (committed (backend_after
        (submit_add_job Map.empty demo_form demo_session
           (backend_after (submit_add_job Map.empty demo_form demo_session demo_backend))))))
      = [1, 2, 3, 4]"
    by code_simp
  from C4_typed_company [OF q i n r1, of Map.empty demo_session] q i r1 r2 e1 e2 e3 e4
  show ?thesis by (simp add: demo_form_def)
qed

lemma submit_add_job_insert_fails:
  assumes "write_raises b" "quiescent b" "new_comp_name_add_job f \<noteq> []"
  shows "committed (backend_after (submit_add_job m f s b)) = committed b
    \<and> working (backend_after (submit_add_job m f s b)) = committed b
    \<and> \<not> rerun (submit_add_job m f s b)"
proof -
  from add_new_company_raises [OF assms, of "[]" "[]" "[]" "[]"]
  obtain r m1 b1 where c: "add_new_company (Some Connection) (new_comp_name_add_job f) [] [] [] [] b
           = (r, m1, b1)"
    and r: "r \<noteq> Inr True" and b1: "committed b1 = committed b" "working b1 = committed b"
    by blast
  show ?thesis
  proof (cases r)
    case (Inl e)
    with c b1 assms(3) show ?thesis
      by (simp add: submit_add_job_def resolve_company_def Let_def)
  next
    case (Inr v)
    with r have "r = Inr False" by (cases v) simp_all
    with c b1 assms(3) show ?thesis
      by (simp add: submit_add_job_def resolve_company_def Let_def)
  qed
qed

lemma submit_add_job_requery_fails:
  assumes "faults b = False # False # True # fs" "quiescent b" "new_comp_name_add_job f \<noteq> []"
  shows "\<not> rerun (submit_add_job m f s b)
    \<and> jobs (committed (backend_after (submit_add_job m f s b))) = jobs (committed b)
    \<and> companies (committed (backend_after (submit_add_job m f s b)))
        = companies (committed b) @ [typed_company b (new_comp_name_add_job f)]
    \<and> recruiters (committed (backend_after (submit_add_job m f s b))) = recruiters (committed b)
    \<and> tasks (committed (backend_after (submit_add_job m f s b))) = tasks (committed b)"
  using assms
  by (simp add: submit_add_job_def resolve_company_def add_new_company_def execute_def
      commit_def next_fault_def query_def sql_insert_company_def typed_company_def
      quiescent_def Let_def)

text \<open>
  Claim C3, amended. In the add-job flow with a typed company name: if the company
  insert (its statement or its commit) fails, the flow adds no job and the stored
  state is as it was before the flow started; if the insert succeeds and the re-query
  for the new identifier raises, the flow adds no job, but the company row that the
  first step inserted and committed stays in the store.
\<close>

theorem C3_add_job_abort:
  assumes "quiescent b" and "new_comp_name_add_job f \<noteq> []"
  shows "(write_raises b \<longrightarrow>
            committed (backend_after (submit_add_job m f s b)) = committed b
            \<and> working (backend_after (submit_add_job m f s b)) = committed b
            \<and> \<not> rerun (submit_add_job m f s b))
    \<and> (\<forall>fs. faults b = False # False # True # fs \<longrightarrow>
            \<not> rerun (submit_add_job m f s b)
            \<and> jobs (committed (backend_after (submit_add_job m f s b))) = jobs (committed b)
            \<and> companies (committed (backend_after (submit_add_job m f s b)))
                = companies (committed b) @ [typed_company b (new_comp_name_add_job f)]
            \<and> recruiters (committed (backend_after (submit_add_job m f s b)))
                = recruiters (committed b)
            \<and> tasks (committed (backend_after (submit_add_job m f s b))) = tasks (committed b))"
  using submit_add_job_insert_fails [OF _ assms, of m s]
    submit_add_job_requery_fails [OF _ assms, of _ m s]
  by blast

theorem C3_add_job_abort_witness:
  "quiescent failing_backend \<and> write_raises failing_backend
   \<and> new_comp_name_add_job demo_form = ''Initech''
   \<and> committed (backend_after (submit_add_job Map.empty demo_form demo_session failing_backend))
       = demo_db
   \<and> working (backend_after (submit_add_job Map.empty demo_form demo_session failing_backend))
       = demo_db
   \<and> quiescent requery_failing_backend
   \<and> faults requery_failing_backend = [False, False, True]
   \<and> jobs (committed (backend_after
        (submit_add_job Map.empty demo_form demo_session requery_failing_backend)))
       = [demo_job1, demo_job2]"
proof -
  have q1: "quiescent failing_backend" and w1: "write_raises failing_backend"
    by (simp_all add: quiescent_def write_raises_def failing_backend_def demo_backend_def)
  have q2: "quiescent requery_failing_backend"
    and f2: "faults requery_failing_backend = [False, False, True]"
    by (simp_all add: quiescent_def requery_failing_backend_def demo_backend_def)
  have n: "new_comp_name_add_job demo_form \<noteq> []" by (simp add: demo_form_def)
  have c1: "committed failing_backend = demo_db"
    by (simp add: failing_backend_def demo_backend_def)
  have c2: "jobs (committed requery_failing_backend) = [demo_job1, demo_job2]"
    by (simp add: requery_failing_backend_def demo_backend_def demo_db_def)
  from C3_add_job_abort [OF q1 n, of Map.empty demo_session]
    C3_add_job_abort [OF q2 n, of Map.empty demo_session] q1 w1 q2 f2 c1 c2
  show ?thesis by (simp add: demo_form_def)
qed

text \<open>
  Claim C3 as stated fails when the re-query raises: no job row appears, but the store
  is not as it was before the flow started, it holds the new company row.
\<close>

theorem C3_counterexample:
  "faults requery_failing_backend = [False, False, True]
   \<and> \<not> rerun (submit_add_job Map.empty demo_form demo_session requery_failing_backend)
   \<and> jobs (committed (backend_after
        (submit_add_job Map.empty demo_form demo_session requery_failing_backend)))
       = jobs (committed requery_failing_backend)
   \<and> map c_company_name (companies (committed requery_failing_backend)) = [''Zeta'', ''Acme'']
   \<and> map c_company_name (companies (committed (backend_after
        (submit_add_job Map.empty demo_form demo_session requery_failing_backend))))
       = [''Zeta'', ''Acme'', ''Initech'']
   \<and> committed (backend_after
        (submit_add_job Map.empty demo_form demo_session requery_failing_backend))
       \<noteq> committed requery_failing_backend"
  by (simp add: submit_add_job_def resolve_company_def add_new_company_def execute_def
      commit_def next_fault_def query_def sql_insert_company_def requery_failing_backend_def
      demo_backend_def demo_db_def demo_form_def demo_company1_def demo_company2_def Let_def)

subsection \<open>The edit/delete tabs\<close>

lemma next_fault_nil: "faults b = [] \<Longrightarrow> next_fault b = (False, b)"
  by (simp add: next_fault_def)

lemma query_nil: "faults b = [] \<Longrightarrow> query q b = (Inr (q (working b)), b)"
  by (simp add: query_def next_fault_nil)



lemma chosen_Some: "i \<in> set listed \<Longrightarrow> chosen (Some i) listed = Some i"
  by (simp add: chosen_def)


lemma find_listed:
  assumes "x \<in> set xs"
  shows "\<exists>y. find (\<lambda>r. key r = key x) xs = Some y \<and> key y = key x"
proof (cases "find (\<lambda>r. key r = key x) xs")
  case None
  with assms show ?thesis by (auto simp: find_None_iff)
next
  case (Some y)
  then show ?thesis by (auto simp: find_Some_iff)
qed


subsubsection \<open>Jobs\<close>


lemma select_job_details_id:
  "select_job_details i d = Some job_dets \<Longrightarrow> j_job_id (fst job_dets) = i"
proof -
  assume a: "select_job_details i d = Some job_dets"
  let ?fs = "filter (\<lambda>(j, c). j_job_id j = i)
               (left_join (\<lambda>j c. j_company_id j = c_company_id c) (jobs d) (companies d))"
  from a obtain h t where ht: "?fs = h # t"
    unfolding select_job_details_def by (cases ?fs) auto
  then have "h \<in> set ?fs" by simp
  then have "j_job_id (fst h) = i" by auto
  with a ht show ?thesis
    unfolding select_job_details_def by (cases h) auto
qed

lemma select_job_details_listed:
  assumes "x \<in> set (jobs d)"
  shows "\<exists>job_dets. select_job_details (j_job_id x) d = Some job_dets
           \<and> j_job_id (fst job_dets) = j_job_id x"
proof -
  let ?lj = "left_join (\<lambda>j c. j_company_id j = c_company_id c) (jobs d) (companies d)"
  let ?fs = "filter (\<lambda>(j, c). j_job_id j = j_job_id x) ?lj"
  from assms have "x \<in> fst ` set ?lj" by (simp only: set_left_join_fst)
  then obtain c where "(x, c) \<in> set ?lj" by auto
  then have "(x, c) \<in> set ?fs" by simp
  then obtain h t where ht: "?fs = h # t" by (cases ?fs) auto
  then obtain job_dets where "select_job_details (j_job_id x) d = Some job_dets"
    unfolding select_job_details_def by (cases h) auto
  then show ?thesis using select_job_details_id by blast
qed


text \<open>With a backend that raises nothing, a pass through the tab with a listed job
  selected comes down to the delete action on that job.\<close>

lemma tab_on_listed_job:
  assumes "faults b = []" "x \<in> set (jobs (working b))" "j_job_id x \<noteq> 0"
  shows "\<exists>job_dets. j_job_id (fst job_dets) = j_job_id x
     \<and> tab_edit_delete_job (Some (j_job_id x)) clicked s b
         = job_delete_action job_dets clicked (s\<lparr>selected_job_id_for_edit := Some (j_job_id x)\<rparr>) b"
proof -
  from select_job_details_listed [OF assms(2)] obtain job_dets where
    d: "select_job_details (j_job_id x) (working b) = Some job_dets"
      "j_job_id (fst job_dets) = j_job_id x" by blast
  have "fst ` set (select_all_jobs (working b)) = set (jobs (working b))" by (rule listed_jobs)
  with assms(2) obtain row where row: "row \<in> set (select_all_jobs (working b))" "fst row = x"
    by (metis imageE)
  then have ne: "select_all_jobs (working b) \<noteq> []" by auto
  have mem: "j_job_id x \<in> set (map (\<lambda>row. j_job_id (fst row)) (select_all_jobs (working b)))"
    using row by force
  have "tab_edit_delete_job (Some (j_job_id x)) clicked s b
         = job_delete_action job_dets clicked (s\<lparr>selected_job_id_for_edit := Some (j_job_id x)\<rparr>) b"
    using assms(3) ne d(1)
    by (simp add: tab_edit_delete_job_def get_all_jobs_def get_job_details_def
        query_nil [OF assms(1)] chosen_Some [OF mem])
  with d(2) show ?thesis by blast
qed

lemma job_pending_scenario:
  assumes "faults b = []"
    and "a \<in> set (jobs (working b))" and "x \<in> set (jobs (working b))"
    and "j_job_id a \<noteq> 0" and "j_job_id x \<noteq> 0" and "j_job_id a \<noteq> j_job_id x"
  shows "(let r1 = tab_edit_delete_job (Some (j_job_id a)) RequestDelete s b;
              r2 = tab_edit_delete_job (Some (j_job_id x)) RequestDelete
                     (session_after r1) (backend_after r1);
              r3 = tab_edit_delete_job (Some (j_job_id x)) CancelDelete
                     (session_after r2) (backend_after r2)
          in confirm_delete_job_id (session_after r1) = Some (j_job_id a)
             \<and> confirm_delete_job_id (session_after r2) = Some (j_job_id x)
             \<and> confirm_delete_job_id (session_after r2) \<noteq> Some (j_job_id a)
             \<and> backend_after r2 = b
             \<and> confirm_delete_job_id (session_after r3) = None
             \<and> backend_after r3 = b
             \<and> a \<in> set (jobs (working (backend_after r3)))
             \<and> x \<in> set (jobs (working (backend_after r3))))"
proof -
  let ?A = "j_job_id a" and ?B = "j_job_id x"
  let ?r1 = "tab_edit_delete_job (Some ?A) RequestDelete s b"
  from tab_on_listed_job [OF assms(1,2,4), where clicked = RequestDelete and s = s] obtain da where
    da: "j_job_id (fst da) = ?A"
      "?r1 = job_delete_action da RequestDelete (s\<lparr>selected_job_id_for_edit := Some ?A\<rparr>) b"
    by blast
  have r1: "confirm_delete_job_id (session_after ?r1) = Some ?A" "backend_after ?r1 = b"
    unfolding da(2) by (simp_all add: job_delete_action_def da(1))
  let ?s1 = "session_after ?r1"
  let ?r2 = "tab_edit_delete_job (Some ?B) RequestDelete ?s1 b"
  from tab_on_listed_job [OF assms(1,3,5), where clicked = RequestDelete and s = ?s1] obtain dx where
    dx: "j_job_id (fst dx) = ?B"
      "?r2 = job_delete_action dx RequestDelete (?s1\<lparr>selected_job_id_for_edit := Some ?B\<rparr>) b"
    by blast
  have r2: "confirm_delete_job_id (session_after ?r2) = Some ?B" "backend_after ?r2 = b"
    unfolding dx(2) by (simp_all add: job_delete_action_def dx(1))
  let ?s2 = "session_after ?r2"
  let ?r3 = "tab_edit_delete_job (Some ?B) CancelDelete ?s2 b"
  from tab_on_listed_job [OF assms(1,3,5), where clicked = CancelDelete and s = ?s2] obtain dy where
    dy: "j_job_id (fst dy) = ?B"
      "?r3 = job_delete_action dy CancelDelete (?s2\<lparr>selected_job_id_for_edit := Some ?B\<rparr>) b"
    by blast
  have r3: "confirm_delete_job_id (session_after ?r3) = None" "backend_after ?r3 = b"
    unfolding dy(2) using r2(1) by (simp_all add: job_delete_action_def dy(1))
  from r1 r2 r3 assms(2,3,6) show ?thesis
    by (simp add: Let_def)
qed

text \<open>The delete action of a job, and so the job tab, leaves the session keys of the
  other three kinds as they are.\<close>

lemma job_delete_action_others:
  "confirm_delete_recruiter_id (session_after (job_delete_action job_dets clicked s b))
     = confirm_delete_recruiter_id s
   \<and> confirm_delete_company_id (session_after (job_delete_action job_dets clicked s b))
     = confirm_delete_company_id s
   \<and> confirm_delete_task_id (session_after (job_delete_action job_dets clicked s b))
     = confirm_delete_task_id s"
proof -
  obtain r m b1 where d: "delete_job_record (Some Connection) (j_job_id (fst job_dets)) b = (r, m, b1)"
    by (metis prod_cases3)
  show ?thesis
    by (cases r; cases "projr r") (simp_all add: job_delete_action_def d)
qed

lemma tab_job_others:
  "confirm_delete_recruiter_id (session_after (tab_edit_delete_job sel clicked s b))
     = confirm_delete_recruiter_id s
   \<and> confirm_delete_company_id (session_after (tab_edit_delete_job sel clicked s b))
     = confirm_delete_company_id s
   \<and> confirm_delete_task_id (session_after (tab_edit_delete_job sel clicked s b))
     = confirm_delete_task_id s"
proof -
  obtain rows m0 b0 where g: "get_all_jobs (Some Connection) b = (rows, m0, b0)"
    by (metis prod_cases3)
  show ?thesis
  proof (cases "chosen sel (map (\<lambda>row. j_job_id (fst row)) rows)")
    case None
    then show ?thesis by (simp add: tab_edit_delete_job_def g)
  next
    case (Some i)
    obtain r m1 b1 where d: "get_job_details (Some Connection) i b0 = (r, m1, b1)"
      by (metis prod_cases3)
    show ?thesis
      using job_delete_action_others [of _ clicked "s\<lparr>selected_job_id_for_edit := Some i\<rparr>" b1]
      by (cases r) (simp_all add: tab_edit_delete_job_def g Some d)
  qed
qed




subsubsection \<open>Tasks\<close>


lemma select_task_details_id:
  "select_task_details i d = Some task_dets \<Longrightarrow> t_task_id (fst task_dets) = i"
proof -
  assume a: "select_task_details i d = Some task_dets"
  let ?fs = "filter (\<lambda>x. t_task_id (task_of x) = i) (tasks_joined d)"
  from a obtain h t where ht: "?fs = h # t"
    unfolding select_task_details_def by (cases ?fs) auto
  then have "h \<in> set ?fs" by simp
  then have "t_task_id (task_of h) = i" by auto
  with a ht show ?thesis
    unfolding select_task_details_def by (auto simp: fst_project_task)
qed

lemma select_task_details_listed:
  assumes "x \<in> set (tasks d)"
  shows "\<exists>task_dets. select_task_details (t_task_id x) d = Some task_dets
           \<and> t_task_id (fst task_dets) = t_task_id x"
proof -
  let ?fs = "filter (\<lambda>y. t_task_id (task_of y) = t_task_id x) (tasks_joined d)"
  from assms have "x \<in> task_of ` set (tasks_joined d)" by (simp only: task_of_tasks_joined)
  then obtain y where "y \<in> set (tasks_joined d)" "task_of y = x" by auto
  then have "y \<in> set ?fs" by simp
  then obtain h t where ht: "?fs = h # t" by (cases ?fs) auto
  then obtain task_dets where "select_task_details (t_task_id x) d = Some task_dets"
    unfolding select_task_details_def by auto
  then show ?thesis using select_task_details_id by blast
qed


text \<open>With a backend that raises nothing, a pass through the tab with a listed task
  selected comes down to the delete action on that task.\<close>

lemma tab_on_listed_task:
  assumes "faults b = []" "x \<in> set (tasks (working b))" "t_task_id x \<noteq> 0"
  shows "\<exists>task_dets. t_task_id (fst task_dets) = t_task_id x
     \<and> tab_edit_delete_task status_key prio_key (Some (t_task_id x)) clicked s b
         = task_delete_action task_dets clicked (s\<lparr>selected_task_id_for_edit := Some (t_task_id x)\<rparr>) b"
proof -
  from select_task_details_listed [OF assms(2)] obtain task_dets where
    d: "select_task_details (t_task_id x) (working b) = Some task_dets"
      "t_task_id (fst task_dets) = t_task_id x" by blast
  have "fst ` set (select_all_tasks status_key prio_key (working b)) = set (tasks (working b))" by (rule listed_tasks)
  with assms(2) obtain row where row: "row \<in> set (select_all_tasks status_key prio_key (working b))" "fst row = x"
    by (metis imageE)
  then have ne: "select_all_tasks status_key prio_key (working b) \<noteq> []" by auto
  have mem: "t_task_id x \<in> set (map (\<lambda>row. t_task_id (fst row)) (select_all_tasks status_key prio_key (working b)))"
    using row by force
  have "tab_edit_delete_task status_key prio_key (Some (t_task_id x)) clicked s b
         = task_delete_action task_dets clicked (s\<lparr>selected_task_id_for_edit := Some (t_task_id x)\<rparr>) b"
    using assms(3) ne d(1)
    by (simp add: tab_edit_delete_task_def get_all_tasks_def get_task_details_def
        query_nil [OF assms(1)] chosen_Some [OF mem])
  with d(2) show ?thesis by blast
qed

lemma task_pending_scenario:
  assumes "faults b = []"
    and "a \<in> set (tasks (working b))" and "x \<in> set (tasks (working b))"
    and "t_task_id a \<noteq> 0" and "t_task_id x \<noteq> 0" and "t_task_id a \<noteq> t_task_id x"
  shows "(let r1 = tab_edit_delete_task status_key prio_key (Some (t_task_id a)) RequestDelete s b;
              r2 = tab_edit_delete_task status_key prio_key (Some (t_task_id x)) RequestDelete
                     (session_after r1) (backend_after r1);
              r3 = tab_edit_delete_task status_key prio_key (Some (t_task_id x)) CancelDelete
                     (session_after r2) (backend_after r2)
          in confirm_delete_task_id (session_after r1) = Some (t_task_id a)
             \<and> confirm_delete_task_id (session_after r2) = Some (t_task_id x)
             \<and> confirm_delete_task_id (session_after r2) \<noteq> Some (t_task_id a)
             \<and> backend_after r2 = b
             \<and> confirm_delete_task_id (session_after r3) = None
             \<and> backend_after r3 = b
             \<and> a \<in> set (tasks (working (backend_after r3)))
             \<and> x \<in> set (tasks (working (backend_after r3))))"
proof -
  let ?A = "t_task_id a" and ?B = "t_task_id x"
  let ?r1 = "tab_edit_delete_task status_key prio_key (Some ?A) RequestDelete s b"
  from tab_on_listed_task [OF assms(1,2,4), where clicked = RequestDelete and s = s
      and status_key = status_key and prio_key = prio_key] obtain da where
    da: "t_task_id (fst da) = ?A"
      "?r1 = task_delete_action da RequestDelete (s\<lparr>selected_task_id_for_edit := Some ?A\<rparr>) b"
    by blast
  have r1: "confirm_delete_task_id (session_after ?r1) = Some ?A" "backend_after ?r1 = b"
    unfolding da(2) by (simp_all add: task_delete_action_def da(1))
  let ?s1 = "session_after ?r1"
  let ?r2 = "tab_edit_delete_task status_key prio_key (Some ?B) RequestDelete ?s1 b"
  from tab_on_listed_task [OF assms(1,3,5), where clicked = RequestDelete and s = ?s1
      and status_key = status_key and prio_key = prio_key] obtain dx where
    dx: "t_task_id (fst dx) = ?B"
      "?r2 = task_delete_action dx RequestDelete (?s1\<lparr>selected_task_id_for_edit := Some ?B\<rparr>) b"
    by blast
  have r2: "confirm_delete_task_id (session_after ?r2) = Some ?B" "backend_after ?r2 = b"
    unfolding dx(2) by (simp_all add: task_delete_action_def dx(1))
  let ?s2 = "session_after ?r2"
  let ?r3 = "tab_edit_delete_task status_key prio_key (Some ?B) CancelDelete ?s2 b"
  from tab_on_listed_task [OF assms(1,3,5), where clicked = CancelDelete and s = ?s2
      and status_key = status_key and prio_key = prio_key] obtain dy where
    dy: "t_task_id (fst dy) = ?B"
      "?r3 = task_delete_action dy CancelDelete (?s2\<lparr>selected_task_id_for_edit := Some ?B\<rparr>) b"
    by blast
  have r3: "confirm_delete_task_id (session_after ?r3) = None" "backend_after ?r3 = b"
    unfolding dy(2) using r2(1) by (simp_all add: task_delete_action_def dy(1))
  from r1 r2 r3 assms(2,3,6) show ?thesis
    by (simp add: Let_def)
qed

text \<open>The delete action of a task, and so the task tab, leaves the session keys of the
  other three kinds as they are.\<close>

lemma task_delete_action_others:
  "confirm_delete_recruiter_id (session_after (task_delete_action task_dets clicked s b))
     = confirm_delete_recruiter_id s
   \<and> confirm_delete_company_id (session_after (task_delete_action task_dets clicked s b))
     = confirm_delete_company_id s
   \<and> confirm_delete_job_id (session_after (task_delete_action task_dets clicked s b))
     = confirm_delete_job_id s"
proof -
  obtain r m b1 where d: "delete_task_record (Some Connection) (t_task_id (fst task_dets)) b = (r, m, b1)"
    by (metis prod_cases3)
  show ?thesis
    by (cases r; cases "projr r") (simp_all add: task_delete_action_def d)
qed

lemma tab_task_others:
  "confirm_delete_recruiter_id (session_after (tab_edit_delete_task status_key prio_key sel clicked s b))
     = confirm_delete_recruiter_id s
   \<and> confirm_delete_company_id (session_after (tab_edit_delete_task status_key prio_key sel clicked s b))
     = confirm_delete_company_id s
   \<and> confirm_delete_job_id (session_after (tab_edit_delete_task status_key prio_key sel clicked s b))
     = confirm_delete_job_id s"
proof -
  obtain rows m0 b0 where g: "get_all_tasks status_key prio_key (Some Connection) b = (rows, m0, b0)"
    by (metis prod_cases3)
  show ?thesis
  proof (cases "chosen sel (map (\<lambda>row. t_task_id (fst row)) rows)")
    case None
    then show ?thesis by (simp add: tab_edit_delete_task_def g)
  next
    case (Some i)
    obtain r m1 b1 where d: "get_task_details (Some Connection) i b0 = (r, m1, b1)"
      by (metis prod_cases3)
    show ?thesis
      using task_delete_action_others [of _ clicked "s\<lparr>selected_task_id_for_edit := Some i\<rparr>" b1]
      by (cases r) (simp_all add: tab_edit_delete_task_def g Some d)
  qed
qed




subsubsection \<open>Recruiters\<close>


lemma tab_on_listed_rec:
  assumes "faults b = []" "x \<in> set (recruiters (working b))" "r_recruiter_id x \<noteq> 0"
  shows "\<exists>rec_dets. r_recruiter_id (fst rec_dets) = r_recruiter_id x
     \<and> tab_edit_delete_rec (Some (r_recruiter_id x)) clicked s b
         = recruiter_delete_action rec_dets clicked
             (s\<lparr>selected_recruiter_id_for_edit := Some (r_recruiter_id x)\<rparr>) b"
proof -
  let ?rows = "select_all_recruiters (working b)"
  have "fst ` set ?rows = set (recruiters (working b))" by (rule listed_recruiters)
  with assms(2) obtain row where row: "row \<in> set ?rows" "fst row = x"
    by (metis imageE)
  then have ne: "?rows \<noteq> []" by auto
  have mem: "r_recruiter_id x \<in> set (map (\<lambda>row. r_recruiter_id (fst row)) ?rows)"
    using row by force
  from find_listed [OF row(1), of "\<lambda>r. r_recruiter_id (fst r)"] row(2) obtain rec_dets where
    d: "find (\<lambda>r. r_recruiter_id (fst r) = r_recruiter_id x) ?rows = Some rec_dets"
      "r_recruiter_id (fst rec_dets) = r_recruiter_id x" by auto
  have "tab_edit_delete_rec (Some (r_recruiter_id x)) clicked s b
         = recruiter_delete_action rec_dets clicked
             (s\<lparr>selected_recruiter_id_for_edit := Some (r_recruiter_id x)\<rparr>) b"
    using assms(3) ne d(1)
    by (simp add: tab_edit_delete_rec_def get_all_recruiters_def
        query_nil [OF assms(1)] chosen_Some [OF mem])
  with d(2) show ?thesis by blast
qed

lemma rec_pending_scenario:
  assumes "faults b = []"
    and "a \<in> set (recruiters (working b))" and "x \<in> set (recruiters (working b))"
    and "r_recruiter_id a \<noteq> 0" and "r_recruiter_id x \<noteq> 0"
    and "r_recruiter_id a \<noteq> r_recruiter_id x"
  shows "(let r1 = tab_edit_delete_rec (Some (r_recruiter_id a)) RequestDelete s b;
              r2 = tab_edit_delete_rec (Some (r_recruiter_id x)) RequestDelete
                     (session_after r1) (backend_after r1);
              r3 = tab_edit_delete_rec (Some (r_recruiter_id x)) CancelDelete
                     (session_after r2) (backend_after r2)
          in confirm_delete_recruiter_id (session_after r1) = Some (r_recruiter_id a)
             \<and> confirm_delete_recruiter_id (session_after r2) = Some (r_recruiter_id x)
             \<and> confirm_delete_recruiter_id (session_after r2) \<noteq> Some (r_recruiter_id a)
             \<and> backend_after r2 = b
             \<and> confirm_delete_recruiter_id (session_after r3) = None
             \<and> backend_after r3 = b
             \<and> a \<in> set (recruiters (working (backend_after r3)))
             \<and> x \<in> set (recruiters (working (backend_after r3))))"
proof -
  let ?A = "r_recruiter_id a" and ?B = "r_recruiter_id x"
  let ?r1 = "tab_edit_delete_rec (Some ?A) RequestDelete s b"
  from tab_on_listed_rec [OF assms(1,2,4), where clicked = RequestDelete and s = s] obtain da where
    da: "r_recruiter_id (fst da) = ?A"
      "?r1 = recruiter_delete_action da RequestDelete
               (s\<lparr>selected_recruiter_id_for_edit := Some ?A\<rparr>) b"
    by blast
  have r1: "confirm_delete_recruiter_id (session_after ?r1) = Some ?A" "backend_after ?r1 = b"
    unfolding da(2) by (simp_all add: recruiter_delete_action_def da(1))
  let ?s1 = "session_after ?r1"
  let ?r2 = "tab_edit_delete_rec (Some ?B) RequestDelete ?s1 b"
  from tab_on_listed_rec [OF assms(1,3,5), where clicked = RequestDelete and s = ?s1] obtain dx where
    dx: "r_recruiter_id (fst dx) = ?B"
      "?r2 = recruiter_delete_action dx RequestDelete
               (?s1\<lparr>selected_recruiter_id_for_edit := Some ?B\<rparr>) b"
    by blast
  have r2: "confirm_delete_recruiter_id (session_after ?r2) = Some ?B" "backend_after ?r2 = b"
    unfolding dx(2) by (simp_all add: recruiter_delete_action_def dx(1))
  let ?s2 = "session_after ?r2"
  let ?r3 = "tab_edit_delete_rec (Some ?B) CancelDelete ?s2 b"
  from tab_on_listed_rec [OF assms(1,3,5), where clicked = CancelDelete and s = ?s2] obtain dy where
    dy: "r_recruiter_id (fst dy) = ?B"
      "?r3 = recruiter_delete_action dy CancelDelete
               (?s2\<lparr>selected_recruiter_id_for_edit := Some ?B\<rparr>) b"
    by blast
  have r3: "confirm_delete_recruiter_id (session_after ?r3) = None" "backend_after ?r3 = b"
    unfolding dy(2) using r2(1) by (simp_all add: recruiter_delete_action_def dy(1))
  from r1 r2 r3 assms(2,3,6) show ?thesis
    by (simp add: Let_def)
qed

lemma recruiter_delete_action_others:
  "confirm_delete_job_id (session_after (recruiter_delete_action rec_dets clicked s b))
     = confirm_delete_job_id s
   \<and> confirm_delete_company_id (session_after (recruiter_delete_action rec_dets clicked s b))
     = confirm_delete_company_id s
   \<and> confirm_delete_task_id (session_after (recruiter_delete_action rec_dets clicked s b))
     = confirm_delete_task_id s"
  by (simp add: recruiter_delete_action_def delete_recruiter_inline_def
      split: prod.splits sum.splits)

lemma tab_rec_others:
  "confirm_delete_job_id (session_after (tab_edit_delete_rec sel clicked s b))
     = confirm_delete_job_id s
   \<and> confirm_delete_company_id (session_after (tab_edit_delete_rec sel clicked s b))
     = confirm_delete_company_id s
   \<and> confirm_delete_task_id (session_after (tab_edit_delete_rec sel clicked s b))
     = confirm_delete_task_id s"
proof -
  obtain rows m0 b0 where g: "get_all_recruiters (Some Connection) b = (rows, m0, b0)"
    by (metis prod_cases3)
  show ?thesis
  proof (cases "chosen sel (map (\<lambda>row. r_recruiter_id (fst row)) rows)")
    case None
    then show ?thesis by (simp add: tab_edit_delete_rec_def g)
  next
    case (Some i)
    show ?thesis
      using recruiter_delete_action_others
        [of _ clicked "s\<lparr>selected_recruiter_id_for_edit := Some i\<rparr>" b0]
      by (cases "find (\<lambda>r. r_recruiter_id (fst r) = i) rows")
        (simp_all add: tab_edit_delete_rec_def g Some)
  qed
qed



subsubsection \<open>Companies\<close>


lemma tab_on_listed_comp:
  assumes "faults b = []" "x \<in> set (companies (working b))" "c_company_id x \<noteq> 0"
  shows "\<exists>comp_dets. c_company_id comp_dets = c_company_id x
     \<and> tab_edit_delete_comp (Some (c_company_id x)) clicked s b
         = company_delete_action comp_dets clicked
             (s\<lparr>selected_company_id_for_edit := Some (c_company_id x)\<rparr>) b"
proof -
  let ?rows = "select_all_companies (working b)"
  have "set ?rows = set (companies (working b))" by (rule listed_companies)
  with assms(2) obtain row where row: "row \<in> set ?rows" "row = x"
    by simp
  then have ne: "?rows \<noteq> []" by auto
  have mem: "c_company_id x \<in> set (map c_company_id ?rows)"
    using row by force
  from find_listed [OF row(1), of c_company_id] row(2) obtain comp_dets where
    d: "find (\<lambda>c. c_company_id c = c_company_id x) ?rows = Some comp_dets"
      "c_company_id comp_dets = c_company_id x" by auto
  have "tab_edit_delete_comp (Some (c_company_id x)) clicked s b
         = company_delete_action comp_dets clicked
             (s\<lparr>selected_company_id_for_edit := Some (c_company_id x)\<rparr>) b"
    using assms(3) ne d(1)
    by (simp add: tab_edit_delete_comp_def get_all_companies_def
        query_nil [OF assms(1)] chosen_Some [OF mem])
  with d(2) show ?thesis by blast
qed

lemma comp_pending_scenario:
  assumes "faults b = []"
    and "a \<in> set (companies (working b))" and "x \<in> set (companies (working b))"
    and "c_company_id a \<noteq> 0" and "c_company_id x \<noteq> 0"
    and "c_company_id a \<noteq> c_company_id x"
  shows "(let r1 = tab_edit_delete_comp (Some (c_company_id a)) RequestDelete s b;
              r2 = tab_edit_delete_comp (Some (c_company_id x)) RequestDelete
                     (session_after r1) (backend_after r1);
              r3 = tab_edit_delete_comp (Some (c_company_id x)) CancelDelete
                     (session_after r2) (backend_after r2)
          in confirm_delete_company_id (session_after r1) = Some (c_company_id a)
             \<and> confirm_delete_company_id (session_after r2) = Some (c_company_id x)
             \<and> confirm_delete_company_id (session_after r2) \<noteq> Some (c_company_id a)
             \<and> backend_after r2 = b
             \<and> confirm_delete_company_id (session_after r3) = None
             \<and> backend_after r3 = b
             \<and> a \<in> set (companies (working (backend_after r3)))
             \<and> x \<in> set (companies (working (backend_after r3))))"
proof -
  let ?A = "c_company_id a" and ?B = "c_company_id x"
  let ?r1 = "tab_edit_delete_comp (Some ?A) RequestDelete s b"
  from tab_on_listed_comp [OF assms(1,2,4), where clicked = RequestDelete and s = s] obtain da where
    da: "c_company_id da = ?A"
      "?r1 = company_delete_action da RequestDelete
               (s\<lparr>selected_company_id_for_edit := Some ?A\<rparr>) b"
    by blast
  have r1: "confirm_delete_company_id (session_after ?r1) = Some ?A" "backend_after ?r1 = b"
    unfolding da(2) by (simp_all add: company_delete_action_def da(1))
  let ?s1 = "session_after ?r1"
  let ?r2 = "tab_edit_delete_comp (Some ?B) RequestDelete ?s1 b"
  from tab_on_listed_comp [OF assms(1,3,5), where clicked = RequestDelete and s = ?s1] obtain dx where
    dx: "c_company_id dx = ?B"
      "?r2 = company_delete_action dx RequestDelete
               (?s1\<lparr>selected_company_id_for_edit := Some ?B\<rparr>) b"
    by blast
  have r2: "confirm_delete_company_id (session_after ?r2) = Some ?B" "backend_after ?r2 = b"
    unfolding dx(2) by (simp_all add: company_delete_action_def dx(1))
  let ?s2 = "session_after ?r2"
  let ?r3 = "tab_edit_delete_comp (Some ?B) CancelDelete ?s2 b"
  from tab_on_listed_comp [OF assms(1,3,5), where clicked = CancelDelete and s = ?s2] obtain dy where
    dy: "c_company_id dy = ?B"
      "?r3 = company_delete_action dy CancelDelete
               (?s2\<lparr>selected_company_id_for_edit := Some ?B\<rparr>) b"
    by blast
  have r3: "confirm_delete_company_id (session_after ?r3) = None" "backend_after ?r3 = b"
    unfolding dy(2) using r2(1) by (simp_all add: company_delete_action_def dy(1))
  from r1 r2 r3 assms(2,3,6) show ?thesis
    by (simp add: Let_def)
qed

lemma company_delete_action_others:
  "confirm_delete_job_id (session_after (company_delete_action comp_dets clicked s b))
     = confirm_delete_job_id s
   \<and> confirm_delete_recruiter_id (session_after (company_delete_action comp_dets clicked s b))
     = confirm_delete_recruiter_id s
   \<and> confirm_delete_task_id (session_after (company_delete_action comp_dets clicked s b))
     = confirm_delete_task_id s"
  by (simp add: company_delete_action_def delete_company_inline_def
      split: prod.splits sum.splits)

lemma tab_comp_others:
  "confirm_delete_job_id (session_after (tab_edit_delete_comp sel clicked s b))
     = confirm_delete_job_id s
   \<and> confirm_delete_recruiter_id (session_after (tab_edit_delete_comp sel clicked s b))
     = confirm_delete_recruiter_id s
   \<and> confirm_delete_task_id (session_after (tab_edit_delete_comp sel clicked s b))
     = confirm_delete_task_id s"
proof -
  obtain rows m0 b0 where g: "get_all_companies (Some Connection) b = (rows, m0, b0)"
    by (metis prod_cases3)
  show ?thesis
  proof (cases "chosen sel (map c_company_id rows)")
    case None
    then show ?thesis by (simp add: tab_edit_delete_comp_def g)
  next
    case (Some i)
    show ?thesis
      using company_delete_action_others
        [of _ clicked "s\<lparr>selected_company_id_for_edit := Some i\<rparr>" b0]
      by (cases "find (\<lambda>c. c_company_id c = i) rows")
        (simp_all add: tab_edit_delete_comp_def g Some)
  qed
qed



subsection \<open>The delete confirmation\<close>

text \<open>
  Claim C5, amended. Each of the four tabs keeps the pending deletion in a session key
  of its own (\<open>confirm_delete_job_id\<close>, \<open>confirm_delete_recruiter_id\<close>,
  \<open>confirm_delete_company_id\<close>, \<open>confirm_delete_task_id\<close>), which holds one
  identifier of that kind at a time. For each kind, with a backend that raises nothing
  and two stored records A and B of the kind (different identifiers, none of them 0):
  after the request on A the key holds A; after the request on B it holds B and no
  longer A, and nothing was deleted; after the cancel on B it is empty again, the
  backend is the one from before and both records are stored. A pass through one tab,
  whatever is selected and clicked there, leaves the pending keys of the other three
  kinds as they are, so deletions of records of different kinds can be pending
  together.
\<close>

theorem C5_one_pending_deletion_per_kind:
  "(faults b = [] \<and> ja \<in> set (jobs (working b)) \<and> jx \<in> set (jobs (working b))
      \<and> j_job_id ja \<noteq> 0 \<and> j_job_id jx \<noteq> 0 \<and> j_job_id ja \<noteq> j_job_id jx \<longrightarrow>
     (let r1 = tab_edit_delete_job (Some (j_job_id ja)) RequestDelete s b;
          r2 = tab_edit_delete_job (Some (j_job_id jx)) RequestDelete
                 (session_after r1) (backend_after r1);
          r3 = tab_edit_delete_job (Some (j_job_id jx)) CancelDelete
                 (session_after r2) (backend_after r2)
      in confirm_delete_job_id (session_after r1) = Some (j_job_id ja)
         \<and> confirm_delete_job_id (session_after r2) = Some (j_job_id jx)
         \<and> confirm_delete_job_id (session_after r2) \<noteq> Some (j_job_id ja)
         \<and> backend_after r2 = b
         \<and> confirm_delete_job_id (session_after r3) = None
         \<and> backend_after r3 = b
         \<and> ja \<in> set (jobs (working (backend_after r3)))
         \<and> jx \<in> set (jobs (working (backend_after r3)))))
   \<and> (faults b = [] \<and> ra \<in> set (recruiters (working b)) \<and> rx \<in> set (recruiters (working b))
      \<and> r_recruiter_id ra \<noteq> 0 \<and> r_recruiter_id rx \<noteq> 0
      \<and> r_recruiter_id ra \<noteq> r_recruiter_id rx \<longrightarrow>
     (let r1 = tab_edit_delete_rec (Some (r_recruiter_id ra)) RequestDelete s b;
          r2 = tab_edit_delete_rec (Some (r_recruiter_id rx)) RequestDelete
                 (session_after r1) (backend_after r1);
          r3 = tab_edit_delete_rec (Some (r_recruiter_id rx)) CancelDelete
                 (session_after r2) (backend_after r2)
      in confirm_delete_recruiter_id (session_after r1) = Some (r_recruiter_id ra)
         \<and> confirm_delete_recruiter_id (session_after r2) = Some (r_recruiter_id rx)
         \<and> confirm_delete_recruiter_id (session_after r2) \<noteq> Some (r_recruiter_id ra)
         \<and> backend_after r2 = b
         \<and> confirm_delete_recruiter_id (session_after r3) = None
         \<and> backend_after r3 = b
         \<and> ra \<in> set (recruiters (working (backend_after r3)))
         \<and> rx \<in> set (recruiters (working (backend_after r3)))))
   \<and> (faults b = [] \<and> ca \<in> set (companies (working b)) \<and> cx \<in> set (companies (working b))
      \<and> c_company_id ca \<noteq> 0 \<and> c_company_id cx \<noteq> 0
      \<and> c_company_id ca \<noteq> c_company_id cx \<longrightarrow>
     (let r1 = tab_edit_delete_comp (Some (c_company_id ca)) RequestDelete s b;
          r2 = tab_edit_delete_comp (Some (c_company_id cx)) RequestDelete
                 (session_after r1) (backend_after r1);
          r3 = tab_edit_delete_comp (Some (c_company_id cx)) CancelDelete
                 (session_after r2) (backend_after r2)
      in confirm_delete_company_id (session_after r1) = Some (c_company_id ca)
         \<and> confirm_delete_company_id (session_after r2) = Some (c_company_id cx)
         \<and> confirm_delete_company_id (session_after r2) \<noteq> Some (c_company_id ca)
         \<and> backend_after r2 = b
         \<and> confirm_delete_company_id (session_after r3) = None
         \<and> backend_after r3 = b
         \<and> ca \<in> set (companies (working (backend_after r3)))
         \<and> cx \<in> set (companies (working (backend_after r3)))))
   \<and> (faults b = [] \<and> ta \<in> set (tasks (working b)) \<and> tx \<in> set (tasks (working b))
      \<and> t_task_id ta \<noteq> 0 \<and> t_task_id tx \<noteq> 0 \<and> t_task_id ta \<noteq> t_task_id tx \<longrightarrow>
     (let r1 = tab_edit_delete_task status_key prio_key (Some (t_task_id ta)) RequestDelete s b;
          r2 = tab_edit_delete_task status_key prio_key (Some (t_task_id tx)) RequestDelete
                 (session_after r1) (backend_after r1);
          r3 = tab_edit_delete_task status_key prio_key (Some (t_task_id tx)) CancelDelete
                 (session_after r2) (backend_after r2)
      in confirm_delete_task_id (session_after r1) = Some (t_task_id ta)
         \<and> confirm_delete_task_id (session_after r2) = Some (t_task_id tx)
         \<and> confirm_delete_task_id (session_after r2) \<noteq> Some (t_task_id ta)
         \<and> backend_after r2 = b
         \<and> confirm_delete_task_id (session_after r3) = None
         \<and> backend_after r3 = b
         \<and> ta \<in> set (tasks (working (backend_after r3)))
         \<and> tx \<in> set (tasks (working (backend_after r3)))))
   \<and> (confirm_delete_recruiter_id (session_after (tab_edit_delete_job sel clicked s b))
         = confirm_delete_recruiter_id s
      \<and> confirm_delete_company_id (session_after (tab_edit_delete_job sel clicked s b))
         = confirm_delete_company_id s
      \<and> confirm_delete_task_id (session_after (tab_edit_delete_job sel clicked s b))
         = confirm_delete_task_id s)
   \<and> (confirm_delete_job_id (session_after (tab_edit_delete_rec sel clicked s b))
         = confirm_delete_job_id s
      \<and> confirm_delete_company_id (session_after (tab_edit_delete_rec sel clicked s b))
         = confirm_delete_company_id s
      \<and> confirm_delete_task_id (session_after (tab_edit_delete_rec sel clicked s b))
         = confirm_delete_task_id s)
   \<and> (confirm_delete_job_id (session_after (tab_edit_delete_comp sel clicked s b))
         = confirm_delete_job_id s
      \<and> confirm_delete_recruiter_id (session_after (tab_edit_delete_comp sel clicked s b))
         = confirm_delete_recruiter_id s
      \<and> confirm_delete_task_id (session_after (tab_edit_delete_comp sel clicked s b))
         = confirm_delete_task_id s)
   \<and> (confirm_delete_recruiter_id
         (session_after (tab_edit_delete_task status_key prio_key sel clicked s b))
         = confirm_delete_recruiter_id s
      \<and> confirm_delete_company_id
         (session_after (tab_edit_delete_task status_key prio_key sel clicked s b))
         = confirm_delete_company_id s
      \<and> confirm_delete_job_id
         (session_after (tab_edit_delete_task status_key prio_key sel clicked s b))
         = confirm_delete_job_id s)"
  (is "(?HJ \<longrightarrow> ?CJ) \<and> (?HR \<longrightarrow> ?CR) \<and> (?HC \<longrightarrow> ?CC) \<and> (?HT \<longrightarrow> ?CT)
       \<and> ?OJ \<and> ?OR \<and> ?OC \<and> ?OT")
proof -
  have j: "?HJ \<longrightarrow> ?CJ"
  proof
    assume ?HJ
    then show ?CJ using job_pending_scenario [of b ja jx s] by blast
  qed
  have r: "?HR \<longrightarrow> ?CR"
  proof
    assume ?HR
    then show ?CR using rec_pending_scenario [of b ra rx s] by blast
  qed
  have c: "?HC \<longrightarrow> ?CC"
  proof
    assume ?HC
    then show ?CC using comp_pending_scenario [of b ca cx s] by blast
  qed
  have t: "?HT \<longrightarrow> ?CT"
  proof
    assume ?HT
    then show ?CT
      using task_pending_scenario [of b ta tx status_key prio_key s] by blast
  qed
  have oj: ?OJ by (rule tab_job_others)
  have orr: ?OR by (rule tab_rec_others)
  have oc: ?OC using tab_comp_others [of sel clicked s b] by blast
  have ot: ?OT by (rule tab_task_others)
  show ?thesis
    by (rule conjI [OF j conjI [OF r conjI [OF c conjI [OF t conjI [OF oj conjI [OF orr
      conjI [OF oc ot]]]]]]])
qed

theorem C5_one_pending_deletion_per_kind_witness:
  "faults demo_backend = []
   \<and> jobs (working demo_backend) = [demo_job1, demo_job2]
   \<and> j_job_id demo_job1 = 1 \<and> j_job_id demo_job2 = 2
   \<and> confirm_delete_job_id (session_after
        (tab_edit_delete_job (Some 1) RequestDelete demo_session demo_backend)) = Some 1
   \<and> confirm_delete_job_id (session_after
        (tab_edit_delete_job (Some 2) RequestDelete
           (session_after (tab_edit_delete_job (Some 1) RequestDelete demo_session demo_backend))
           (backend_after (tab_edit_delete_job (Some 1) RequestDelete demo_session demo_backend))))
       = Some 2
   \<and> tab_edit_delete_job (Some 2) CancelDelete
        (demo_session\<lparr>selected_job_id_for_edit := Some 2, confirm_delete_job_id := Some 2\<rparr>)
        demo_backend
       = \<lparr>shown = [Error ''FINAL WARNING: Permanently delete?''],
          session_after = demo_session\<lparr>selected_job_id_for_edit := Some 2\<rparr>,
          backend_after = demo_backend, rerun = True, raised = False\<rparr>
   \<and> tasks (working demo_backend) = [demo_task1, demo_task2, demo_task3, demo_task4]
   \<and> t_task_id demo_task1 = 1 \<and> t_task_id demo_task4 = 4
   \<and> confirm_delete_task_id (session_after
        (tab_edit_delete_task status_rank priority_rank (Some 4) RequestDelete
           (session_after (tab_edit_delete_task status_rank priority_rank (Some 1) RequestDelete
              demo_session demo_backend))
           (backend_after (tab_edit_delete_task status_rank priority_rank (Some 1) RequestDelete
              demo_session demo_backend))))
       = Some 4"
proof -
  have f: "faults demo_backend = []" by (simp add: demo_backend_def)
  have js: "jobs (working demo_backend) = [demo_job1, demo_job2]"
    by (simp add: demo_backend_def demo_db_def)
  have ts: "tasks (working demo_backend) = [demo_task1, demo_task2, demo_task3, demo_task4]"
    by (simp add: demo_backend_def demo_db_def)
  have i: "j_job_id demo_job1 = 1" "j_job_id demo_job2 = 2"
    "t_task_id demo_task1 = 1" "t_task_id demo_task4 = 4"
    by (simp_all add: demo_job1_def demo_job2_def demo_task1_def demo_task4_def)
  have e: "tab_edit_delete_job (Some 2) CancelDelete
        (demo_session\<lparr>selected_job_id_for_edit := Some 2, confirm_delete_job_id := Some 2\<rparr>)
        demo_backend
       = \<lparr>shown = [Error ''FINAL WARNING: Permanently delete?''],
          session_after = demo_session\<lparr>selected_job_id_for_edit := Some 2\<rparr>,
          backend_after = demo_backend, rerun = True, raised = False\<rparr>"
    by code_simp
  from C5_one_pending_deletion_per_kind
    [where b = demo_backend and s = demo_session and ja = demo_job1 and jx = demo_job2
       and ta = demo_task1 and tx = demo_task4
       and status_key = status_rank and prio_key = priority_rank]
    f js ts i e
  show ?thesis by (simp add: Let_def)
qed

text \<open>
  Claim C5 as stated fails for records of different kinds: after the request on job 1
  and then the request on recruiter 2, job 1 is still pending and recruiter 2 is
  pending as well, so two identifiers are stored at a time and the first pending state
  was not discarded.
\<close>

theorem C5_counterexample:
  "confirm_delete_job_id (session_after
      (tab_edit_delete_job (Some 1) RequestDelete demo_session demo_backend)) = Some 1
   \<and> confirm_delete_job_id (session_after
        (tab_edit_delete_rec (Some 2) RequestDelete
           (session_after (tab_edit_delete_job (Some 1) RequestDelete demo_session demo_backend))
           (backend_after (tab_edit_delete_job (Some 1) RequestDelete demo_session demo_backend))))
       = Some 1
   \<and> confirm_delete_recruiter_id (session_after
        (tab_edit_delete_rec (Some 2) RequestDelete
           (session_after (tab_edit_delete_job (Some 1) RequestDelete demo_session demo_backend))
           (backend_after (tab_edit_delete_job (Some 1) RequestDelete demo_session demo_backend))))
       = Some 2"
  by code_simp




end
